theory Spec2Isabelle
  imports
    Complex_Main
    "HOL-Library.Word"
    "HOL-Library.Char_ord"
    "HOL-Library.List_Lexorder"
    "HOL-Library.Sublist"
    "HOL-Library.Finite_Map"
    "HOL-Library.Log_Nat"
begin

section \<open>Go values shared by both packages\<close>

text \<open>
  Go strings are byte sequences; \<^typ>\<open>string\<close> is a list of 8-bit characters.
  A Go \<^verbatim>\<open>error\<close> value is modelled by its constructor: \<^verbatim>\<open>errors.New\<close> and
  \<^verbatim>\<open>fmt.Errorf\<close> without \<^verbatim>\<open>%w\<close> build an \<open>ErrorString\<close>, \<^verbatim>\<open>fmt.Errorf\<close> with
  \<^verbatim>\<open>%w\<close> builds a \<open>WrapError\<close> that keeps the wrapped error.
\<close>

datatype error =
    ErrorString string
  | WrapError string error

fun Error :: "error \<Rightarrow> string" where
  "Error (ErrorString s) = s"
| "Error (WrapError s e) = s @ Error e"

text \<open>
  The ways a call can end without its regular result: a returned error, a returned
  \<^verbatim>\<open>&QueryError{Err, RefID}\<close>, or a run-time panic (with the text of the Go run time).
\<close>

datatype failure =
    Returned error
  | ReturnedQueryError error string
  | Panic string

section \<open>Package models: the CloudWatch query\<close>

type_synonym MetricEditorMode = "32 word"
type_synonym MetricQueryType = "32 word"
type_synonym GMDApiMode = "32 word"

definition MetricEditorModeBuilder :: MetricEditorMode where
  "MetricEditorModeBuilder = 0"

definition MetricEditorModeRaw :: MetricEditorMode where
  "MetricEditorModeRaw = 1"

definition MetricQueryTypeSearch :: MetricQueryType where
  "MetricQueryTypeSearch = 0"

definition MetricQueryTypeQuery :: MetricQueryType where
  "MetricQueryTypeQuery = 1"

definition GMDApiModeMetricStat :: GMDApiMode where
  "GMDApiModeMetricStat = 0"

definition GMDApiModeInferredSearchExpression :: GMDApiMode where
  "GMDApiModeInferredSearchExpression = 1"

definition GMDApiModeMathExpression :: GMDApiMode where
  "GMDApiModeMathExpression = 2"

definition GMDApiModeSQLExpression :: GMDApiMode where
  "GMDApiModeSQLExpression = 3"

lemmas mode_consts =
  MetricEditorModeBuilder_def MetricEditorModeRaw_def
  MetricQueryTypeSearch_def MetricQueryTypeQuery_def
  GMDApiModeMetricStat_def GMDApiModeInferredSearchExpression_def
  GMDApiModeMathExpression_def GMDApiModeSQLExpression_def

definition defaultRegion :: string where
  "defaultRegion = ''default''"

text \<open>
  A Go \<^verbatim>\<open>map[string][]string\<close> is a finite map, which has no order. \<^verbatim>\<open>len(m)\<close> is the number
  of its keys. A \<^verbatim>\<open>range\<close> loop visits the entries in an order that the language leaves
  open; \<open>entries\<close> is one such enumeration, by ascending key.
\<close>

type_synonym dimensions = "(string, string list) fmap"

definition len :: "dimensions \<Rightarrow> nat" where
  "len m = fcard (fmdom m)"

definition entries :: "dimensions \<Rightarrow> (string \<times> string list) list" where
  "entries m = sorted_list_of_fmap m"

record CloudWatchQuery =
  RefId :: string
  Region :: string
  Id :: string
  Namespace :: string
  MetricName :: string
  Statistic :: string
  Expression :: string
  SqlExpression :: string
  ReturnData :: bool
  Dimensions :: dimensions
  Period :: int
  Alias :: string
  Label :: string
  MatchExact :: bool
  UsedExpression :: string
  TimezoneUTCOffset :: string
  MetricQueryType :: MetricQueryType
  MetricEditorMode :: MetricEditorMode
  AccountId :: "string option"

text \<open>The inner loop of \<^verbatim>\<open>IsInferredSearchExpression\<close>: \<^verbatim>\<open>for _, v := range values\<close>.\<close>

fun has_wildcard :: "string list \<Rightarrow> bool" where
  "has_wildcard [] = False"
| "has_wildcard (v # vs) = (if v = ''*'' then True else has_wildcard vs)"

text \<open>The outer loop: \<^verbatim>\<open>for _, values := range q.Dimensions\<close>, falling through to \<^verbatim>\<open>false\<close>.\<close>

fun inferred_loop :: "(string \<times> string list) list \<Rightarrow> bool" where
  "inferred_loop [] = False"
| "inferred_loop ((k, vals) # rest) =
     (if length vals > 1 then True
      else if has_wildcard vals then True
      else inferred_loop rest)"

definition IsInferredSearchExpression :: "CloudWatchQuery \<Rightarrow> bool" where
  "IsInferredSearchExpression q =
     (if MetricQueryType q \<noteq> MetricQueryTypeSearch \<or> MetricEditorMode q \<noteq> MetricEditorModeBuilder
      then False
      else if AccountId q \<noteq> None \<and> the (AccountId q) = ''all'' then True
      else if len (Dimensions q) = 0 then \<not> MatchExact q
      else if \<not> MatchExact q then True
      else inferred_loop (entries (Dimensions q)))"

text \<open>
  \<^verbatim>\<open>GetGMDAPIMode\<close> returns the mode; its only effect is the warning it logs on the
  fallback path, returned here as the list of messages handed to the logger.
\<close>

definition GetGMDAPIMode :: "CloudWatchQuery \<Rightarrow> GMDApiMode \<times> string list" where
  "GetGMDAPIMode q =
     (if MetricQueryType q = MetricQueryTypeSearch \<and> MetricEditorMode q = MetricEditorModeBuilder
      then (if IsInferredSearchExpression q
            then (GMDApiModeInferredSearchExpression, [])
            else (GMDApiModeMetricStat, []))
      else if MetricQueryType q = MetricQueryTypeSearch \<and> MetricEditorMode q = MetricEditorModeRaw
      then (GMDApiModeMathExpression, [])
      else if MetricQueryType q = MetricQueryTypeQuery
      then (GMDApiModeSQLExpression, [])
      else (GMDApiModeMetricStat,
            [''could not resolve CloudWatch metric query type. Falling back to metric stat.'']))"

section \<open>The decoded query description\<close>

text \<open>
  \<^verbatim>\<open>json.Unmarshal\<close> fills a \<^verbatim>\<open>metricsDataQuery\<close>; the decoded structure is the input of the
  model. A pointer field is an \<open>option\<close> (\<open>None\<close> is \<^verbatim>\<open>nil\<close>), and so is a slice where the
  code tells \<^verbatim>\<open>nil\<close> from empty. The fields carry the prefix \<open>mdq_\<close> to keep them apart from
  the fields of \<^verbatim>\<open>CloudWatchQuery\<close>. A value decoded into \<^verbatim>\<open>interface{}\<close> is one of the six
  shapes that \<^verbatim>\<open>encoding/json\<close> produces. The decoded dimensions are a map as well; they
  are given by the list of their entries (with distinct keys) in the order in which the
  \<^verbatim>\<open>range\<close> loop of \<^verbatim>\<open>parseDimensions\<close> visits them, because the loop stops at the first
  value that it cannot take and what it then does depends on that value.
\<close>

datatype iface =
    JNull
  | JBool bool
  | JNumber rat
  | JString string
  | JArray "iface list"
  | JObject "(string \<times> iface) list"

record metricsDataQuery =
  mdq_Dimensions :: "(string \<times> iface) list"
  mdq_Expression :: string
  mdq_Label :: "string option"
  mdq_Id :: string
  mdq_MatchExact :: "bool option"
  mdq_MetricEditorMode :: "MetricEditorMode option"
  mdq_MetricName :: string
  mdq_MetricQueryType :: MetricQueryType
  mdq_Namespace :: string
  mdq_Period :: string
  mdq_Region :: string
  mdq_SqlExpression :: string
  mdq_Statistic :: "string option"
  mdq_Statistics :: "string option list option"
  mdq_TimezoneUTCOffset :: string
  mdq_QueryType :: string
  mdq_Hide :: "bool option"
  mdq_Alias :: string
  mdq_AccountId :: "string option"

definition timeSeriesQuery :: string where
  "timeSeriesQuery = ''timeSeriesQuery''"

section \<open>Period resolution\<close>

text \<open>
  A \<^verbatim>\<open>time.Time\<close> is an instant counted in nanoseconds, a \<^verbatim>\<open>time.Duration\<close> a 64-bit
  count of nanoseconds. \<^verbatim>\<open>Time.Sub\<close> saturates at the ends of the 64-bit range.
\<close>

type_synonym Time = int
type_synonym Duration = int

definition maxDuration :: Duration where
  "maxDuration = 2 ^ 63 - 1"

definition minDuration :: Duration where
  "minDuration = - (2 ^ 63)"

definition Second :: Duration where
  "Second = 1000000000"

definition Hour :: Duration where
  "Hour = 3600 * Second"

definition Sub :: "Time \<Rightarrow> Time \<Rightarrow> Duration" where
  "Sub t u =
     (let d = t - u
      in if d > maxDuration then maxDuration
         else if d < minDuration then minDuration
         else d)"

text \<open>
  A \<^verbatim>\<open>float64\<close> is the rational it stands for, and an operation on floats is the exact
  operation followed by \<open>float64\<close>, the rounding to the nearest number with a significand
  of 53 bits, ties to the even one. Overflow and subnormal numbers are left out: the
  values met here lie between \<open>10\<^sup>-\<^sup>9\<close> and \<open>10\<^sup>1\<^sup>0\<close> in magnitude, or are zero.
\<close>

definition pow2 :: "int \<Rightarrow> rat" where
  "pow2 e = (if 0 \<le> e then 2 ^ nat e else 1 / 2 ^ nat (- e))"

definition round_half_even :: "rat \<Rightarrow> int" where
  "round_half_even x =
     (let f = \<lfloor>x\<rfloor>; r = x - of_int f
      in if r < 1 / 2 then f
         else if 1 / 2 < r then f + 1
         else if even f then f else f + 1)"

definition float64 :: "rat \<Rightarrow> rat" where
  "float64 x =
     (if x = 0 then 0
      else (let a = \<bar>x\<bar>;
                e0 = bitlen (fst (quotient_of a)) - bitlen (snd (quotient_of a));
                e = (if pow2 e0 \<le> a then e0 else e0 - 1)
            in sgn x * of_int (round_half_even (a / pow2 (e - 52))) * pow2 (e - 52)))"

text \<open>Go's integer division truncates towards zero, and the remainder has the sign of the dividend.\<close>

definition quo :: "int \<Rightarrow> int \<Rightarrow> int" where
  "quo a b = sgn a * sgn b * (\<bar>a\<bar> div \<bar>b\<bar>)"

definition rem :: "int \<Rightarrow> int \<Rightarrow> int" where
  "rem a b = a - b * quo a b"

text \<open>
  \<^verbatim>\<open>Duration.Seconds\<close>: \<^verbatim>\<open>sec := d / Second; nsec := d % Second;
  return float64(sec) + float64(nsec)/1e9\<close>.
\<close>

definition Seconds :: "Duration \<Rightarrow> rat" where
  "Seconds d =
     (let sec = quo d Second; nsec = rem d Second
      in float64 (float64 (of_int sec) + float64 (float64 (of_int nsec) / 1000000000)))"

text \<open>The conversion \<^verbatim>\<open>int(x)\<close> of a float: truncation towards zero.\<close>

definition go_int :: "rat \<Rightarrow> int" where
  "go_int x = (if 0 \<le> x then \<lfloor>x\<rfloor> else \<lceil>x\<rceil>)"

definition getRetainedPeriods :: "Duration \<Rightarrow> int list" where
  "getRetainedPeriods timeSince =
     (if timeSince > 455 * 24 * Hour then [21600, 86400]
      else if timeSince > 63 * 24 * Hour then [3600, 21600, 86400]
      else if timeSince > 15 * 24 * Hour then [300, 900, 3600, 21600, 86400]
      else [60, 300, 900, 3600, 21600, 86400])"

text \<open>
  \<^verbatim>\<open>strings.ToLower\<close> on the ASCII letters. A byte outside ASCII is left alone; the
  result is only compared with \<^verbatim>\<open>"auto"\<close>, which no such byte can produce.
\<close>

definition lower_char :: "char \<Rightarrow> char" where
  "lower_char c =
     (let n = (of_char c :: nat) in if 65 \<le> n \<and> n \<le> 90 then char_of (n + 32) else c)"

definition ToLower :: "string \<Rightarrow> string" where
  "ToLower s = map lower_char s"

definition maxInt :: int where
  "maxInt = 2 ^ 63 - 1"

definition minInt :: int where
  "minInt = - (2 ^ 63)"

text \<open>
  \<^verbatim>\<open>strconv.Atoi\<close> for a 64-bit \<^verbatim>\<open>int\<close>: an optional sign, then one or more decimal
  digits, and the value must fit; \<open>None\<close> stands for its syntax and range errors, which
  \<^verbatim>\<open>getPeriod\<close> does not look at. The loop \<^verbatim>\<open>n = n*10 + int(ch)\<close> is \<open>atoi_digits\<close>.
\<close>

fun atoi_digits :: "int \<Rightarrow> string \<Rightarrow> int option" where
  "atoi_digits n [] = Some n"
| "atoi_digits n (ch # s) =
     (let d = (of_char ch :: nat)
      in if 48 \<le> d \<and> d \<le> 57 then atoi_digits (n * 10 + (int d - 48)) s else None)"

definition Atoi :: "string \<Rightarrow> int option" where
  "Atoi s0 =
     (case s0 of
        [] \<Rightarrow> None
      | c # cs \<Rightarrow>
          (let s = (if c = CHR ''-'' \<or> c = CHR ''+'' then cs else s0)
           in if s = [] then None
              else (case atoi_digits 0 s of
                      None \<Rightarrow> None
                    | Some n \<Rightarrow>
                        (let v = (if c = CHR ''-'' then - n else n)
                         in if minInt \<le> v \<and> v \<le> maxInt then Some v else None))))"

text \<open>The loop of \<^verbatim>\<open>getPeriod\<close> over the candidates, with \<^verbatim>\<open>period\<close> as set before it.\<close>

fun pick_period :: "int \<Rightarrow> int list \<Rightarrow> int \<Rightarrow> int" where
  "pick_period datapoints [] period = period"
| "pick_period datapoints (v # rest) period =
     (if datapoints \<le> v then v else pick_period datapoints rest period)"

text \<open>
  \<^verbatim>\<open>getPeriod\<close>. \<^verbatim>\<open>time.ParseDuration\<close> is a parameter (it returns nanoseconds or an
  error), and so is the clock read by \<^verbatim>\<open>time.Since\<close>. \<^verbatim>\<open>datapoints\<close> is
  \<^verbatim>\<open>int(math.Ceil(deltaInSeconds / 2000))\<close>, a division of floats. Indexing an empty
  \<^verbatim>\<open>periods\<close> would panic.
\<close>

definition getPeriod ::
  "(string \<Rightarrow> error + Duration) \<Rightarrow> Time \<Rightarrow> metricsDataQuery \<Rightarrow> Time \<Rightarrow> Time \<Rightarrow> failure + int" where
  "getPeriod ParseDuration now query startTime endTime =
     (let periodString = mdq_Period query
      in if ToLower periodString = ''auto'' \<or> periodString = []
         then (let deltaInSeconds = Seconds (Sub endTime startTime);
                   periods = getRetainedPeriods (Sub now startTime);
                   datapoints = \<lceil>float64 (deltaInSeconds / 2000)\<rceil>
               in if periods = [] then Inl (Panic ''index out of range [-1]'')
                  else Inr (pick_period datapoints periods (last periods)))
         else (case Atoi periodString of
                 Some period \<Rightarrow> Inr period
               | None \<Rightarrow>
                   (case ParseDuration periodString of
                      Inl err \<Rightarrow>
                        Inl (Returned (ErrorString
                          (''failed to parse period as duration: '' @ Error err)))
                    | Inr d \<Rightarrow> Inr (go_int (Seconds d)))))"

section \<open>Dimension normalization\<close>

text \<open>
  Reading \<^verbatim>\<open>m[k]\<close> from a Go map gives the zero value (the \<^verbatim>\<open>nil\<close> slice, which is the
  empty list) for a key that is absent; writing \<^verbatim>\<open>m[k] = v\<close> is \<^const>\<open>fmupd\<close>.
\<close>

definition index :: "dimensions \<Rightarrow> string \<Rightarrow> string list" where
  "index m k = (case fmlookup m k of None \<Rightarrow> [] | Some vs \<Rightarrow> vs)"

text \<open>The dynamic type named by the panic of a failed type assertion \<^verbatim>\<open>value.(string)\<close>.\<close>

fun type_name :: "iface \<Rightarrow> string" where
  "type_name JNull = ''nil''"
| "type_name (JBool b) = ''bool''"
| "type_name (JNumber x) = ''float64''"
| "type_name (JString s) = ''string''"
| "type_name (JArray xs) = ''[]interface {}''"
| "type_name (JObject kvs) = ''map[string]interface {}''"

text \<open>
  The inner loop of \<^verbatim>\<open>parseDimensions\<close>:
  \<^verbatim>\<open>parsedDimensions[k] = append(parsedDimensions[k], value.(string))\<close>.
  The unchecked assertion panics on an element that is not a string.
\<close>

fun append_values :: "string \<Rightarrow> iface list \<Rightarrow> dimensions \<Rightarrow> failure + dimensions" where
  "append_values k [] m = Inr m"
| "append_values k (JString s # rest) m =
     append_values k rest (fmupd k (index m k @ [s]) m)"
| "append_values k (v # rest) m =
     Inl (Panic (''interface conversion: interface {} is '' @ type_name v @ '', not string''))"

text \<open>The outer loop \<^verbatim>\<open>for k, v := range dimensions\<close>, in the order the entries are visited.\<close>

fun parse_loop :: "(string \<times> iface) list \<Rightarrow> dimensions \<Rightarrow> failure + dimensions" where
  "parse_loop [] m = Inr m"
| "parse_loop ((k, JString s) # rest) m = parse_loop rest (fmupd k [s] m)"
| "parse_loop ((k, JArray vs) # rest) m =
     (case append_values k vs m of
        Inl e \<Rightarrow> Inl e
      | Inr m' \<Rightarrow> parse_loop rest m')"
| "parse_loop ((k, v) # rest) m =
     Inl (Returned (ErrorString ''unknown type as dimension value''))"

text \<open>
  \<^verbatim>\<open>sortDimensions\<close> collects the keys, sorts them (\<^verbatim>\<open>sort.Strings\<close> compares byte-wise) and
  copies the entries into a new map, key by key in that order. The result is a map again:
  the order of the copying leaves no trace in it.
\<close>

definition sortDimensions :: "dimensions \<Rightarrow> dimensions" where
  "sortDimensions dims =
     (let keys = sort (map fst (entries dims))
      in fold (\<lambda>k sortedDimensions. fmupd k (index dims k) sortedDimensions) keys fmempty)"

definition parseDimensions :: "(string \<times> iface) list \<Rightarrow> failure + dimensions" where
  "parseDimensions dims =
     (case parse_loop dims fmempty of
        Inl e \<Rightarrow> Inl e
      | Inr parsedDimensions \<Rightarrow> Inr (sortDimensions parsedDimensions))"

section \<open>Identifiers\<close>

text \<open>
  \<^verbatim>\<open>validMetricDataID\<close> is the regular expression \<^verbatim>\<open>^[a-z][a-zA-Z0-9_]*$\<close>; without the
  multi-line flag, \<^verbatim>\<open>$\<close> only matches at the end of the text. The classes are ASCII, so
  matching bytes is matching runes.
\<close>

definition is_lower :: "char \<Rightarrow> bool" where
  "is_lower c = (let n = (of_char c :: nat) in 97 \<le> n \<and> n \<le> 122)"

definition is_word :: "char \<Rightarrow> bool" where
  "is_word c =
     (let n = (of_char c :: nat)
      in (97 \<le> n \<and> n \<le> 122) \<or> (65 \<le> n \<and> n \<le> 90) \<or> (48 \<le> n \<and> n \<le> 57) \<or> n = 95)"

definition validMetricDataID :: "string \<Rightarrow> bool" where
  "validMetricDataID s = (case s of [] \<Rightarrow> False | c # cs \<Rightarrow> is_lower c \<and> list_all is_word cs)"

text \<open>
  \<^verbatim>\<open>strings.ReplaceAll(s, old, new)\<close>: the occurrences of \<^verbatim>\<open>old\<close> that do not overlap,
  from the left. For an empty \<^verbatim>\<open>old\<close> Go inserts \<^verbatim>\<open>new\<close> before every character and at the
  end.
\<close>

function replace_from :: "string \<Rightarrow> string \<Rightarrow> string \<Rightarrow> string" where
  "replace_from old new [] = []"
| "replace_from old new (c # cs) =
     (if old \<noteq> [] \<and> prefix old (c # cs)
      then new @ replace_from old new (drop (length old) (c # cs))
      else c # replace_from old new cs)"
  by pat_completeness auto
termination
  by (relation "measure (\<lambda>(old, new, s). length s)") auto

definition ReplaceAll :: "string \<Rightarrow> string \<Rightarrow> string \<Rightarrow> string" where
  "ReplaceAll s old new =
     (if old = [] then concat (map (\<lambda>c. new @ [c]) s) @ new
      else replace_from old new s)"

section \<open>Statistic and label migration\<close>

text \<open>
  \<^verbatim>\<open>getStatistic\<close> indexes \<^verbatim>\<open>query.Statistics[0]\<close> and dereferences the element without a
  check: an empty (or \<^verbatim>\<open>nil\<close>) slice and a \<^verbatim>\<open>nil\<close> element panic.
\<close>

definition getStatistic :: "metricsDataQuery \<Rightarrow> failure + string" where
  "getStatistic query =
     (case mdq_Statistic query of
        None \<Rightarrow>
          (case mdq_Statistics query of
             None \<Rightarrow> Inl (Panic ''index out of range [0] with length 0'')
           | Some [] \<Rightarrow> Inl (Panic ''index out of range [0] with length 0'')
           | Some (None # rest) \<Rightarrow> Inl (Panic ''invalid memory address or nil pointer dereference'')
           | Some (Some stat # rest) \<Rightarrow> Inr stat)
      | Some stat \<Rightarrow> Inr stat)"

definition aliasPatterns :: "string \<Rightarrow> string option" where
  "aliasPatterns = map_of
     [(''metric'', ''${PROP('MetricName')}''),
      (''namespace'', ''${PROP('Namespace')}''),
      (''period'', ''${PROP('Period')}''),
      (''region'', ''${PROP('Region')}''),
      (''stat'', ''${PROP('Stat')}''),
      (''label'', ''${LABEL}'')]"

text \<open>
  \<^verbatim>\<open>legacyAliasRegexp\<close> is \<^verbatim>\<open>{{\s*(.+?)\s*}}\<close>, matched with Go's leftmost-first rule: the
  match is the one a backtracking search finds first. \<^verbatim>\<open>\s\<close> is one of tab, line feed, form
  feed, carriage return and space; \<^verbatim>\<open>.\<close> is any character but the line feed. All of these
  are ASCII, so the search over bytes finds the matches of the search over runes.

  \<open>closing\<close> is the tail \<^verbatim>\<open>\s*}}\<close>: the greedy run of blanks can give nothing back, since
  \<^verbatim>\<open>}\<close> is not a blank. It returns the number of characters matched.
\<close>

definition isSpace :: "char \<Rightarrow> bool" where
  "isSpace c = (c = CHR 0x09 \<or> c = CHR 0x0A \<or> c = CHR 0x0C \<or> c = CHR 0x0D \<or> c = CHR 0x20)"

definition closing :: "string \<Rightarrow> nat option" where
  "closing s =
     (if prefix ''}}'' (dropWhile isSpace s)
      then Some (length (takeWhile isSpace s) + 2)
      else None)"

text \<open>
  The lazy group \<^verbatim>\<open>(.+?)\<close> followed by the tail: with \<open>n\<close> characters in the group, try the
  tail, and only when it fails take one more character. The result is the length of the
  group and of the tail.
\<close>

fun lazy_group :: "nat \<Rightarrow> string \<Rightarrow> (nat \<times> nat) option" where
  "lazy_group n [] = None"
| "lazy_group n (c # cs) =
     (case closing (c # cs) of
        Some m \<Rightarrow> Some (n, m)
      | None \<Rightarrow> if c = CHR 0x0A then None else lazy_group (Suc n) cs)"

definition group_at :: "string \<Rightarrow> (nat \<times> nat) option" where
  "group_at s =
     (case s of
        [] \<Rightarrow> None
      | c # cs \<Rightarrow> if c = CHR 0x0A then None else lazy_group 1 cs)"

text \<open>
  The greedy \<^verbatim>\<open>\s*\<close> after \<^verbatim>\<open>{{\<close>: first all \<open>j\<close> blanks, then one fewer, down to none.
  The result is the number of blanks kept, the length of the group and of the tail.
\<close>

fun leading :: "nat \<Rightarrow> string \<Rightarrow> (nat \<times> nat \<times> nat) option" where
  "leading 0 s = (case group_at s of Some (g, m) \<Rightarrow> Some (0, g, m) | None \<Rightarrow> None)"
| "leading (Suc j) s =
     (case group_at (drop (Suc j) s) of
        Some (g, m) \<Rightarrow> Some (Suc j, g, m)
      | None \<Rightarrow> leading j s)"

text \<open>A match that starts at the head of \<open>s\<close>: its length and the text of the group.\<close>

definition match_here :: "string \<Rightarrow> (nat \<times> string) option" where
  "match_here s =
     (if prefix ''{{'' s
      then (case leading (length (takeWhile isSpace (drop 2 s))) (drop 2 s) of
              Some (j, g, m) \<Rightarrow> Some (2 + j + g + m, take g (drop (2 + j) s))
            | None \<Rightarrow> None)
      else None)"

lemma match_here_pos: "match_here s = Some (n, g) \<Longrightarrow> 0 < n"
  by (auto simp: match_here_def split: if_splits option.splits)

text \<open>
  \<^verbatim>\<open>FindAllStringSubmatch(s, -1)\<close>: the successive matches, each search starting where the
  last match ended. An entry is the pair of \<^verbatim>\<open>groups[0]\<close> and \<^verbatim>\<open>groups[1]\<close>.
\<close>

function FindAllStringSubmatch :: "string \<Rightarrow> (string \<times> string) list" where
  "FindAllStringSubmatch [] = []"
| "FindAllStringSubmatch (c # cs) =
     (case match_here (c # cs) of
        Some (n, g) \<Rightarrow> (take n (c # cs), g) # FindAllStringSubmatch (drop n (c # cs))
      | None \<Rightarrow> FindAllStringSubmatch cs)"
  by pat_completeness auto
termination
  by (relation "measure length") (auto dest: match_here_pos)

text \<open>The loop of \<^verbatim>\<open>getLabel\<close> over the matches, rewriting \<^verbatim>\<open>fullAliasField\<close>.\<close>

fun replace_matches :: "(string \<times> string) list \<Rightarrow> string \<Rightarrow> string" where
  "replace_matches [] fullAliasField = fullAliasField"
| "replace_matches ((fullMatch, subgroup) # rest) fullAliasField =
     replace_matches rest
       (case aliasPatterns subgroup of
          Some dynamicLabel \<Rightarrow> ReplaceAll fullAliasField fullMatch dynamicLabel
        | None \<Rightarrow> ReplaceAll fullAliasField fullMatch (''${PROP('Dim.'' @ subgroup @ ''')}''))"

definition getLabel :: "metricsDataQuery \<Rightarrow> bool \<Rightarrow> string" where
  "getLabel query dynamicLabelsEnabled =
     (case mdq_Label query of
        Some label \<Rightarrow> label
      | None \<Rightarrow>
          if mdq_Alias query = [] then []
          else if dynamicLabelsEnabled
          then replace_matches (FindAllStringSubmatch (mdq_Alias query)) (mdq_Alias query)
          else [])"

section \<open>Query normalization\<close>

text \<open>
  \<^verbatim>\<open>validateAndSetDefaults\<close> updates the query in place and returns an error; the model
  returns the updated query. Besides \<^verbatim>\<open>time.ParseDuration\<close> and the clock, the text
  returned by \<^verbatim>\<open>uuid.NewString()\<close> is a parameter.
\<close>

definition validateAndSetDefaults ::
  "(string \<Rightarrow> error + Duration) \<Rightarrow> Time \<Rightarrow> string \<Rightarrow> CloudWatchQuery \<Rightarrow> string \<Rightarrow>
   metricsDataQuery \<Rightarrow> Time \<Rightarrow> Time \<Rightarrow> string \<Rightarrow> bool \<Rightarrow> failure + CloudWatchQuery" where
  "validateAndSetDefaults ParseDuration now newUUID q refId metricsDataQuery startTime endTime
       defaultRegionValue crossAccountQueryingEnabled =
     (if mdq_Statistic metricsDataQuery = None \<and> mdq_Statistics metricsDataQuery = None
      then Inl (Returned (ErrorString ''query must have either statistic or statistics field''))
      else
       (case getPeriod ParseDuration now metricsDataQuery startTime endTime of
          Inl err \<Rightarrow> Inl err
        | Inr period \<Rightarrow>
       (case parseDimensions (mdq_Dimensions metricsDataQuery) of
          Inl (Returned err) \<Rightarrow>
            Inl (Returned (ErrorString (''failed to parse dimensions: '' @ Error err)))
        | Inl other \<Rightarrow> Inl other
        | Inr dims \<Rightarrow>
       (let q = q\<lparr>Period := period, Dimensions := dims\<rparr>;
            q = (if crossAccountQueryingEnabled
                 then q\<lparr>AccountId := mdq_AccountId metricsDataQuery\<rparr> else q);
            q = (if mdq_Id metricsDataQuery = []
                 then (let suffix = (if \<not> validMetricDataID refId
                                     then ReplaceAll newUUID ''-'' [] else refId)
                       in q\<lparr>Id := ''query'' @ suffix\<rparr>)
                 else q);
            q = q\<lparr>MatchExact := (case mdq_MatchExact metricsDataQuery of
                                    None \<Rightarrow> True | Some b \<Rightarrow> b)\<rparr>;
            q = q\<lparr>ReturnData := (case mdq_Hide metricsDataQuery of
                                    None \<Rightarrow> True | Some h \<Rightarrow> \<not> h)\<rparr>;
            q = (if mdq_QueryType metricsDataQuery = [] then q\<lparr>ReturnData := True\<rparr> else q);
            q = (if mdq_MetricEditorMode metricsDataQuery = None
                    \<and> length (mdq_Expression metricsDataQuery) > 0
                 then q\<lparr>MetricEditorMode := MetricEditorModeRaw\<rparr>
                 else (case mdq_MetricEditorMode metricsDataQuery of
                         Some mode \<Rightarrow> q\<lparr>MetricEditorMode := mode\<rparr>
                       | None \<Rightarrow> q\<lparr>MetricEditorMode := MetricEditorModeBuilder\<rparr>));
            q = (if Region q = defaultRegion then q\<lparr>Region := defaultRegionValue\<rparr> else q)
        in Inr q))))"

definition migrateLegacyQuery ::
  "CloudWatchQuery \<Rightarrow> metricsDataQuery \<Rightarrow> bool \<Rightarrow> failure + CloudWatchQuery" where
  "migrateLegacyQuery q query dynamicLabelsEnabled =
     (case getStatistic query of
        Inl p \<Rightarrow> Inl p
      | Inr stat \<Rightarrow> Inr (q\<lparr>Statistic := stat, Label := getLabel query dynamicLabelsEnabled\<rparr>))"

text \<open>
  \<^verbatim>\<open>ParseMetricDataQueries\<close>. The outcome of \<^verbatim>\<open>json.Unmarshal(q.JSON, &metricsDataQuery)\<close> is
  the argument \<open>decoded\<close>: the error, or the structure it filled. The result \<open>Inl\<close> stands for
  the pair of a \<^verbatim>\<open>nil\<close> query and an error (or for a panic), \<open>Inr\<close> for a query and a \<^verbatim>\<open>nil\<close>
  error. The fields that no statement of the function sets keep their zero values.
\<close>

definition ParseMetricDataQueries ::
  "(string \<Rightarrow> error + Duration) \<Rightarrow> Time \<Rightarrow> string \<Rightarrow> error + metricsDataQuery \<Rightarrow> string \<Rightarrow>
   Time \<Rightarrow> Time \<Rightarrow> string \<Rightarrow> bool \<Rightarrow> bool \<Rightarrow> failure + CloudWatchQuery" where
  "ParseMetricDataQueries ParseDuration now newUUID decoded q_RefID startTime endTime
       defaultRegion' dynamicLabelsEnabled crossAccountQueryingEnabled =
     (case decoded of
        Inl err \<Rightarrow> Inl (ReturnedQueryError err q_RefID)
      | Inr metricsDataQuery0 \<Rightarrow>
         (let metricsDataQuery =
                (if mdq_Region metricsDataQuery0 = []
                 then metricsDataQuery0\<lparr>mdq_Region := defaultRegion'\<rparr>
                 else metricsDataQuery0);
              queryType = mdq_QueryType metricsDataQuery
          in if queryType = timeSeriesQuery
             then (let cwQuery =
                        \<lparr>RefId = q_RefID,
                         Region = mdq_Region metricsDataQuery,
                         Id = mdq_Id metricsDataQuery,
                         Namespace = mdq_Namespace metricsDataQuery,
                         MetricName = mdq_MetricName metricsDataQuery,
                         Statistic = [],
                         Expression = mdq_Expression metricsDataQuery,
                         SqlExpression = mdq_SqlExpression metricsDataQuery,
                         ReturnData = False,
                         Dimensions = fmempty,
                         Period = 0,
                         Alias = mdq_Alias metricsDataQuery,
                         Label = [],
                         MatchExact = False,
                         UsedExpression = [],
                         TimezoneUTCOffset = mdq_TimezoneUTCOffset metricsDataQuery,
                         MetricQueryType = mdq_MetricQueryType metricsDataQuery,
                         MetricEditorMode = 0,
                         AccountId = None\<rparr>
                   in (case validateAndSetDefaults ParseDuration now newUUID cwQuery q_RefID
                               metricsDataQuery startTime endTime defaultRegion'
                               crossAccountQueryingEnabled of
                         Inl (Returned err) \<Rightarrow> Inl (ReturnedQueryError err q_RefID)
                       | Inl other \<Rightarrow> Inl other
                       | Inr cwQuery' \<Rightarrow>
                           migrateLegacyQuery cwQuery' metricsDataQuery dynamicLabelsEnabled))
             else Inl (Returned (ErrorString ''its not a time series query''))))"

section \<open>Package infinity: the framing pipeline\<close>

text \<open>
  The structures \<^verbatim>\<open>GetCSVBackendResponse\<close> reads and builds, with the fields it uses.
  \<^verbatim>\<open>models.Query\<close>, its columns and its CSV options are declared outside the files at hand;
  their fields are those the function selects. A \<^verbatim>\<open>*data.Frame\<close> is an \<open>option\<close>; the
  type of a field of a frame is left open.
\<close>

record InfinityColumn =
  col_Selector :: string
  col_Text :: string
  col_Type :: string
  col_TimeStampFormat :: string

record InfinityCSVOptions =
  csv_Comment :: string
  csv_Delimiter :: string
  csv_SkipLinesWithError :: bool
  csv_RelaxColumnCount :: bool
  csv_Columns :: string

record Query =
  RefID :: string
  Type :: string
  Format :: string
  Columns :: "InfinityColumn list"
  CSVOptions :: InfinityCSVOptions
  ComputedColumns :: "InfinityColumn list"
  FilterExpression :: string
  SummarizeExpression :: string
  SummarizeBy :: string

record ColumnSelector =
  sel_Selector :: string
  sel_Alias :: string
  sel_Type :: string
  sel_TimeFormat :: string

record CSVFramerOptions =
  FrameName :: string
  opt_Columns :: "ColumnSelector list"
  opt_Comment :: string
  opt_Delimiter :: string
  opt_SkipLinesWithError :: bool
  opt_RelaxColumnCount :: bool
  NoHeaders :: bool

record CustomMeta =
  meta_Query :: Query
  meta_Error :: string

text \<open>Of \<^verbatim>\<open>data.FrameMeta\<close>, \<open>Custom\<close> and one more field that stands for the others.\<close>

record FrameMeta =
  Custom :: "CustomMeta option"
  ExecutedQueryString :: string

record 'f Frame =
  Name :: string
  Fields :: "'f list"
  Meta :: "FrameMeta option"

datatype TimeSeriesType = TimeSeriesTypeNot | TimeSeriesTypeLong | TimeSeriesTypeWide

text \<open>
  The functions that \<^verbatim>\<open>GetCSVBackendResponse\<close> calls and that are not in the files at hand
  are parameters: each maps its arguments to the pair of a frame pointer and an error that
  the Go function returns. \<^verbatim>\<open>QueryTypeTSV\<close> is a constant of package \<^verbatim>\<open>models\<close>,
  \<^verbatim>\<open>strings.TrimSpace\<close> the library function (it trims Unicode white space).
\<close>

record 'f collaborators =
  QueryTypeTSV :: string
  TrimSpace :: "string \<Rightarrow> string"
  GetDummyFrame :: "Query \<Rightarrow> 'f Frame option"
  CsvStringToFrame :: "string \<Rightarrow> CSVFramerOptions \<Rightarrow> 'f Frame option \<times> error option"
  GetFrameWithComputedColumns ::
    "'f Frame option \<Rightarrow> InfinityColumn list \<Rightarrow> 'f Frame option \<times> error option"
  ApplyFilter :: "'f Frame option \<Rightarrow> string \<Rightarrow> 'f Frame option \<times> error option"
  GetSummaryFrame :: "'f Frame option \<Rightarrow> string \<Rightarrow> string \<Rightarrow> 'f Frame option \<times> error option"
  TimeSeriesSchemaType :: "'f Frame \<Rightarrow> TimeSeriesType"
  LongToWide :: "'f Frame option \<Rightarrow> 'f Frame option \<times> error option"

text \<open>
  What the function does besides returning: the calls it makes and the messages it logs,
  in order.
\<close>

datatype event =
    CallGetDummyFrame
  | CallCsvStringToFrame
  | CallGetFrameWithComputedColumns
  | CallApplyFilter
  | CallGetSummaryFrame
  | CallTimeSeriesSchema
  | CallLongToWide
  | LogError string string

type_synonym 'f outcome = "event list \<times> (failure + ('f Frame option \<times> error option))"

definition nil_dereference :: failure where
  "nil_dereference = Panic ''invalid memory address or nil pointer dereference''"

text \<open>
  The assignment \<^verbatim>\<open>frame.Meta.Custom = &CustomMeta{Query: query, Error: text}\<close> through
  two pointers, either of which may be \<^verbatim>\<open>nil\<close>.
\<close>

definition set_custom_error :: "'f Frame option \<Rightarrow> Query \<Rightarrow> string \<Rightarrow> failure + 'f Frame" where
  "set_custom_error frame query text =
     (case frame of
        None \<Rightarrow> Inl nil_dereference
      | Some f \<Rightarrow>
          (case Meta f of
             None \<Rightarrow> Inl nil_dereference
           | Some m \<Rightarrow>
               Inr (f\<lparr>Meta := Some (m\<lparr>Custom := Some \<lparr>meta_Query = query, meta_Error = text\<rparr>\<rparr>)\<rparr>)))"

text \<open>The options handed to the CSV framer, and the text it is given.\<close>

definition csv_options :: "'f collaborators \<Rightarrow> Query \<Rightarrow> CSVFramerOptions" where
  "csv_options E query =
     (let columns = map (\<lambda>c. \<lparr>sel_Selector = col_Selector c, sel_Alias = col_Text c,
                               sel_Type = col_Type c, sel_TimeFormat = col_TimeStampFormat c\<rparr>)
                        (Columns query);
          csvOptions = \<lparr>FrameName = RefID query,
                        opt_Columns = columns,
                        opt_Comment = csv_Comment (CSVOptions query),
                        opt_Delimiter = csv_Delimiter (CSVOptions query),
                        opt_SkipLinesWithError = csv_SkipLinesWithError (CSVOptions query),
                        opt_RelaxColumnCount = csv_RelaxColumnCount (CSVOptions query),
                        NoHeaders = False\<rparr>;
          csvOptions = (if csv_Columns (CSVOptions query) = ''-''
                           \<or> csv_Columns (CSVOptions query) = ''none''
                        then csvOptions\<lparr>NoHeaders := True\<rparr> else csvOptions)
      in if Type query = QueryTypeTSV E
         then csvOptions\<lparr>opt_Delimiter := [CHR 0x09]\<rparr> else csvOptions)"

definition csv_text :: "string \<Rightarrow> Query \<Rightarrow> string" where
  "csv_text responseString query =
     (if csv_Columns (CSVOptions query) \<noteq> [] \<and> csv_Columns (CSVOptions query) \<noteq> ''-''
         \<and> csv_Columns (CSVOptions query) \<noteq> ''none''
      then csv_Columns (CSVOptions query) @ [CHR 0x0A] @ responseString
      else responseString)"

text \<open>
  The end of the function, from the test of the summarize expression on: \<open>frame\<close> is the
  frame the filter returned, and the error returned with it on the last line is the
  filter's, which is \<^verbatim>\<open>nil\<close> there.
\<close>

definition summarize_or_reshape :: "'f collaborators \<Rightarrow> 'f Frame option \<Rightarrow> Query \<Rightarrow> 'f outcome" where
  "summarize_or_reshape E frame query =
     (if TrimSpace E (SummarizeExpression query) \<noteq> []
      then ([CallGetSummaryFrame],
            Inr (GetSummaryFrame E frame (SummarizeExpression query) (SummarizeBy query)))
      else if Format query = ''timeseries''
      then (case frame of
              None \<Rightarrow> ([CallTimeSeriesSchema], Inl nil_dereference)
            | Some f \<Rightarrow>
                if TimeSeriesSchemaType E f = TimeSeriesTypeLong
                then (case LongToWide E frame of
                        (wFrame, None) \<Rightarrow> ([CallTimeSeriesSchema, CallLongToWide], Inr (wFrame, None))
                      | (wFrame, Some err) \<Rightarrow>
                          ([CallTimeSeriesSchema, CallLongToWide], Inr (frame, None)))
                else ([CallTimeSeriesSchema], Inr (frame, None)))
      else ([], Inr (frame, None)))"

definition after_filter :: "'f collaborators \<Rightarrow> 'f Frame option \<Rightarrow> Query \<Rightarrow> 'f outcome" where
  "after_filter E frame query =
     (case ApplyFilter E frame (FilterExpression query) of
        (frame', Some err) \<Rightarrow>
          (case set_custom_error frame' query (Error err) of
             Inl p \<Rightarrow> ([CallApplyFilter, LogError ''error applying filter'' (Error err)], Inl p)
           | Inr f \<Rightarrow>
               ([CallApplyFilter, LogError ''error applying filter'' (Error err)],
                Inr (Some f, Some (WrapError ''error applying filter. '' err))))
      | (frame', None) \<Rightarrow>
          (case summarize_or_reshape E frame' query of
             (events, result) \<Rightarrow> (CallApplyFilter # events, result)))"

definition after_parse :: "'f collaborators \<Rightarrow> 'f Frame option \<Rightarrow> Query \<Rightarrow> 'f outcome" where
  "after_parse E frame query =
     (case GetFrameWithComputedColumns E frame (ComputedColumns query) of
        (frame', Some err) \<Rightarrow>
          (case set_custom_error frame' query (Error err) of
             Inl p \<Rightarrow>
               ([CallGetFrameWithComputedColumns,
                 LogError ''error getting computed column'' (Error err)], Inl p)
           | Inr f \<Rightarrow>
               ([CallGetFrameWithComputedColumns,
                 LogError ''error getting computed column'' (Error err)],
                Inr (Some f, Some err)))
      | (frame', None) \<Rightarrow>
          (case after_filter E frame' query of
             (events, result) \<Rightarrow> (CallGetFrameWithComputedColumns # events, result)))"

text \<open>
  The frame after \<^verbatim>\<open>frame.Meta = &data.FrameMeta{Custom: &CustomMeta{Query: query}}\<close>, and
  the frame handed to the computed columns: the fields of the parsed frame, when there is
  one, appended.
\<close>

definition with_query_meta :: "'f Frame \<Rightarrow> Query \<Rightarrow> 'f Frame" where
  "with_query_meta f query =
     f\<lparr>Meta := Some \<lparr>Custom = Some \<lparr>meta_Query = query, meta_Error = []\<rparr>,
                      ExecutedQueryString = []\<rparr>\<rparr>"

definition parsed_frame :: "'f Frame \<Rightarrow> 'f Frame option \<Rightarrow> Query \<Rightarrow> 'f Frame" where
  "parsed_frame f0 newFrame query =
     (let f = with_query_meta f0 query
      in case newFrame of
           None \<Rightarrow> f
         | Some nf \<Rightarrow> f\<lparr>Fields := Fields f @ Fields nf\<rparr>)"

definition GetCSVBackendResponse :: "'f collaborators \<Rightarrow> string \<Rightarrow> Query \<Rightarrow> 'f outcome" where
  "GetCSVBackendResponse E responseString query =
     (let frame = GetDummyFrame E query;
          (newFrame, err) = CsvStringToFrame E (csv_text responseString query) (csv_options E query)
      in case frame of
           None \<Rightarrow> ([CallGetDummyFrame, CallCsvStringToFrame], Inl nil_dereference)
         | Some f0 \<Rightarrow>
             (case err of
                Some e \<Rightarrow>
                  (case set_custom_error (Some (with_query_meta f0 query)) query (Error e) of
                     Inl p \<Rightarrow>
                       ([CallGetDummyFrame, CallCsvStringToFrame,
                         LogError ''error getting response for query'' (Error e)], Inl p)
                   | Inr f' \<Rightarrow>
                       ([CallGetDummyFrame, CallCsvStringToFrame,
                         LogError ''error getting response for query'' (Error e)],
                        Inr (Some f', Some e)))
              | None \<Rightarrow>
                  (case after_parse E (Some (parsed_frame f0 newFrame query)) query of
                     (events, result) \<Rightarrow>
                       (CallGetDummyFrame # CallCsvStringToFrame # events, result))))"

section \<open>Notions of the specification and example inputs\<close>

text \<open>
  The inferred-search predicate in the words of the specification: the account is
  \<^verbatim>\<open>"all"\<close>; or there are no dimensions and match-exact is off; or there are dimensions
  and match-exact is off; or match-exact is on and some dimension has more than one value
  or holds the wildcard.
\<close>

definition inferred_search_spec :: "CloudWatchQuery \<Rightarrow> bool" where
  "inferred_search_spec q \<longleftrightarrow>
     AccountId q = Some ''all''
     \<or> (Dimensions q = fmempty \<and> \<not> MatchExact q)
     \<or> (Dimensions q \<noteq> fmempty \<and> \<not> MatchExact q)
     \<or> (MatchExact q \<and> (\<exists>vs \<in> fmran' (Dimensions q). 1 < length vs \<or> ''*'' \<in> set vs))"

text \<open>
  The number that a text of decimal digits stands for, in the words of the specification
  (a plain integer string).
\<close>

definition decimal :: "string \<Rightarrow> int" where
  "decimal ds = foldl (\<lambda>a c. 10 * a + (int (of_char c) - 48)) 0 ds"

text \<open>
  The canonical text of a UUID, as \<^verbatim>\<open>uuid.NewString\<close> returns it: 36 characters, hyphens at
  positions 8, 13, 18 and 23, lower-case hexadecimal digits elsewhere.
\<close>

definition is_hex :: "char \<Rightarrow> bool" where
  "is_hex c = (let n = (of_char c :: nat) in (48 \<le> n \<and> n \<le> 57) \<or> (97 \<le> n \<and> n \<le> 102))"

definition is_uuid_text :: "string \<Rightarrow> bool" where
  "is_uuid_text u \<longleftrightarrow>
     length u = 36 \<and>
     list_all (\<lambda>i. if i \<in> {8, 13, 18, 23} then u ! i = CHR ''-'' else is_hex (u ! i)) [0..<36]"

text \<open>The shapes of a raw dimension value, and the list a well-shaped value stands for.\<close>

definition string_value :: "iface \<Rightarrow> bool" where
  "string_value v = (case v of JString s \<Rightarrow> True | _ \<Rightarrow> False)"

definition string_list_value :: "iface \<Rightarrow> bool" where
  "string_list_value v = (case v of JArray vs \<Rightarrow> list_all string_value vs | _ \<Rightarrow> False)"

definition other_shape :: "iface \<Rightarrow> bool" where
  "other_shape v = (case v of JString s \<Rightarrow> False | JArray vs \<Rightarrow> False | _ \<Rightarrow> True)"

definition strings_of :: "iface list \<Rightarrow> string list" where
  "strings_of vs = map (\<lambda>v. case v of JString s \<Rightarrow> s | _ \<Rightarrow> []) vs"

definition normal_form :: "iface \<Rightarrow> string list option" where
  "normal_form v =
     (case v of
        JString s \<Rightarrow> Some [s]
      | JArray vs \<Rightarrow> if vs = [] then None else Some (strings_of vs)
      | _ \<Rightarrow> None)"

text \<open>
  Collaborators to run the pipeline on: the parse fails on an empty text, the computed
  columns fail on a column without selector, the filter fails on an expression that
  starts with an operator; a field is a number, the summarizer keeps the first field, a
  frame is long when it has more than two fields, and the reshape fails on a frame with
  more than three.
\<close>

definition example_collaborators :: "nat collaborators" where
  "example_collaborators =
     \<lparr>QueryTypeTSV = ''tsv'',
      TrimSpace = (\<lambda>s. rev (dropWhile (\<lambda>c. c = CHR '' '') (rev (dropWhile (\<lambda>c. c = CHR '' '') s)))),
      GetDummyFrame = (\<lambda>query. Some \<lparr>Name = RefID query, Fields = [], Meta = None\<rparr>),
      CsvStringToFrame = (\<lambda>text options.
        if text = [] then (None, Some (ErrorString ''empty csv''))
        else (Some \<lparr>Name = FrameName options, Fields = map of_char text, Meta = None\<rparr>,
              None)),
      GetFrameWithComputedColumns = (\<lambda>frame columns.
        if list_ex (\<lambda>c. col_Selector c = []) columns
        then (frame, Some (ErrorString ''empty selector''))
        else (frame, None)),
      ApplyFilter = (\<lambda>frame expression.
        if take 1 expression = ''>'' then (frame, Some (ErrorString ''unexpected operator''))
        else (frame, None)),
      GetSummaryFrame = (\<lambda>frame expression by.
        (map_option (\<lambda>f. f\<lparr>Fields := take 1 (Fields f)\<rparr>) frame, None)),
      TimeSeriesSchemaType = (\<lambda>f.
        if length (Fields f) > 2 then TimeSeriesTypeLong else TimeSeriesTypeWide),
      LongToWide = (\<lambda>frame.
        case frame of
          None \<Rightarrow> (None, Some (ErrorString ''no frame''))
        | Some f \<Rightarrow>
            if length (Fields f) > 3 then (None, Some (ErrorString ''too many series''))
            else (Some (f\<lparr>Fields := rev (Fields f)\<rparr>), None))\<rparr>"

definition example_query :: "InfinityColumn list \<Rightarrow> string \<Rightarrow> string \<Rightarrow> string \<Rightarrow> Query" where
  "example_query computed filterExpression summarize format =
     \<lparr>RefID = ''A'', Type = ''csv'', Format = format, Columns = [],
      CSVOptions = \<lparr>csv_Comment = [], csv_Delimiter = '','', csv_SkipLinesWithError = False,
                    csv_RelaxColumnCount = False, csv_Columns = []\<rparr>,
      ComputedColumns = computed, FilterExpression = filterExpression,
      SummarizeExpression = summarize, SummarizeBy = []\<rparr>"

text \<open>
  The token that stands for a placeholder name, in the words of the specification: the
  fixed table for the six known names, a dimension lookup for any other name.
\<close>

definition token :: "string \<Rightarrow> string" where
  "token name =
     (if name = ''metric'' then ''${PROP('MetricName')}''
      else if name = ''namespace'' then ''${PROP('Namespace')}''
      else if name = ''period'' then ''${PROP('Period')}''
      else if name = ''region'' then ''${PROP('Region')}''
      else if name = ''stat'' then ''${PROP('Stat')}''
      else if name = ''label'' then ''${LABEL}''
      else ''${PROP('Dim.'' @ name @ ''')}'')"

text \<open>
  The rewrite of the specification: one pass over the alias that replaces each placeholder
  (each match of the pattern, from the left) by its token and keeps everything else.
\<close>

function rewrite_placeholders :: "string \<Rightarrow> string" where
  "rewrite_placeholders [] = []"
| "rewrite_placeholders (c # cs) =
     (case match_here (c # cs) of
        Some (n, g) \<Rightarrow> token g @ rewrite_placeholders (drop n (c # cs))
      | None \<Rightarrow> c # rewrite_placeholders cs)"
  by pat_completeness auto
termination
  by (relation "measure length") (auto dest: match_here_pos)

definition migrate_spec :: "string option \<Rightarrow> string \<Rightarrow> bool \<Rightarrow> string" where
  "migrate_spec explicitLabel alias dynamicLabelsEnabled =
     (case explicitLabel of
        Some label \<Rightarrow> label
      | None \<Rightarrow>
          if alias = [] then []
          else if \<not> dynamicLabelsEnabled then []
          else rewrite_placeholders alias)"

text \<open>
  An alias given by its parts: each placeholder with the text before it, the blanks
  inside its braces and its name, and the text after the last placeholder.
\<close>

record placeholder =
  before :: string
  blanks1 :: string
  name :: string
  blanks2 :: string

definition braces :: "placeholder \<Rightarrow> string" where
  "braces p = ''{{'' @ blanks1 p @ name p @ blanks2 p @ ''}}''"

definition render :: "placeholder list \<Rightarrow> string \<Rightarrow> string" where
  "render ps rest = concat (map (\<lambda>p. before p @ braces p) ps) @ rest"

definition migrated :: "placeholder list \<Rightarrow> string \<Rightarrow> string" where
  "migrated ps rest = concat (map (\<lambda>p. before p @ token (name p)) ps) @ rest"

text \<open>
  Text without an opening of a placeholder: no two \<^verbatim>\<open>{\<close> in a row and no \<^verbatim>\<open>{\<close> at the end.
\<close>

fun no_opening :: "string \<Rightarrow> bool" where
  "no_opening [] = True"
| "no_opening [c] = (c \<noteq> CHR ''{'')"
| "no_opening (c # d # s) = (\<not> (c = CHR ''{'' \<and> d = CHR ''{'') \<and> no_opening (d # s))"

text \<open>
  A plain placeholder: blanks around a name that is not empty, has no brace and no line
  feed, and neither starts nor ends with a blank; the text before it has no opening.
\<close>

definition plain :: "placeholder \<Rightarrow> bool" where
  "plain p \<longleftrightarrow>
     no_opening (before p) \<and> list_all isSpace (blanks1 p) \<and> list_all isSpace (blanks2 p) \<and>
     name p \<noteq> [] \<and> CHR ''{'' \<notin> set (name p) \<and> CHR ''}'' \<notin> set (name p) \<and>
     CHR 0x0A \<notin> set (name p) \<and> \<not> isSpace (hd (name p)) \<and> \<not> isSpace (last (name p))"

section \<open>Auxiliary notions of the proofs\<close>

text \<open>The exponent of the binade of a positive rational.\<close>

definition binade :: "rat \<Rightarrow> int" where
  "binade a =
     (let e0 = bitlen (fst (quotient_of a)) - bitlen (snd (quotient_of a))
      in if pow2 e0 \<le> a then e0 else e0 - 1)"

text \<open>
  The alias while the loop of \<^verbatim>\<open>getLabel\<close> runs: the placeholders whose text is in \<open>replaced\<close>
  have become tokens, the others are as they were.
\<close>

definition progress :: "string list \<Rightarrow> placeholder list \<Rightarrow> string \<Rightarrow> string" where
  "progress replaced ps rest =
     concat (map (\<lambda>p. before p @ (if braces p \<in> set replaced then token (name p) else braces p)) ps)
     @ rest"

section \<open>Verified properties: query classification\<close>

lemma has_wildcard_iff: "has_wildcard vs \<longleftrightarrow> ''*'' \<in> set vs"
  by (induction vs) auto

lemma inferred_loop_iff:
  "inferred_loop ds \<longleftrightarrow> (\<exists>(k, vs) \<in> set ds. 1 < length vs \<or> ''*'' \<in> set vs)"
  by (induction ds rule: inferred_loop.induct) (auto simp: has_wildcard_iff)

lemma len_zero_iff: "len m = 0 \<longleftrightarrow> m = fmempty"
proof
  assume "len m = 0"
  then have "fmdom m = {||}" by (simp add: len_def)
  then have "fmlookup m k = None" for k
    by (metis fmdom_notD fempty_iff)
  then show "m = fmempty" by (intro fmap_ext) simp
qed (simp add: len_def)

lemma entries_set: "set (entries m) = {(k, vs). fmlookup m k = Some vs}"
  by (auto simp: entries_def sorted_list_of_fmap_def fmlookup_dom_iff)

text \<open>The loop gives the same answer in whatever order the entries are visited.\<close>

lemma inferred_loop_any_order:
  "set visited = set (entries m) \<Longrightarrow> inferred_loop visited = inferred_loop (entries m)"
  by (simp add: inferred_loop_iff)

lemma inferred_loop_entries:
  "inferred_loop (entries m) \<longleftrightarrow> (\<exists>vs \<in> fmran' m. 1 < length vs \<or> ''*'' \<in> set vs)"
  by (simp add: inferred_loop_iff entries_set Bex_def fmlookup_ran'_iff) blast

lemma IsInferredSearchExpression_spec:
  assumes "MetricQueryType q = MetricQueryTypeSearch" "MetricEditorMode q = MetricEditorModeBuilder"
  shows "IsInferredSearchExpression q \<longleftrightarrow> inferred_search_spec q"
  using assms
  by (cases "AccountId q")
     (auto simp: IsInferredSearchExpression_def inferred_search_spec_def inferred_loop_entries
        len_zero_iff)

text \<open>
  Claim C1. The mode is decided by query type, editor mode, dimensions, match-exact and
  account id alone: a builder-mode search query is an inferred search expression exactly
  when the inferred-search predicate holds and a metric stat otherwise, a raw-mode search
  query is a math expression, a query of type Query is an SQL expression, and every other
  combination falls back to metric stat.
\<close>

theorem GetGMDAPIMode_classification:
  "(MetricQueryType q = MetricQueryTypeSearch \<and> MetricEditorMode q = MetricEditorModeBuilder \<longrightarrow>
      (fst (GetGMDAPIMode q) = GMDApiModeInferredSearchExpression \<longleftrightarrow> inferred_search_spec q) \<and>
      (\<not> inferred_search_spec q \<longrightarrow> fst (GetGMDAPIMode q) = GMDApiModeMetricStat)) \<and>
   (MetricQueryType q = MetricQueryTypeSearch \<and> MetricEditorMode q = MetricEditorModeRaw \<longrightarrow>
      fst (GetGMDAPIMode q) = GMDApiModeMathExpression) \<and>
   (MetricQueryType q = MetricQueryTypeQuery \<longrightarrow>
      fst (GetGMDAPIMode q) = GMDApiModeSQLExpression) \<and>
   (\<not> (MetricQueryType q = MetricQueryTypeSearch \<and> MetricEditorMode q = MetricEditorModeBuilder) \<and>
    \<not> (MetricQueryType q = MetricQueryTypeSearch \<and> MetricEditorMode q = MetricEditorModeRaw) \<and>
    MetricQueryType q \<noteq> MetricQueryTypeQuery \<longrightarrow>
      fst (GetGMDAPIMode q) = GMDApiModeMetricStat) \<and>
   (MetricQueryType q' = MetricQueryType q \<and> MetricEditorMode q' = MetricEditorMode q \<and>
    Dimensions q' = Dimensions q \<and> MatchExact q' = MatchExact q \<and> AccountId q' = AccountId q \<longrightarrow>
      GetGMDAPIMode q' = GetGMDAPIMode q)"
proof -
  have builder: "fst (GetGMDAPIMode q) =
      (if inferred_search_spec q then GMDApiModeInferredSearchExpression else GMDApiModeMetricStat)"
    if "MetricQueryType q = MetricQueryTypeSearch" "MetricEditorMode q = MetricEditorModeBuilder"
    using that IsInferredSearchExpression_spec [OF that] by (simp add: GetGMDAPIMode_def)
  have distinct_modes: "GMDApiModeInferredSearchExpression \<noteq> GMDApiModeMetricStat"
    by (simp add: mode_consts)
  have raw: "fst (GetGMDAPIMode q) = GMDApiModeMathExpression"
    if "MetricQueryType q = MetricQueryTypeSearch" "MetricEditorMode q = MetricEditorModeRaw"
    using that by (simp add: GetGMDAPIMode_def mode_consts)
  have sql: "fst (GetGMDAPIMode q) = GMDApiModeSQLExpression"
    if "MetricQueryType q = MetricQueryTypeQuery"
    using that by (simp add: GetGMDAPIMode_def mode_consts)
  have fallback: "fst (GetGMDAPIMode q) = GMDApiModeMetricStat"
    if "\<not> (MetricQueryType q = MetricQueryTypeSearch \<and> MetricEditorMode q = MetricEditorModeBuilder)"
       "\<not> (MetricQueryType q = MetricQueryTypeSearch \<and> MetricEditorMode q = MetricEditorModeRaw)"
       "MetricQueryType q \<noteq> MetricQueryTypeQuery"
    using that by (auto simp: GetGMDAPIMode_def)
  have pure: "GetGMDAPIMode q' = GetGMDAPIMode q"
    if "MetricQueryType q' = MetricQueryType q" "MetricEditorMode q' = MetricEditorMode q"
       "Dimensions q' = Dimensions q" "MatchExact q' = MatchExact q" "AccountId q' = AccountId q"
    using that by (simp add: GetGMDAPIMode_def IsInferredSearchExpression_def)
  show ?thesis
    using builder distinct_modes raw sql fallback pure by auto
qed

theorem GetGMDAPIMode_classification_witness:
  "inferred_search_spec
     \<lparr>RefId = ''A'', Region = ''us-east-1'', Id = ''queryA'', Namespace = ''AWS/EC2'',
      MetricName = ''CPUUtilization'', Statistic = ''Average'', Expression = [],
      SqlExpression = [], ReturnData = True,
      Dimensions = fmap_of_list [(''InstanceId'', [''*''])], Period = 300, Alias = [], Label = [],
      MatchExact = True, UsedExpression = [], TimezoneUTCOffset = [],
      MetricQueryType = MetricQueryTypeSearch, MetricEditorMode = MetricEditorModeBuilder,
      AccountId = None\<rparr> \<and>
   fst (GetGMDAPIMode
     \<lparr>RefId = ''A'', Region = ''us-east-1'', Id = ''queryA'', Namespace = ''AWS/EC2'',
      MetricName = ''CPUUtilization'', Statistic = ''Average'', Expression = [],
      SqlExpression = [], ReturnData = True,
      Dimensions = fmap_of_list [(''InstanceId'', [''*''])], Period = 300, Alias = [], Label = [],
      MatchExact = True, UsedExpression = [], TimezoneUTCOffset = [],
      MetricQueryType = MetricQueryTypeSearch, MetricEditorMode = MetricEditorModeBuilder,
      AccountId = None\<rparr>) = GMDApiModeInferredSearchExpression"
proof -
  let ?q = "\<lparr>RefId = ''A'', Region = ''us-east-1'', Id = ''queryA'', Namespace = ''AWS/EC2'',
      MetricName = ''CPUUtilization'', Statistic = ''Average'', Expression = [],
      SqlExpression = [], ReturnData = True,
      Dimensions = fmap_of_list [(''InstanceId'', [''*''])], Period = 300, Alias = [], Label = [],
      MatchExact = True, UsedExpression = [], TimezoneUTCOffset = [],
      MetricQueryType = MetricQueryTypeSearch, MetricEditorMode = MetricEditorModeBuilder,
      AccountId = None\<rparr>"
  have "[''*''] \<in> fmran' (Dimensions ?q)"
    by (rule fmran'I [of _ "''InstanceId''"]) simp
  then have "\<exists>vs \<in> fmran' (Dimensions ?q). 1 < length vs \<or> ''*'' \<in> set vs"
    by (rule rev_bexI) simp
  then have p: "inferred_search_spec ?q"
    by (simp add: inferred_search_spec_def)
  have t: "MetricQueryType ?q = MetricQueryTypeSearch \<and> MetricEditorMode ?q = MetricEditorModeBuilder"
    by simp
  from GetGMDAPIMode_classification [of ?q ?q] t p show ?thesis
    by blast
qed

section \<open>Verified properties: period resolution\<close>

lemma pick_period_sorted:
  "sorted ys \<Longrightarrow>
   pick_period t ys d = (if \<exists>c \<in> set ys. t \<le> c then Min {c \<in> set ys. t \<le> c} else d)"
proof (induction ys)
  case Nil
  then show ?case by simp
next
  case (Cons y ys)
  show ?case
  proof (cases "t \<le> y")
    case True
    have "Min {c \<in> set (y # ys). t \<le> c} = y"
    proof (rule Min_eqI)
      show "finite {c \<in> set (y # ys). t \<le> c}" by simp
      show "y \<in> {c \<in> set (y # ys). t \<le> c}" using True by simp
      show "y \<le> c" if "c \<in> {c \<in> set (y # ys). t \<le> c}" for c
        using that Cons.prems by auto
    qed
    with True show ?thesis by auto
  next
    case False
    then have "{c \<in> set (y # ys). t \<le> c} = {c \<in> set ys. t \<le> c}" by auto
    moreover have "sorted ys" using Cons.prems by simp
    ultimately show ?thesis using False Cons.IH by auto
  qed
qed

lemma last_sorted_Max: "sorted ys \<Longrightarrow> ys \<noteq> [] \<Longrightarrow> last ys = Max (set ys)"
proof (rule sym, rule Max_eqI)
  assume s: "sorted ys" and ne: "ys \<noteq> []"
  show "finite (set ys)" by simp
  show "last ys \<in> set ys" using ne by simp
  show "y \<le> last ys" if "y \<in> set ys" for y
  proof -
    from ne have ys: "ys = butlast ys @ [last ys]" by simp
    with that have "y \<in> set (butlast ys) \<or> y = last ys"
      by (metis Un_iff empty_iff empty_set set_ConsD set_append)
    moreover have "sorted (butlast ys @ [last ys])" using s ys by simp
    ultimately show ?thesis by (auto simp: sorted_append)
  qed
qed

lemma getRetainedPeriods_sorted: "sorted (getRetainedPeriods d) \<and> getRetainedPeriods d \<noteq> []"
  by (simp add: getRetainedPeriods_def)

lemma lower_char_other:
  "\<not> (65 \<le> (of_char c :: nat) \<and> (of_char c :: nat) \<le> 90) \<Longrightarrow> lower_char c = c"
  by (auto simp: lower_char_def Let_def)

lemma atoi_digits_head:
  "atoi_digits n (c # cs) = Some v \<Longrightarrow> 48 \<le> (of_char c :: nat) \<and> (of_char c :: nat) \<le> 57"
  by (auto simp: Let_def split: if_splits)

lemma Atoi_not_auto:
  assumes "Atoi s = Some n"
  shows "s \<noteq> [] \<and> ToLower s \<noteq> ''auto''"
proof -
  from assms obtain c cs where s: "s = c # cs"
    by (cases s) (auto simp: Atoi_def)
  have "c = CHR ''-'' \<or> c = CHR ''+'' \<or> (48 \<le> (of_char c :: nat) \<and> (of_char c :: nat) \<le> 57)"
    using assms unfolding s Atoi_def
    by (auto simp: Let_def split: if_splits option.splits dest: atoi_digits_head)
  then have "lower_char c = c \<and> c \<noteq> CHR ''a''"
    by (auto simp: lower_char_def Let_def)
  then show ?thesis
    by (simp add: s ToLower_def)
qed

subsection \<open>The rounding of float64\<close>

lemma pow2_powi: "pow2 e = 2 powi e"
  by (simp add: pow2_def power_int_def inverse_eq_divide power_one_over)

lemma pow2_pos: "0 < pow2 e"
  by (simp add: pow2_powi)

lemma pow2_add: "pow2 (i + j) = pow2 i * pow2 j"
  by (simp add: pow2_powi power_int_add)

lemma pow2_diff: "pow2 (i - j) = pow2 i / pow2 j"
  using pow2_add [of "i - j" j] pow2_pos [of j] by (simp add: field_simps)

lemma pow2_mono: "i \<le> j \<Longrightarrow> pow2 i \<le> pow2 j"
  by (simp add: pow2_powi power_int_increasing)

lemma pow2_strict_mono: "i < j \<Longrightarrow> pow2 i < pow2 j"
  by (simp add: pow2_powi power_int_strict_increasing)

lemma pow2_nat: "0 \<le> e \<Longrightarrow> pow2 e = of_int (2 ^ nat e)"
  by (simp add: pow2_def)

lemma float64_pos:
  "0 < a \<Longrightarrow> float64 a = of_int (round_half_even (a / pow2 (binade a - 52))) * pow2 (binade a - 52)"
  by (simp add: float64_def binade_def Let_def)

lemma bitlen_pow2_bounds:
  assumes "0 < n"
  shows "pow2 (bitlen n - 1) \<le> of_int n" "of_int n < pow2 (bitlen n)"
proof -
  from assms have b: "1 \<le> bitlen n" by (auto simp: bitlen_alt_def)
  from bitlen_bounds [OF assms] have "(2::int) ^ nat (bitlen n - 1) \<le> n" "n < 2 ^ nat (bitlen n)"
    by simp_all
  then have "(of_int (2 ^ nat (bitlen n - 1)) :: rat) \<le> of_int n"
    "(of_int n :: rat) < of_int (2 ^ nat (bitlen n))"
    by (simp_all only: of_int_le_iff of_int_less_iff)
  with b show "pow2 (bitlen n - 1) \<le> of_int n" "of_int n < pow2 (bitlen n)"
    by (simp_all add: pow2_nat)
qed

lemma binade_bounds:
  assumes "0 < a"
  shows "pow2 (binade a) \<le> a" "a < pow2 (binade a + 1)"
proof -
  obtain p q where pq: "quotient_of a = (p, q)" by (cases "quotient_of a")
  then have q: "0 < q" and a: "a = of_int p / of_int q"
    by (simp_all add: quotient_of_denom_pos quotient_of_div)
  with assms have p: "0 < p"
    by (simp add: zero_less_divide_iff)
  let ?e0 = "bitlen p - bitlen q"
  note bp = bitlen_pow2_bounds [OF p] and bq = bitlen_pow2_bounds [OF q]
  have qpos: "(0::rat) < of_int q" using q by simp
  have "a < pow2 (bitlen p) / pow2 (bitlen q - 1)"
  proof -
    have "a < pow2 (bitlen p) / of_int q"
      unfolding a using bp(2) qpos by (simp add: divide_strict_right_mono)
    also have "\<dots> \<le> pow2 (bitlen p) / pow2 (bitlen q - 1)"
      using bq(1) pow2_pos [of "bitlen p"] mult_pos_pos [OF qpos pow2_pos [of "bitlen q - 1"]]
      by (intro divide_left_mono) (simp_all add: less_imp_le)
    finally show ?thesis .
  qed
  then have up: "a < pow2 (?e0 + 1)"
    by (simp add: pow2_diff [symmetric] algebra_simps)
  have "pow2 (bitlen p - 1) / pow2 (bitlen q) < a"
  proof -
    have "pow2 (bitlen p - 1) / pow2 (bitlen q) < pow2 (bitlen p - 1) / of_int q"
      using bq(2) qpos pow2_pos [of "bitlen p - 1"]
        mult_pos_pos [OF pow2_pos [of "bitlen q"] qpos]
      by (intro divide_strict_left_mono) simp_all
    also have "\<dots> \<le> a"
      unfolding a using bp(1) qpos by (simp add: divide_right_mono)
    finally show ?thesis .
  qed
  then have low: "pow2 (?e0 - 1) < a"
    by (simp add: pow2_diff [symmetric] algebra_simps)
  show "pow2 (binade a) \<le> a" "a < pow2 (binade a + 1)"
    using up low by (auto simp: binade_def pq Let_def)
qed

lemma binade_unique:
  assumes "pow2 e \<le> a" "a < pow2 (e + 1)"
  shows "binade a = e"
proof -
  have pos: "0 < a" using assms(1) pow2_pos [of e] by simp
  note b = binade_bounds [OF pos]
  have "binade a < e + 1"
  proof (rule ccontr)
    assume "\<not> binade a < e + 1"
    then have "pow2 (e + 1) \<le> pow2 (binade a)" by (intro pow2_mono) simp
    with b(1) assms(2) show False by simp
  qed
  moreover have "e < binade a + 1"
  proof (rule ccontr)
    assume "\<not> e < binade a + 1"
    then have "pow2 (binade a + 1) \<le> pow2 e" by (intro pow2_mono) simp
    with b(2) assms(1) show False by simp
  qed
  ultimately show ?thesis by simp
qed

lemma binade_mono:
  assumes "0 < a" "a \<le> b"
  shows "binade a \<le> binade b"
proof (rule ccontr)
  assume "\<not> binade a \<le> binade b"
  then have "pow2 (binade b + 1) \<le> pow2 (binade a)" by (intro pow2_mono) simp
  with binade_bounds(1) [OF assms(1)] binade_bounds(2) [of b] assms show False by simp
qed

lemma round_half_even_bounds: "\<lfloor>x\<rfloor> \<le> round_half_even x" "round_half_even x \<le> \<lfloor>x\<rfloor> + 1"
  by (simp_all add: round_half_even_def Let_def)

lemma round_half_even_int [simp]: "round_half_even (of_int n) = n"
  by (simp add: round_half_even_def Let_def)

lemma round_half_even_ge:
  assumes "of_int n \<le> x"
  shows "n \<le> round_half_even x"
proof -
  from assms have "n \<le> \<lfloor>x\<rfloor>" by (simp add: le_floor_iff)
  with round_half_even_bounds(1) [of x] show ?thesis by simp
qed

lemma round_half_even_le:
  assumes "x \<le> of_int n"
  shows "round_half_even x \<le> n"
proof (cases "x = of_int n")
  case True
  then show ?thesis by simp
next
  case False
  with assms have "x < of_int n" by simp
  then have "\<lfloor>x\<rfloor> < n" by (simp add: floor_less_iff)
  with round_half_even_bounds(2) [of x] show ?thesis by simp
qed

lemma round_half_even_mono:
  assumes "x \<le> y"
  shows "round_half_even x \<le> round_half_even y"
proof (cases "\<lfloor>x\<rfloor> = \<lfloor>y\<rfloor>")
  case True
  with assms have "x - of_int \<lfloor>x\<rfloor> \<le> y - of_int \<lfloor>y\<rfloor>" by simp
  with True show ?thesis
    by (auto simp: round_half_even_def Let_def)
next
  case False
  with assms have "\<lfloor>x\<rfloor> < \<lfloor>y\<rfloor>"
    by (simp add: floor_mono order.not_eq_order_implies_strict)
  with round_half_even_bounds(2) [of x] round_half_even_bounds(1) [of y] show ?thesis
    by simp
qed

lemma float64_zero [simp]: "float64 0 = 0"
  by (simp add: float64_def)

lemma float64_range:
  assumes "0 < a"
  shows "pow2 (binade a) \<le> float64 a" "float64 a \<le> pow2 (binade a + 1)"
proof -
  let ?u = "pow2 (binade a - 52)"
  let ?s = "a / ?u"
  have u: "0 < ?u" by (rule pow2_pos)
  note b = binade_bounds [OF assms]
  have e: "pow2 (binade a) = of_int (2 ^ 52) * ?u" "pow2 (binade a + 1) = of_int (2 ^ 53) * ?u"
    using pow2_add [of 52 "binade a - 52"] pow2_add [of 53 "binade a - 52"]
    by (simp_all add: pow2_nat add.commute)
  have s: "of_int (2 ^ 52) \<le> ?s" "?s \<le> of_int (2 ^ 53)"
    using b u unfolding e by (simp_all add: pos_le_divide_eq pos_divide_le_eq less_imp_le)
  have "2 ^ 52 \<le> round_half_even ?s" "round_half_even ?s \<le> 2 ^ 53"
    using s(1) round_half_even_ge apply blast
    using s(2) round_half_even_le apply blast
    done
  then have "(of_int (2 ^ 52) :: rat) \<le> of_int (round_half_even ?s)"
    "(of_int (round_half_even ?s) :: rat) \<le> of_int (2 ^ 53)"
    by (simp_all only: of_int_le_iff)
  with u show "pow2 (binade a) \<le> float64 a" "float64 a \<le> pow2 (binade a + 1)"
    unfolding e float64_pos [OF assms] by (simp_all add: mult_right_mono less_imp_le)
qed

lemma float64_nonneg: "0 \<le> a \<Longrightarrow> 0 \<le> float64 a"
  using float64_range(1) [of a] pow2_pos [of "binade a"] by (cases "a = 0") auto

lemma float64_mono:
  assumes "0 \<le> a" "a \<le> b"
  shows "float64 a \<le> float64 b"
proof (cases "a = 0")
  case True
  with assms float64_nonneg [of b] show ?thesis by simp
next
  case False
  with assms have a: "0 < a" and b: "0 < b" by simp_all
  from binade_mono [OF a assms(2)] consider "binade a = binade b" | "binade a + 1 \<le> binade b"
    by linarith
  then show ?thesis
  proof cases
    case 1
    let ?u = "pow2 (binade b - 52)"
    have u: "0 < ?u" by (rule pow2_pos)
    with assms(2) have "a / ?u \<le> b / ?u" by (simp add: divide_right_mono)
    then have "round_half_even (a / ?u) \<le> round_half_even (b / ?u)"
      by (rule round_half_even_mono)
    then have "(of_int (round_half_even (a / ?u)) :: rat) \<le> of_int (round_half_even (b / ?u))"
      by (simp only: of_int_le_iff)
    with u show ?thesis
      unfolding float64_pos [OF a] float64_pos [OF b] 1 by (simp add: mult_right_mono)
  next
    case 2
    have "float64 a \<le> pow2 (binade a + 1)" by (rule float64_range(2) [OF a])
    also have "\<dots> \<le> pow2 (binade b)" using 2 by (rule pow2_mono)
    also have "\<dots> \<le> float64 b" by (rule float64_range(1) [OF b])
    finally show ?thesis .
  qed
qed

text \<open>A rational with a significand of at most 53 bits is a float.\<close>

lemma float64_exact:
  assumes "0 < m" "m < 2 ^ 53"
  shows "float64 (of_int m * pow2 k) = of_int m * pow2 k"
proof -
  let ?a = "of_int m * pow2 k"
  have a: "0 < ?a" using assms(1) pow2_pos [of k] by simp
  let ?e = "binade ?a"
  note b = binade_bounds [OF a]
  have "?a < pow2 (53 + k)"
  proof -
    from assms(2) have "(of_int m :: rat) < of_int (2 ^ 53)" by (simp only: of_int_less_iff)
    then have "?a < of_int (2 ^ 53) * pow2 k"
      using pow2_pos [of k] by (simp add: mult_strict_right_mono)
    then show ?thesis using pow2_add [of 53 k] by (simp add: pow2_nat)
  qed
  with b(1) have "pow2 ?e < pow2 (53 + k)" by simp
  then have "?e < 53 + k"
    by (rule_tac ccontr) (use pow2_mono [of "53 + k" ?e] in simp)
  then have d: "0 \<le> k - ?e + 52" by simp
  have "?a / pow2 (?e - 52) = of_int m * pow2 (k - ?e + 52)"
    using pow2_diff [of k "?e - 52"] by (simp add: algebra_simps)
  also have "\<dots> = of_int (m * 2 ^ nat (k - ?e + 52))"
    using d by (simp add: pow2_nat)
  finally have s: "?a / pow2 (?e - 52) = of_int (m * 2 ^ nat (k - ?e + 52))" .
  have "float64 ?a = of_int (m * 2 ^ nat (k - ?e + 52)) * pow2 (?e - 52)"
    unfolding float64_pos [OF a] s round_half_even_int ..
  also have "\<dots> = ?a / pow2 (?e - 52) * pow2 (?e - 52)"
    unfolding s ..
  also have "\<dots> = ?a"
    using pow2_pos [of "?e - 52"] by simp
  finally show ?thesis .
qed

lemma float64_of_int:
  assumes "0 \<le> n" "n < 2 ^ 53"
  shows "float64 (of_int n) = of_int n"
proof (cases "n = 0")
  case True
  then show ?thesis by simp
next
  case False
  with assms float64_exact [of n 0] show ?thesis by (simp add: pow2_def)
qed

lemma float64_exact_nonneg:
  assumes "0 \<le> m" "m < 2 ^ 53"
  shows "float64 (of_int m * pow2 k) = of_int m * pow2 k"
  using float64_exact [of m k] assms by (cases "m = 0") simp_all

lemma float64_dyadic:
  assumes "0 \<le> m" "m < 2 ^ 53"
  shows "float64 (of_int m / 2 ^ k) = of_int m / 2 ^ k"
proof -
  have "pow2 (- int k) = 1 / 2 ^ k"
    by (simp add: pow2_powi power_int_minus inverse_eq_divide)
  with float64_exact_nonneg [OF assms, of "- int k"] show ?thesis by simp
qed

lemma Seconds_nonneg:
  assumes "0 \<le> d"
  shows "Seconds d =
    float64 (float64 (of_int (d div 1000000000)) +
             float64 (float64 (of_int (d mod 1000000000)) / 1000000000))"
proof -
  have "quo d Second = d div 1000000000"
    using assms by (cases "d = 0") (simp_all add: quo_def Second_def)
  moreover from this have "rem d Second = d mod 1000000000"
    by (simp add: rem_def Second_def minus_mult_div_eq_mod)
  ultimately show ?thesis by (simp add: Seconds_def)
qed

text \<open>
  For a range of whole milliseconds the roundings do not show: the target that the code
  computes in floats is the exact one.
\<close>

lemma target_exact:
  assumes d: "0 \<le> d" "d \<le> maxDuration" and ms: "d mod 1000000 = 0"
  shows "\<lceil>float64 (Seconds d / 2000)\<rceil> = \<lceil>of_int d / (2000000000000 :: rat)\<rceil>"
proof -
  define sec where "sec = d div 1000000000"
  define nsec where "nsec = d mod 1000000000"
  define t :: rat where "t = of_int nsec / 1000000000"
  define N where "N = d div 1000000"
  have dN: "d = N * 1000000"
    using ms div_mult_mod_eq [of d 1000000] by (simp add: N_def)
  have sec: "0 \<le> sec" "sec \<le> 9223372036"
    using d by (simp_all add: sec_def maxDuration_def pos_imp_zdiv_nonneg_iff zdiv_mono1
        order_trans [OF zdiv_mono1 [of d "2 ^ 63 - 1" 1000000000]])
  have nsec: "0 \<le> nsec" "nsec < 1000000000" by (simp_all add: nsec_def)
  have t: "0 \<le> t" "t < 1" using nsec by (simp_all add: t_def)
  have split: "(of_int d :: rat) = of_int sec * 1000000000 + of_int nsec"
  proof -
    have "d = sec * 1000000000 + nsec" by (simp add: sec_def nsec_def)
    then have "(of_int d :: rat) = of_int (sec * 1000000000 + nsec)" by simp
    then show ?thesis by simp
  qed
  have exact: "(of_int d :: rat) / 2000000000000 = (of_int sec + t) / 2000"
    unfolding split t_def by (simp add: field_simps)
  have conv: "float64 (of_int sec) = of_int sec" "float64 (of_int nsec) = of_int nsec"
    using sec nsec by (simp_all add: float64_of_int)
  define y where "y = float64 t"
  define x where "x = float64 (of_int sec + y)"
  have S: "Seconds d = x"
    unfolding Seconds_nonneg [OF d(1)] x_def y_def t_def
    by (simp add: conv [unfolded sec_def nsec_def] sec_def nsec_def)
  define A :: rat where "A = of_int \<lceil>t * 262144\<rceil> / 262144"
  define B :: rat where "B = of_int \<lfloor>t * 262144\<rfloor> / 262144"
  have cA: "0 \<le> \<lceil>t * 262144\<rceil>" "\<lceil>t * 262144\<rceil> \<le> 262144"
    using t by (simp_all add: ceiling_le_iff le_ceiling_iff)
  have cB: "0 \<le> \<lfloor>t * 262144\<rfloor>" "\<lfloor>t * 262144\<rfloor> \<le> 262144"
    using t by (simp_all add: le_floor_iff floor_le_iff)
  have A: "t \<le> A" "A < t + 1 / 262144"
    using ceiling_correct [of "t * 262144"] by (simp_all add: A_def field_simps)
  have B: "B \<le> t" "t - 1 / 262144 < B" "0 \<le> B"
    using floor_correct [of "t * 262144"] cB(1) by (simp_all add: B_def field_simps)
  have fA: "float64 A = A" and fB: "float64 B = B"
    using float64_dyadic [of "\<lceil>t * 262144\<rceil>" 18] float64_dyadic [of "\<lfloor>t * 262144\<rfloor>" 18] cA cB
    by (simp_all add: A_def B_def)
  have y: "B \<le> y" "y \<le> A"
    using float64_mono [OF B(3) B(1)] float64_mono [OF t(1) A(1)] by (simp_all add: y_def fA fB)
  have sA: "of_int sec + A = of_int (sec * 262144 + \<lceil>t * 262144\<rceil>) / 2 ^ 18"
    and sB: "of_int sec + B = of_int (sec * 262144 + \<lfloor>t * 262144\<rfloor>) / 2 ^ 18"
    by (simp_all add: A_def B_def field_simps)
  have p53: "(2 :: int) ^ 53 = 9007199254740992" by simp
  have nA: "0 \<le> sec * 262144 + \<lceil>t * 262144\<rceil>"
    "sec * 262144 + \<lceil>t * 262144\<rceil> < 9007199254740992"
    using sec cA by linarith+
  have nB: "0 \<le> sec * 262144 + \<lfloor>t * 262144\<rfloor>"
    "sec * 262144 + \<lfloor>t * 262144\<rfloor> < 9007199254740992"
    using sec cB by linarith+
  have fsA: "float64 (of_int sec + A) = of_int sec + A"
    unfolding sA by (rule float64_dyadic [OF nA(1)]) (simp only: nA(2) p53)
  have fsB: "float64 (of_int sec + B) = of_int sec + B"
    unfolding sB by (rule float64_dyadic [OF nB(1)]) (simp only: nB(2) p53)
  have x: "of_int sec + B \<le> x" "x \<le> of_int sec + A"
  proof -
    have "0 \<le> of_int sec + B" using sec B by simp
    moreover have "of_int sec + B \<le> of_int sec + y" using y by simp
    ultimately have "float64 (of_int sec + B) \<le> float64 (of_int sec + y)"
      by (rule float64_mono)
    then show "of_int sec + B \<le> x" by (simp add: fsB x_def)
    have "0 \<le> of_int sec + y" using sec B y by simp
    moreover have "of_int sec + y \<le> of_int sec + A" using y by simp
    ultimately have "float64 (of_int sec + y) \<le> float64 (of_int sec + A)"
      by (rule float64_mono)
    then show "x \<le> of_int sec + A" by (simp add: fsA x_def)
  qed
  have x0: "0 \<le> x" using x(1) sec B by simp
  define Y :: rat where "Y = (of_int sec + t) / 2000"
  define Q where "Q = \<lceil>Y\<rceil>"
  have YN: "Y = of_int N / 2000000"
    unfolding Y_def exact [symmetric] dN by simp
  have Y0: "0 \<le> Y" using sec t by (simp add: Y_def)
  have Q0: "0 \<le> Q" using Y0 by (simp add: Q_def)
  have Qmax: "Q \<le> 4611687"
  proof -
    have "Y \<le> of_int (4611687 :: int)"
      using sec(2) t(2) by (simp add: Y_def)
    then show ?thesis unfolding Q_def by (simp only: ceiling_le_iff)
  qed
  have fQ: "float64 (of_int Q) = of_int Q"
    using Q0 Qmax by (intro float64_of_int) simp_all
  show ?thesis
  proof (cases "Y = of_int Q")
    case True
    then have "(of_int N :: rat) = of_int (Q * 2000000)"
      unfolding YN by (simp add: field_simps)
    then have N: "N = Q * 2000000" by (simp only: of_int_eq_iff)
    have "d = Q * 2000 * 1000000000" unfolding dN N by simp
    then have "sec = Q * 2000" "nsec = 0" by (simp_all add: sec_def nsec_def)
    then have "t = 0" "of_int sec = (of_int Q :: rat) * 2000" by (simp_all add: t_def)
    then have "x = of_int Q * 2000"
      using conv(1) by (simp add: x_def y_def)
    then have "float64 (Seconds d / 2000) = of_int Q" by (simp add: S fQ)
    moreover have "\<lceil>of_int d / (2000000000000 :: rat)\<rceil> = Q"
      unfolding exact Q_def Y_def ..
    ultimately show ?thesis by simp
  next
    case False
    have "Y \<le> of_int Q" unfolding Q_def by (rule le_of_int_ceiling)
    with False have lt: "Y < of_int Q" by simp
    have gt: "of_int Q - 1 < Y" unfolding Q_def using ceiling_correct [of Y] by simp
    have "of_int N < (of_int (Q * 2000000) :: rat)"
      using lt unfolding YN by (simp add: field_simps)
    then have "N < Q * 2000000" by (simp only: of_int_less_iff)
    then have "N + 1 \<le> Q * 2000000" by simp
    then have "(of_int (N + 1) :: rat) \<le> of_int (Q * 2000000)" by (simp only: of_int_le_iff)
    then have up: "Y \<le> of_int Q - 1 / 2000000"
      unfolding YN by (simp add: field_simps)
    have "(of_int ((Q - 1) * 2000000) :: rat) < of_int N"
      using gt unfolding YN by (simp add: field_simps)
    then have "(Q - 1) * 2000000 < N" by (simp only: of_int_less_iff)
    then have "(Q - 1) * 2000000 + 1 \<le> N" by simp
    then have "(of_int ((Q - 1) * 2000000 + 1) :: rat) \<le> of_int N" by (simp only: of_int_le_iff)
    then have low: "of_int Q - 1 + 1 / 2000000 \<le> Y"
      unfolding YN by (simp add: field_simps)
    have Q1: "1 \<le> Q"
    proof -
      from low Y0 lt have "(0 :: rat) < of_int Q" by simp
      then show ?thesis by simp
    qed
    have "0 \<le> x / 2000" using x0 by simp
    moreover have "x / 2000 \<le> of_int Q"
      using x(2) A(2) up by (simp add: Y_def field_simps)
    ultimately have "float64 (x / 2000) \<le> float64 (of_int Q)" by (rule float64_mono)
    then have le: "float64 (x / 2000) \<le> of_int Q" by (simp add: fQ)
    define Z :: rat where "Z = of_int ((Q - 1) * 4194304 + 1) / 2 ^ 22"
    have Z: "Z = of_int Q - 1 + 1 / 4194304" by (simp add: Z_def field_simps)
    have nZ: "0 \<le> (Q - 1) * 4194304 + 1" "(Q - 1) * 4194304 + 1 < 9007199254740992"
      using Q1 Qmax by (simp_all add: algebra_simps)
    have fZ: "float64 Z = Z"
      unfolding Z_def by (rule float64_dyadic [OF nZ(1)]) (simp only: nZ(2) p53)
    have "0 \<le> Z" using Q1 unfolding Z by simp
    moreover have "Z \<le> x / 2000"
      using x(1) B(2) low unfolding Z by (simp add: Y_def field_simps)
    ultimately have "float64 Z \<le> float64 (x / 2000)" by (rule float64_mono)
    then have "Z \<le> float64 (x / 2000)" by (simp only: fZ)
    then have "of_int (Q - 1) < float64 (x / 2000)" unfolding Z by simp
    with le have "\<lceil>float64 (x / 2000)\<rceil> = Q"
      by (intro ceiling_unique) simp_all
    moreover have "\<lceil>of_int d / (2000000000000 :: rat)\<rceil> = Q"
      unfolding exact Q_def Y_def ..
    ultimately show ?thesis by (simp add: S)
  qed
qed

subsection \<open>The resolved period\<close>

lemma float64_minus: "float64 (- x) = - float64 x"
  by (simp add: float64_def Let_def)

lemma float64_nonpos: "x \<le> 0 \<Longrightarrow> float64 x \<le> 0"
  using float64_nonneg [of "- x"] by (simp add: float64_minus)

lemma Seconds_nonpos:
  assumes "d \<le> 0"
  shows "Seconds d \<le> 0"
proof -
  have q: "quo d Second = - (\<bar>d\<bar> div 1000000000)"
    using assms by (cases "d = 0") (simp_all add: quo_def Second_def)
  have r: "rem d Second = - (\<bar>d\<bar> mod 1000000000)"
    using assms unfolding rem_def q by (simp add: Second_def minus_mult_div_eq_mod [symmetric])
  have "quo d Second \<le> 0" unfolding q using assms by (simp add: pos_imp_zdiv_nonneg_iff)
  then have a: "float64 (of_int (quo d Second)) \<le> 0" by (intro float64_nonpos) simp
  have "rem d Second \<le> 0" unfolding r by simp
  then have "float64 (of_int (rem d Second)) \<le> 0" by (intro float64_nonpos) simp
  then have "float64 (of_int (rem d Second)) / 1000000000 \<le> 0" by simp
  then have b: "float64 (float64 (of_int (rem d Second)) / 1000000000) \<le> 0"
    by (rule float64_nonpos)
  from a b show ?thesis
    by (simp add: Seconds_def Let_def float64_nonpos)
qed

lemma target_nonpos:
  assumes "d \<le> 0"
  shows "\<lceil>float64 (Seconds d / 2000)\<rceil> \<le> 0"
proof -
  have "Seconds d / 2000 \<le> 0" using Seconds_nonpos [OF assms] by simp
  then have "float64 (Seconds d / 2000) \<le> 0" by (rule float64_nonpos)
  then show ?thesis by (simp add: ceiling_le_iff)
qed

lemma target_maxDuration: "\<lceil>float64 (Seconds maxDuration / 2000)\<rceil> = 4611687"
  by code_simp

lemma getRetainedPeriods_bounds:
  "c \<in> set (getRetainedPeriods a) \<Longrightarrow> 60 \<le> c \<and> c \<le> 86400"
  by (auto simp: getRetainedPeriods_def split: if_splits)

lemma getRetainedPeriods_Sub:
  "getRetainedPeriods (Sub now startTime) =
     (if now - startTime > 455 * 24 * 3600 * 1000000000 then [21600, 86400]
      else if now - startTime > 63 * 24 * 3600 * 1000000000 then [3600, 21600, 86400]
      else if now - startTime > 15 * 24 * 3600 * 1000000000 then [300, 900, 3600, 21600, 86400]
      else [60, 300, 900, 3600, 21600, 86400])"
  by (simp add: getRetainedPeriods_def Sub_def Let_def Hour_def Second_def maxDuration_def
      minDuration_def)

text \<open>
  Whatever the range of whole milliseconds, also one that ends before it starts or one
  too long for a \<^verbatim>\<open>Duration\<close>, the target of the code and the exact one select the same
  candidates.
\<close>

lemma target_same_candidates:
  assumes ms: "(endTime - startTime) mod 1000000 = 0"
    and c: "60 \<le> c" "c \<le> 86400"
  shows "\<lceil>float64 (Seconds (Sub endTime startTime) / 2000)\<rceil> \<le> c \<longleftrightarrow>
         \<lceil>of_int (endTime - startTime) / 1000000000 / (2000 :: rat)\<rceil> \<le> c"
proof -
  let ?d = "endTime - startTime"
  consider "?d < 0" | "0 \<le> ?d" "?d \<le> maxDuration" | "maxDuration < ?d" by linarith
  then show ?thesis
  proof cases
    case 1
    then have "Sub endTime startTime \<le> 0"
      by (simp add: Sub_def Let_def maxDuration_def minDuration_def)
    from target_nonpos [OF this] c(1)
    have "\<lceil>float64 (Seconds (Sub endTime startTime) / 2000)\<rceil> \<le> c"
      by linarith
    moreover have "(of_int ?d :: rat) / 1000000000 / 2000 \<le> 0" using 1 by simp
    then have "\<lceil>of_int ?d / 1000000000 / (2000 :: rat)\<rceil> \<le> 0" by (simp only: ceiling_le_zero)
    with c(1) have "\<lceil>of_int ?d / 1000000000 / (2000 :: rat)\<rceil> \<le> c" by linarith
    ultimately show ?thesis by simp
  next
    case 2
    then have "Sub endTime startTime = ?d"
      by (simp add: Sub_def Let_def minDuration_def)
    with target_exact [OF 2 ms] show ?thesis by simp
  next
    case 3
    then have "Sub endTime startTime = maxDuration"
      by (simp add: Sub_def Let_def)
    then have "\<not> \<lceil>float64 (Seconds (Sub endTime startTime) / 2000)\<rceil> \<le> c"
      using c by (simp add: target_maxDuration)
    moreover have "(86400 :: rat) < of_int ?d / 1000000000 / 2000"
      using 3 by (simp add: maxDuration_def)
    then have "\<not> \<lceil>of_int ?d / 1000000000 / (2000 :: rat)\<rceil> \<le> c"
      using c by (simp add: ceiling_le_iff)
    ultimately show ?thesis by simp
  qed
qed

lemma atoi_digits_decimal:
  assumes "\<forall>c \<in> set ds. c \<in> set ''0123456789''"
  shows "atoi_digits a ds = Some (foldl (\<lambda>a c. 10 * a + (int (of_char c) - 48)) a ds)"
  using assms
proof (induction ds arbitrary: a)
  case Nil
  then show ?case by simp
next
  case (Cons c ds)
  from Cons.prems have "c \<in> set ''0123456789''" by simp
  then have "48 \<le> (of_char c :: nat) \<and> (of_char c :: nat) \<le> 57" by auto
  with Cons show ?case by (simp add: Let_def mult.commute)
qed

lemma Atoi_decimal:
  assumes "sign \<in> {[], ''+'', ''-''}" "ds \<noteq> []" "\<forall>c \<in> set ds. c \<in> set ''0123456789''"
    and "n = (if sign = ''-'' then - decimal ds else decimal ds)"
    and "- (2 ^ 63) \<le> n" "n < 2 ^ 63"
  shows "Atoi (sign @ ds) = Some n"
proof -
  obtain c cs where ds: "ds = c # cs" using assms(2) by (cases ds) auto
  with assms(3) have "c \<in> set ''0123456789''" by simp
  then have c: "c \<noteq> CHR ''-''" "c \<noteq> CHR ''+''" by auto
  have digits: "atoi_digits 0 ds = Some (decimal ds)"
    using atoi_digits_decimal [OF assms(3)] by (simp add: decimal_def)
  from assms(1) consider "sign = []" | "sign = ''+''" | "sign = ''-''" by auto
  then show ?thesis
  proof cases
    case 1
    from digits have "atoi_digits 0 (c # cs) = Some (decimal (c # cs))"
      by (simp only: ds)
    with assms(4-6) c show ?thesis
      unfolding 1 ds by (simp add: Atoi_def minInt_def maxInt_def del: atoi_digits.simps)
  next
    case 2
    with assms(2,4-6) digits show ?thesis
      by (simp add: Atoi_def minInt_def maxInt_def)
  next
    case 3
    with assms(2,4-6) digits show ?thesis
      by (simp add: Atoi_def minInt_def maxInt_def)
  qed
qed

text \<open>
  Off the whole milliseconds the rounding shows on long ranges: one nanosecond over 500 days
  is lost in \<^verbatim>\<open>Duration.Seconds\<close>, so the target is 21600, where the exact quotient would
  give 21601.
\<close>

lemma float_target_example:
  "\<lceil>float64 (Seconds 43200000000000001 / 2000)\<rceil> = 21600 \<and>
   \<lceil>(43200000000000001 :: rat) / 1000000000 / 2000\<rceil> = 21601"
  by code_simp

text \<open>
  Claim C2, as amended. For a time range whose length is a whole number of milliseconds:
  when the period is empty or, ignoring case, \<^verbatim>\<open>auto\<close>, the resolved period is the smallest
  candidate that is at least \<open>\<lceil>(end - start in seconds) / 2000\<rceil>\<close>, and the largest candidate
  when there is none; the candidates are 21600 and 86400 when the start is more than 455
  days before now, 3600, 21600 and 86400 when it is more than 63 days, 300, 900, 3600,
  21600 and 86400 when it is more than 15 days, and 60, 300, 900, 3600, 21600 and 86400
  otherwise. When the period is an optional sign followed by decimal digits and its value
  fits a 64-bit integer, the resolved period is that value, whatever the time range.
\<close>

theorem getPeriod_resolution:
  "((mdq_Period query = [] \<or> ToLower (mdq_Period query) = ''auto'') \<and>
    (endTime - startTime) mod 1000000 = 0 \<longrightarrow>
      getPeriod ParseDuration now query startTime endTime =
        Inr (let age = now - startTime;
                 candidates =
                   (if age > 455 * 24 * 3600 * 1000000000 then [21600, 86400]
                    else if age > 63 * 24 * 3600 * 1000000000 then [3600, 21600, 86400]
                    else if age > 15 * 24 * 3600 * 1000000000 then [300, 900, 3600, 21600, 86400]
                    else [60, 300, 900, 3600, 21600, 86400]);
                 target = \<lceil>of_int (endTime - startTime) / 1000000000 / (2000 :: rat)\<rceil>
             in if \<exists>c \<in> set candidates. target \<le> c
                then Min {c \<in> set candidates. target \<le> c}
                else Max (set candidates))) \<and>
   (mdq_Period query = sign @ digits \<and> sign \<in> {[], ''+'', ''-''} \<and> digits \<noteq> [] \<and>
    (\<forall>c \<in> set digits. c \<in> set ''0123456789'') \<and>
    n = (if sign = ''-'' then - decimal digits else decimal digits) \<and>
    - (2 ^ 63) \<le> n \<and> n < 2 ^ 63 \<longrightarrow>
      getPeriod ParseDuration now query startTime endTime = Inr n)"
proof (intro conjI impI)
  assume a: "(mdq_Period query = [] \<or> ToLower (mdq_Period query) = ''auto'') \<and>
    (endTime - startTime) mod 1000000 = 0"
  let ?cs = "getRetainedPeriods (Sub now startTime)"
  let ?t = "\<lceil>float64 (Seconds (Sub endTime startTime) / 2000)\<rceil>"
  let ?t' = "\<lceil>of_int (endTime - startTime) / 1000000000 / (2000 :: rat)\<rceil>"
  have sorted: "sorted ?cs" and ne: "?cs \<noteq> []"
    using getRetainedPeriods_sorted by simp_all
  have same: "?t \<le> c \<longleftrightarrow> ?t' \<le> c" if "c \<in> set ?cs" for c
    using target_same_candidates [of endTime startTime c] a getRetainedPeriods_bounds [OF that]
    by simp
  then have sets: "{c \<in> set ?cs. ?t \<le> c} = {c \<in> set ?cs. ?t' \<le> c}"
    and ex: "(\<exists>c \<in> set ?cs. ?t \<le> c) \<longleftrightarrow> (\<exists>c \<in> set ?cs. ?t' \<le> c)"
    by auto
  have "getPeriod ParseDuration now query startTime endTime = Inr (pick_period ?t ?cs (last ?cs))"
    using a ne by (auto simp: getPeriod_def Let_def)
  also have "pick_period ?t ?cs (last ?cs) =
      (if \<exists>c \<in> set ?cs. ?t \<le> c then Min {c \<in> set ?cs. ?t \<le> c} else Max (set ?cs))"
    using pick_period_sorted [OF sorted] last_sorted_Max [OF sorted ne] by simp
  also have "\<dots> =
      (if \<exists>c \<in> set ?cs. ?t' \<le> c then Min {c \<in> set ?cs. ?t' \<le> c} else Max (set ?cs))"
    by (simp only: sets ex)
  finally show "getPeriod ParseDuration now query startTime endTime =
        Inr (let age = now - startTime;
                 candidates =
                   (if age > 455 * 24 * 3600 * 1000000000 then [21600, 86400]
                    else if age > 63 * 24 * 3600 * 1000000000 then [3600, 21600, 86400]
                    else if age > 15 * 24 * 3600 * 1000000000 then [300, 900, 3600, 21600, 86400]
                    else [60, 300, 900, 3600, 21600, 86400]);
                 target = ?t'
             in if \<exists>c \<in> set candidates. target \<le> c
                then Min {c \<in> set candidates. target \<le> c}
                else Max (set candidates))"
    unfolding getRetainedPeriods_Sub Let_def .
next
  assume "mdq_Period query = sign @ digits \<and> sign \<in> {[], ''+'', ''-''} \<and> digits \<noteq> [] \<and>
    (\<forall>c \<in> set digits. c \<in> set ''0123456789'') \<and>
    n = (if sign = ''-'' then - decimal digits else decimal digits) \<and>
    - (2 ^ 63) \<le> n \<and> n < 2 ^ 63"
  then have "Atoi (mdq_Period query) = Some n"
    using Atoi_decimal [of sign digits n] by simp
  then show "getPeriod ParseDuration now query startTime endTime = Inr n"
    using Atoi_not_auto [of "mdq_Period query" n] by (simp add: getPeriod_def Let_def)
qed

lemma Min_candidates_eval:
  "Min {c \<in> set (x # xs). P c} =
     (if P x then (if \<exists>c \<in> set xs. P c then min x (Min {c \<in> set xs. P c}) else x)
      else Min {c \<in> set xs. P c})"
proof (cases "P x")
  case False
  then have "{c \<in> set (x # xs). P c} = {c \<in> set xs. P c}" by auto
  then have "Min {c \<in> set (x # xs). P c} = Min {c \<in> set xs. P c}" by (rule arg_cong)
  with False show ?thesis by (simp only: if_False)
next
  case True
  then have ins: "{c \<in> set (x # xs). P c} = insert x {c \<in> set xs. P c}" by auto
  show ?thesis
  proof (cases "\<exists>c \<in> set xs. P c")
    case ex: True
    then have "{c \<in> set xs. P c} \<noteq> {}" by auto
    then have "Min (insert x {c \<in> set xs. P c}) = min x (Min {c \<in> set xs. P c})"
      by (intro Min_insert) simp_all
    with True ex ins show ?thesis by (simp only: if_True)
  next
    case nex: False
    then have "{c \<in> set xs. P c} = {}" by auto
    with ins have "{c \<in> set (x # xs). P c} = {x}" by simp
    then have "Min {c \<in> set (x # xs). P c} = Min {x}" by (rule arg_cong)
    with True nex show ?thesis by (simp only: if_True if_False Min_singleton)
  qed
qed

theorem getPeriod_resolution_witness:
  "ToLower ''Auto'' = ''auto'' \<and> (4000000000000 - 0) mod 1000000 = (0 :: int) \<and>
   getPeriod (\<lambda>s. Inl (ErrorString ''time: invalid duration'')) 4000000000000
     \<lparr>mdq_Dimensions = [], mdq_Expression = [], mdq_Label = None, mdq_Id = [],
      mdq_MatchExact = None, mdq_MetricEditorMode = None, mdq_MetricName = [],
      mdq_MetricQueryType = 0, mdq_Namespace = [], mdq_Period = ''Auto'', mdq_Region = [],
      mdq_SqlExpression = [], mdq_Statistic = None, mdq_Statistics = None,
      mdq_TimezoneUTCOffset = [], mdq_QueryType = [], mdq_Hide = None, mdq_Alias = [],
      mdq_AccountId = None\<rparr> 0 4000000000000 = Inr 60 \<and>
   ''-300'' = ''-'' @ ''300'' \<and> decimal ''300'' = 300 \<and>
   getPeriod (\<lambda>s. Inl (ErrorString ''time: invalid duration'')) 4000000000000
     \<lparr>mdq_Dimensions = [], mdq_Expression = [], mdq_Label = None, mdq_Id = [],
      mdq_MatchExact = None, mdq_MetricEditorMode = None, mdq_MetricName = [],
      mdq_MetricQueryType = 0, mdq_Namespace = [], mdq_Period = ''-300'', mdq_Region = [],
      mdq_SqlExpression = [], mdq_Statistic = None, mdq_Statistics = None,
      mdq_TimezoneUTCOffset = [], mdq_QueryType = [], mdq_Hide = None, mdq_Alias = [],
      mdq_AccountId = None\<rparr> 0 4000000000000 = Inr (- 300)"
proof -
  let ?pd = "\<lambda>s :: string. (Inl (ErrorString ''time: invalid duration'') :: error + Duration)"
  let ?q = "\<lambda>p. \<lparr>mdq_Dimensions = [], mdq_Expression = [], mdq_Label = None, mdq_Id = [],
      mdq_MatchExact = None, mdq_MetricEditorMode = None, mdq_MetricName = [],
      mdq_MetricQueryType = 0, mdq_Namespace = [], mdq_Period = p, mdq_Region = [],
      mdq_SqlExpression = [], mdq_Statistic = None, mdq_Statistics = None,
      mdq_TimezoneUTCOffset = [], mdq_QueryType = [], mdq_Hide = None, mdq_Alias = [],
      mdq_AccountId = None\<rparr>"
  have lower: "ToLower ''Auto'' = ''auto''"
    by code_simp
  have dec: "decimal ''300'' = 300"
    by (simp add: decimal_def)
  have cands: "(if 4000000000000 - (0 :: int) > 455 * 24 * 3600 * 1000000000 then [21600, 86400]
            else if 4000000000000 - (0 :: int) > 63 * 24 * 3600 * 1000000000 then [3600, 21600, 86400]
            else if 4000000000000 - (0 :: int) > 15 * 24 * 3600 * 1000000000 then [300, 900, 3600, 21600, 86400]
            else [60, 300, 900, 3600, 21600, 86400 :: int]) =
      [60, 300, 900, 3600, 21600, 86400]"
    by simp
  have target: "\<lceil>of_int (4000000000000 - 0) / 1000000000 / (2000 :: rat)\<rceil> = 2"
    by code_simp
  have pick: "(let age = 4000000000000 - (0 :: int);
                 candidates =
                   (if age > 455 * 24 * 3600 * 1000000000 then [21600, 86400]
                    else if age > 63 * 24 * 3600 * 1000000000 then [3600, 21600, 86400]
                    else if age > 15 * 24 * 3600 * 1000000000 then [300, 900, 3600, 21600, 86400]
                    else [60, 300, 900, 3600, 21600, 86400]);
                 target = \<lceil>of_int (4000000000000 - 0) / 1000000000 / (2000 :: rat)\<rceil>
             in if \<exists>c \<in> set candidates. target \<le> c
                then Min {c \<in> set candidates. target \<le> c}
                else Max (set candidates)) = 60"
    unfolding Let_def cands target Min_candidates_eval by simp
  have "getPeriod ?pd 4000000000000 (?q ''Auto'') 0 4000000000000 = Inr 60"
    using getPeriod_resolution [where query = "?q ''Auto''" and ParseDuration = ?pd
        and now = 4000000000000 and startTime = 0 and endTime = 4000000000000] lower
    unfolding pick by simp
  moreover have "getPeriod ?pd 4000000000000 (?q ''-300'') 0 4000000000000 = Inr (- 300)"
    using getPeriod_resolution [where query = "?q ''-300''" and ParseDuration = ?pd
        and now = 4000000000000 and startTime = 0 and endTime = 4000000000000
        and sign = "''-''" and digits = "''300''" and n = "- 300"] dec
    by simp
  ultimately show ?thesis
    using lower dec by simp
qed

text \<open>
  The claim as stated fails twice. Over 500 days and one nanosecond the seconds are
  rounded to 43200000 in \<^verbatim>\<open>Duration.Seconds\<close>, so the code compares the candidates with 21600
  and returns 21600, where the exact quotient, rounded up, is 21601 and the smallest
  candidate that is not below it is 86400. And an integer string whose value does not fit
  64 bits is not returned: \<^verbatim>\<open>strconv.Atoi\<close> refuses it, and the text goes to
  \<^verbatim>\<open>time.ParseDuration\<close>, whose error becomes the result.
\<close>

theorem getPeriod_resolution_counterexample:
  "getPeriod (\<lambda>s. Inl (ErrorString ''time: invalid duration'')) 43200000000000001
     \<lparr>mdq_Dimensions = [], mdq_Expression = [], mdq_Label = None, mdq_Id = [],
      mdq_MatchExact = None, mdq_MetricEditorMode = None, mdq_MetricName = [],
      mdq_MetricQueryType = 0, mdq_Namespace = [], mdq_Period = ''auto'', mdq_Region = [],
      mdq_SqlExpression = [], mdq_Statistic = None, mdq_Statistics = None,
      mdq_TimezoneUTCOffset = [], mdq_QueryType = [], mdq_Hide = None, mdq_Alias = [],
      mdq_AccountId = None\<rparr> 0 43200000000000001 = Inr 21600 \<and>
   (let age = 43200000000000001 - (0 :: int);
        candidates =
          (if age > 455 * 24 * 3600 * 1000000000 then [21600, 86400]
           else if age > 63 * 24 * 3600 * 1000000000 then [3600, 21600, 86400]
           else if age > 15 * 24 * 3600 * 1000000000 then [300, 900, 3600, 21600, 86400]
           else [60, 300, 900, 3600, 21600, 86400]);
        target = \<lceil>of_int (43200000000000001 - 0) / 1000000000 / (2000 :: rat)\<rceil>
    in if \<exists>c \<in> set candidates. target \<le> c
       then Min {c \<in> set candidates. target \<le> c}
       else Max (set candidates)) = 86400 \<and>
   decimal ''9223372036854775808'' = 2 ^ 63 \<and>
   (\<forall>e. getPeriod (\<lambda>s. Inl e) 0
     \<lparr>mdq_Dimensions = [], mdq_Expression = [], mdq_Label = None, mdq_Id = [],
      mdq_MatchExact = None, mdq_MetricEditorMode = None, mdq_MetricName = [],
      mdq_MetricQueryType = 0, mdq_Namespace = [], mdq_Period = ''9223372036854775808'',
      mdq_Region = [], mdq_SqlExpression = [], mdq_Statistic = None, mdq_Statistics = None,
      mdq_TimezoneUTCOffset = [], mdq_QueryType = [], mdq_Hide = None, mdq_Alias = [],
      mdq_AccountId = None\<rparr> 0 0 =
     Inl (Returned (ErrorString (''failed to parse period as duration: '' @ Error e))))"
proof -
  have run: "getPeriod (\<lambda>s. Inl (ErrorString ''time: invalid duration'')) 43200000000000001
     \<lparr>mdq_Dimensions = [], mdq_Expression = [], mdq_Label = None, mdq_Id = [],
      mdq_MatchExact = None, mdq_MetricEditorMode = None, mdq_MetricName = [],
      mdq_MetricQueryType = 0, mdq_Namespace = [], mdq_Period = ''auto'', mdq_Region = [],
      mdq_SqlExpression = [], mdq_Statistic = None, mdq_Statistics = None,
      mdq_TimezoneUTCOffset = [], mdq_QueryType = [], mdq_Hide = None, mdq_Alias = [],
      mdq_AccountId = None\<rparr> 0 43200000000000001 = Inr 21600"
    by code_simp
  have cands: "(if 43200000000000001 - (0 :: int) > 455 * 24 * 3600 * 1000000000 then [21600, 86400]
            else if 43200000000000001 - (0 :: int) > 63 * 24 * 3600 * 1000000000 then [3600, 21600, 86400]
            else if 43200000000000001 - (0 :: int) > 15 * 24 * 3600 * 1000000000 then [300, 900, 3600, 21600, 86400]
            else [60, 300, 900, 3600, 21600, 86400 :: int]) =
      [21600, 86400]"
    by simp
  have target: "\<lceil>of_int (43200000000000001 - 0) / 1000000000 / (2000 :: rat)\<rceil> = 21601"
    by code_simp
  have rule: "(let age = 43200000000000001 - (0 :: int);
        candidates =
          (if age > 455 * 24 * 3600 * 1000000000 then [21600, 86400]
           else if age > 63 * 24 * 3600 * 1000000000 then [3600, 21600, 86400]
           else if age > 15 * 24 * 3600 * 1000000000 then [300, 900, 3600, 21600, 86400]
           else [60, 300, 900, 3600, 21600, 86400]);
        target = \<lceil>of_int (43200000000000001 - 0) / 1000000000 / (2000 :: rat)\<rceil>
    in if \<exists>c \<in> set candidates. target \<le> c
       then Min {c \<in> set candidates. target \<le> c}
       else Max (set candidates)) = 86400"
    unfolding Let_def cands target Min_candidates_eval by simp
  have dec: "decimal ''9223372036854775808'' = 2 ^ 63"
    by (simp add: decimal_def)
  have lower: "ToLower ''9223372036854775808'' \<noteq> ''auto''"
    by code_simp
  have atoi: "Atoi ''9223372036854775808'' = None"
    by code_simp
  have err: "getPeriod (\<lambda>s. Inl e) 0
     \<lparr>mdq_Dimensions = [], mdq_Expression = [], mdq_Label = None, mdq_Id = [],
      mdq_MatchExact = None, mdq_MetricEditorMode = None, mdq_MetricName = [],
      mdq_MetricQueryType = 0, mdq_Namespace = [], mdq_Period = ''9223372036854775808'',
      mdq_Region = [], mdq_SqlExpression = [], mdq_Statistic = None, mdq_Statistics = None,
      mdq_TimezoneUTCOffset = [], mdq_QueryType = [], mdq_Hide = None, mdq_Alias = [],
      mdq_AccountId = None\<rparr> 0 0 =
     Inl (Returned (ErrorString (''failed to parse period as duration: '' @ Error e)))" for e
    using lower atoi by (simp add: getPeriod_def Let_def)
  from run rule dec err show ?thesis by blast
qed

section \<open>Verified properties: query normalization\<close>

lemma replace_from_single: "replace_from [c] [] s = filter (\<lambda>x. x \<noteq> c) s"
  by (induction s) auto

lemma ReplaceAll_hyphen: "ReplaceAll u ''-'' [] = filter (\<lambda>x. x \<noteq> CHR ''-'') u"
  by (simp add: ReplaceAll_def replace_from_single)

lemma uuid_suffix_nonempty:
  assumes "is_uuid_text u"
  shows "filter (\<lambda>x. x \<noteq> CHR ''-'') u \<noteq> []"
proof -
  from assms have len: "length u = 36"
    and all: "\<forall>i \<in> set [0..<36]. if i \<in> {8, 13, 18, 23} then u ! i = CHR ''-'' else is_hex (u ! i)"
    by (simp_all add: is_uuid_text_def list_all_iff)
  from all have "is_hex (u ! 0)"
    by (drule_tac x = 0 in bspec) simp_all
  then have "u ! 0 \<noteq> CHR ''-''"
    by (auto simp: is_hex_def Let_def)
  moreover have "u ! 0 \<in> set u"
    using len by (intro nth_mem) simp
  ultimately show ?thesis
    by (auto simp: filter_empty_conv)
qed

lemma validateAndSetDefaults_Inr:
  assumes "validateAndSetDefaults ParseDuration now newUUID q refId m startTime endTime
             defaultRegionValue crossAccount = Inr q'"
  obtains period dims where
    "mdq_Statistic m \<noteq> None \<or> mdq_Statistics m \<noteq> None"
    "getPeriod ParseDuration now m startTime endTime = Inr period"
    "parseDimensions (mdq_Dimensions m) = Inr dims"
proof -
  have stat: "mdq_Statistic m \<noteq> None \<or> mdq_Statistics m \<noteq> None"
    using assms by (rule_tac ccontr) (simp add: validateAndSetDefaults_def)
  then have stat': "\<not> (mdq_Statistic m = None \<and> mdq_Statistics m = None)"
    by simp
  obtain period where period: "getPeriod ParseDuration now m startTime endTime = Inr period"
    using assms stat'
    by (cases "getPeriod ParseDuration now m startTime endTime")
       (simp_all add: validateAndSetDefaults_def)
  obtain dims where "parseDimensions (mdq_Dimensions m) = Inr dims"
  proof (cases "parseDimensions (mdq_Dimensions m)")
    case (Inl f)
    with assms stat' period have False
      by (cases f) (simp_all add: validateAndSetDefaults_def)
    then show ?thesis ..
  next
    case (Inr dims)
    with that show ?thesis .
  qed
  with stat period that show ?thesis by blast
qed

lemma validateAndSetDefaults_ok:
  assumes "mdq_Statistic m \<noteq> None \<or> mdq_Statistics m \<noteq> None"
    and "getPeriod ParseDuration now m startTime endTime = Inr period"
    and "parseDimensions (mdq_Dimensions m) = Inr dims"
  shows "validateAndSetDefaults ParseDuration now newUUID q refId m startTime endTime
             defaultRegionValue crossAccount =
         Inr (q\<lparr>Period := period,
                 Dimensions := dims,
                 AccountId := (if crossAccount then mdq_AccountId m else AccountId q),
                 Id := (if mdq_Id m = []
                        then ''query'' @ (if validMetricDataID refId then refId
                                          else ReplaceAll newUUID ''-'' [])
                        else Id q),
                 MatchExact := (case mdq_MatchExact m of None \<Rightarrow> True | Some b \<Rightarrow> b),
                 ReturnData := (if mdq_QueryType m = [] then True
                                else (case mdq_Hide m of None \<Rightarrow> True | Some h \<Rightarrow> \<not> h)),
                 MetricEditorMode := (case mdq_MetricEditorMode m of
                                        Some mode \<Rightarrow> mode
                                      | None \<Rightarrow> if mdq_Expression m = []
                                                then MetricEditorModeBuilder
                                                else MetricEditorModeRaw),
                 Region := (if Region q = defaultRegion then defaultRegionValue else Region q)\<rparr>)"
proof -
  have stat: "\<not> (mdq_Statistic m = None \<and> mdq_Statistics m = None)"
    using assms(1) by simp
  show ?thesis
    unfolding validateAndSetDefaults_def
    apply (simp only: stat if_False assms(2,3) sum.case)
    apply (cases crossAccount; cases "mdq_Id m = []"; cases "mdq_QueryType m = []";
        cases "mdq_MetricEditorMode m"; cases "mdq_Expression m = []";
        cases "Region q = defaultRegion")
    apply (simp_all add: Let_def)
    done
qed

lemma validateAndSetDefaults_fields:
  assumes "validateAndSetDefaults ParseDuration now newUUID q refId m startTime endTime
             defaultRegionValue crossAccount = Inr q'"
  shows "Id q' = (if mdq_Id m = []
                  then ''query'' @ (if validMetricDataID refId then refId
                                    else ReplaceAll newUUID ''-'' [])
                  else Id q)"
    and "ReturnData q' \<longleftrightarrow> mdq_QueryType m = [] \<or> mdq_Hide m \<noteq> Some True"
proof -
  from assms obtain period dims where
    "mdq_Statistic m \<noteq> None \<or> mdq_Statistics m \<noteq> None"
    "getPeriod ParseDuration now m startTime endTime = Inr period"
    "parseDimensions (mdq_Dimensions m) = Inr dims"
    by (rule validateAndSetDefaults_Inr)
  from validateAndSetDefaults_ok [OF this, of newUUID q refId defaultRegionValue crossAccount] assms
  have q': "q' = q\<lparr>Period := period,
                 Dimensions := dims,
                 AccountId := (if crossAccount then mdq_AccountId m else AccountId q),
                 Id := (if mdq_Id m = []
                        then ''query'' @ (if validMetricDataID refId then refId
                                          else ReplaceAll newUUID ''-'' [])
                        else Id q),
                 MatchExact := (case mdq_MatchExact m of None \<Rightarrow> True | Some b \<Rightarrow> b),
                 ReturnData := (if mdq_QueryType m = [] then True
                                else (case mdq_Hide m of None \<Rightarrow> True | Some h \<Rightarrow> \<not> h)),
                 MetricEditorMode := (case mdq_MetricEditorMode m of
                                        Some mode \<Rightarrow> mode
                                      | None \<Rightarrow> if mdq_Expression m = []
                                                then MetricEditorModeBuilder
                                                else MetricEditorModeRaw),
                 Region := (if Region q = defaultRegion then defaultRegionValue else Region q)\<rparr>"
    by simp
  show "Id q' = (if mdq_Id m = []
                  then ''query'' @ (if validMetricDataID refId then refId
                                    else ReplaceAll newUUID ''-'' [])
                  else Id q)"
    unfolding q' by simp
  show "ReturnData q' \<longleftrightarrow> mdq_QueryType m = [] \<or> mdq_Hide m \<noteq> Some True"
    unfolding q' by (cases "mdq_Hide m") auto
qed

lemma ParseMetricDataQueries_rejects:
  assumes "mdq_QueryType m \<noteq> timeSeriesQuery"
  shows "ParseMetricDataQueries ParseDuration now newUUID (Inr m) refId startTime endTime
           region dynamicLabels crossAccount =
         Inl (Returned (ErrorString ''its not a time series query''))"
  using assms by (cases "mdq_Region m = []") (simp_all add: ParseMetricDataQueries_def Let_def)

lemma ParseMetricDataQueries_unfold:
  assumes "mdq_QueryType m = timeSeriesQuery"
  obtains cw m' where
    "Id cw = mdq_Id m" "mdq_Id m' = mdq_Id m" "mdq_Hide m' = mdq_Hide m"
    "mdq_QueryType m' = mdq_QueryType m"
    "ParseMetricDataQueries ParseDuration now newUUID (Inr m) refId startTime endTime
             region dynamicLabels crossAccount =
        (case validateAndSetDefaults ParseDuration now newUUID cw refId m' startTime endTime
                region crossAccount of
           Inl (Returned err) \<Rightarrow> Inl (ReturnedQueryError err refId)
         | Inl other \<Rightarrow> Inl other
         | Inr cwQuery' \<Rightarrow> migrateLegacyQuery cwQuery' m' dynamicLabels)"
proof (cases "mdq_Region m = []")
  case True
  show ?thesis
    by (rule that [where m' = "m\<lparr>mdq_Region := region\<rparr>"])
       (use assms True in \<open>simp_all add: ParseMetricDataQueries_def Let_def\<close>)
next
  case False
  show ?thesis
    by (rule that [where m' = m])
       (use assms False in \<open>simp_all add: ParseMetricDataQueries_def Let_def\<close>)
qed

lemma ParseMetricDataQueries_Inr:
  assumes "ParseMetricDataQueries ParseDuration now newUUID (Inr m) refId startTime endTime
             region dynamicLabels crossAccount = Inr q'"
  shows "mdq_QueryType m = timeSeriesQuery"
    and "Id q' = (if mdq_Id m = []
                  then ''query'' @ (if validMetricDataID refId then refId
                                    else ReplaceAll newUUID ''-'' [])
                  else mdq_Id m)"
    and "ReturnData q' \<longleftrightarrow> mdq_Hide m \<noteq> Some True"
proof -
  show qt: "mdq_QueryType m = timeSeriesQuery"
    using assms ParseMetricDataQueries_rejects [of m ParseDuration now newUUID refId startTime
        endTime region dynamicLabels crossAccount]
    by (rule_tac ccontr) simp
  from qt obtain cw m' where cw: "Id cw = mdq_Id m"
    and m': "mdq_Id m' = mdq_Id m" "mdq_Hide m' = mdq_Hide m" "mdq_QueryType m' = mdq_QueryType m"
    and unfold: "ParseMetricDataQueries ParseDuration now newUUID (Inr m) refId startTime endTime
             region dynamicLabels crossAccount =
        (case validateAndSetDefaults ParseDuration now newUUID cw refId m' startTime endTime
                region crossAccount of
           Inl (Returned err) \<Rightarrow> Inl (ReturnedQueryError err refId)
         | Inl other \<Rightarrow> Inl other
         | Inr cwQuery' \<Rightarrow> migrateLegacyQuery cwQuery' m' dynamicLabels)"
    by (rule ParseMetricDataQueries_unfold)
  obtain cw' where v: "validateAndSetDefaults ParseDuration now newUUID cw refId m' startTime
        endTime region crossAccount = Inr cw'"
    and mig: "migrateLegacyQuery cw' m' dynamicLabels = Inr q'"
    using assms unfolding unfold
    by (auto split: sum.splits failure.splits)
  from mig have same: "Id q' = Id cw'" "ReturnData q' = ReturnData cw'"
    by (auto simp: migrateLegacyQuery_def split: sum.splits)
  from validateAndSetDefaults_fields(1) [OF v] cw same m'
  show "Id q' = (if mdq_Id m = []
                  then ''query'' @ (if validMetricDataID refId then refId
                                    else ReplaceAll newUUID ''-'' [])
                  else mdq_Id m)"
    by simp
  from validateAndSetDefaults_fields(2) [OF v] same qt m'
  show "ReturnData q' \<longleftrightarrow> mdq_Hide m \<noteq> Some True"
    by (simp add: timeSeriesQuery_def)
qed

text \<open>
  Claim C3. For a normalized query with no explicit id: a reference id that matches
  \<^verbatim>\<open>^[a-z][a-zA-Z0-9_]*$\<close> gives the identifier \<^verbatim>\<open>query\<close> followed by the reference id;
  any other reference id gives \<^verbatim>\<open>query\<close> followed by the generated UUID without its
  hyphens, a suffix that holds no hyphen and is not empty. An explicit id is kept.
\<close>

theorem identifier_resolution:
  assumes "ParseMetricDataQueries ParseDuration now newUUID (Inr m) refId startTime endTime
             region dynamicLabels crossAccount = Inr q'"
  shows "(mdq_Id m = [] \<and> validMetricDataID refId \<longrightarrow> Id q' = ''query'' @ refId) \<and>
         (mdq_Id m = [] \<and> \<not> validMetricDataID refId \<longrightarrow>
            (\<exists>suffix. Id q' = ''query'' @ suffix \<and>
                      suffix = filter (\<lambda>c. c \<noteq> CHR ''-'') newUUID \<and>
                      CHR ''-'' \<notin> set suffix \<and>
                      (is_uuid_text newUUID \<longrightarrow> suffix \<noteq> []))) \<and>
         (mdq_Id m \<noteq> [] \<longrightarrow> Id q' = mdq_Id m)"
  using ParseMetricDataQueries_Inr(2) [OF assms] uuid_suffix_nonempty [of newUUID]
  by (simp add: ReplaceAll_hyphen)

theorem identifier_resolution_witness:
  "ParseMetricDataQueries (\<lambda>s. Inl (ErrorString ''time: invalid duration'')) 0 ''123e4567-e89b-42d3-a456-426614174000''
     (Inr \<lparr>mdq_Dimensions = [(''InstanceId'', JString ''i-0123'')], mdq_Expression = [],
      mdq_Label = None, mdq_Id = [], mdq_MatchExact = None, mdq_MetricEditorMode = None,
      mdq_MetricName = ''CPUUtilization'', mdq_MetricQueryType = 0,
      mdq_Namespace = ''AWS/EC2'', mdq_Period = ''300'', mdq_Region = ''default'',
      mdq_SqlExpression = [], mdq_Statistic = Some ''Average'', mdq_Statistics = None,
      mdq_TimezoneUTCOffset = [], mdq_QueryType = ''timeSeriesQuery'', mdq_Hide = None,
      mdq_Alias = [], mdq_AccountId = None\<rparr>) ''myRef'' 0 0 ''us-east-1'' True False
     = Inr \<lparr>RefId = ''myRef'', Region = ''us-east-1'', Id = ''querymyRef'',
      Namespace = ''AWS/EC2'', MetricName = ''CPUUtilization'', Statistic = ''Average'',
      Expression = [], SqlExpression = [], ReturnData = True,
      Dimensions = fmap_of_list [(''InstanceId'', [''i-0123''])], Period = 300, Alias = [], Label = [],
      MatchExact = True, UsedExpression = [], TimezoneUTCOffset = [], MetricQueryType = 0,
      MetricEditorMode = 0, AccountId = None\<rparr> \<and>
   validMetricDataID ''myRef'' \<and>
   Id \<lparr>RefId = ''myRef'', Region = ''us-east-1'', Id = ''querymyRef'',
      Namespace = ''AWS/EC2'', MetricName = ''CPUUtilization'', Statistic = ''Average'',
      Expression = [], SqlExpression = [], ReturnData = True,
      Dimensions = fmap_of_list [(''InstanceId'', [''i-0123''])], Period = 300, Alias = [], Label = [],
      MatchExact = True, UsedExpression = [], TimezoneUTCOffset = [], MetricQueryType = 0,
      MetricEditorMode = 0, AccountId = None\<rparr> = ''querymyRef'' \<and>
   ParseMetricDataQueries (\<lambda>s. Inl (ErrorString ''time: invalid duration'')) 0 ''123e4567-e89b-42d3-a456-426614174000''
     (Inr \<lparr>mdq_Dimensions = [(''InstanceId'', JString ''i-0123'')], mdq_Expression = [],
      mdq_Label = None, mdq_Id = [], mdq_MatchExact = None, mdq_MetricEditorMode = None,
      mdq_MetricName = ''CPUUtilization'', mdq_MetricQueryType = 0,
      mdq_Namespace = ''AWS/EC2'', mdq_Period = ''300'', mdq_Region = ''default'',
      mdq_SqlExpression = [], mdq_Statistic = Some ''Average'', mdq_Statistics = None,
      mdq_TimezoneUTCOffset = [], mdq_QueryType = ''timeSeriesQuery'', mdq_Hide = None,
      mdq_Alias = [], mdq_AccountId = None\<rparr>) ''A1'' 0 0 ''us-east-1'' True False
     = Inr \<lparr>RefId = ''A1'', Region = ''us-east-1'', Id = ''query123e4567e89b42d3a456426614174000'',
      Namespace = ''AWS/EC2'', MetricName = ''CPUUtilization'', Statistic = ''Average'',
      Expression = [], SqlExpression = [], ReturnData = True,
      Dimensions = fmap_of_list [(''InstanceId'', [''i-0123''])], Period = 300, Alias = [], Label = [],
      MatchExact = True, UsedExpression = [], TimezoneUTCOffset = [], MetricQueryType = 0,
      MetricEditorMode = 0, AccountId = None\<rparr> \<and>
   \<not> validMetricDataID ''A1'' \<and> is_uuid_text ''123e4567-e89b-42d3-a456-426614174000'' \<and>
   Id \<lparr>RefId = ''A1'', Region = ''us-east-1'', Id = ''query123e4567e89b42d3a456426614174000'',
      Namespace = ''AWS/EC2'', MetricName = ''CPUUtilization'', Statistic = ''Average'',
      Expression = [], SqlExpression = [], ReturnData = True,
      Dimensions = fmap_of_list [(''InstanceId'', [''i-0123''])], Period = 300, Alias = [], Label = [],
      MatchExact = True, UsedExpression = [], TimezoneUTCOffset = [], MetricQueryType = 0,
      MetricEditorMode = 0, AccountId = None\<rparr> = ''query123e4567e89b42d3a456426614174000''"
proof -
  have run1: "ParseMetricDataQueries (\<lambda>s. Inl (ErrorString ''time: invalid duration'')) 0 ''123e4567-e89b-42d3-a456-426614174000''
     (Inr \<lparr>mdq_Dimensions = [(''InstanceId'', JString ''i-0123'')], mdq_Expression = [],
      mdq_Label = None, mdq_Id = [], mdq_MatchExact = None, mdq_MetricEditorMode = None,
      mdq_MetricName = ''CPUUtilization'', mdq_MetricQueryType = 0,
      mdq_Namespace = ''AWS/EC2'', mdq_Period = ''300'', mdq_Region = ''default'',
      mdq_SqlExpression = [], mdq_Statistic = Some ''Average'', mdq_Statistics = None,
      mdq_TimezoneUTCOffset = [], mdq_QueryType = ''timeSeriesQuery'', mdq_Hide = None,
      mdq_Alias = [], mdq_AccountId = None\<rparr>) ''myRef'' 0 0 ''us-east-1'' True False
     = Inr \<lparr>RefId = ''myRef'', Region = ''us-east-1'', Id = ''querymyRef'',
      Namespace = ''AWS/EC2'', MetricName = ''CPUUtilization'', Statistic = ''Average'',
      Expression = [], SqlExpression = [], ReturnData = True,
      Dimensions = fmap_of_list [(''InstanceId'', [''i-0123''])], Period = 300, Alias = [], Label = [],
      MatchExact = True, UsedExpression = [], TimezoneUTCOffset = [], MetricQueryType = 0,
      MetricEditorMode = 0, AccountId = None\<rparr>"
    by code_simp
  have run2: "ParseMetricDataQueries (\<lambda>s. Inl (ErrorString ''time: invalid duration'')) 0 ''123e4567-e89b-42d3-a456-426614174000''
     (Inr \<lparr>mdq_Dimensions = [(''InstanceId'', JString ''i-0123'')], mdq_Expression = [],
      mdq_Label = None, mdq_Id = [], mdq_MatchExact = None, mdq_MetricEditorMode = None,
      mdq_MetricName = ''CPUUtilization'', mdq_MetricQueryType = 0,
      mdq_Namespace = ''AWS/EC2'', mdq_Period = ''300'', mdq_Region = ''default'',
      mdq_SqlExpression = [], mdq_Statistic = Some ''Average'', mdq_Statistics = None,
      mdq_TimezoneUTCOffset = [], mdq_QueryType = ''timeSeriesQuery'', mdq_Hide = None,
      mdq_Alias = [], mdq_AccountId = None\<rparr>) ''A1'' 0 0 ''us-east-1'' True False
     = Inr \<lparr>RefId = ''A1'', Region = ''us-east-1'', Id = ''query123e4567e89b42d3a456426614174000'',
      Namespace = ''AWS/EC2'', MetricName = ''CPUUtilization'', Statistic = ''Average'',
      Expression = [], SqlExpression = [], ReturnData = True,
      Dimensions = fmap_of_list [(''InstanceId'', [''i-0123''])], Period = 300, Alias = [], Label = [],
      MatchExact = True, UsedExpression = [], TimezoneUTCOffset = [], MetricQueryType = 0,
      MetricEditorMode = 0, AccountId = None\<rparr>"
    by code_simp
  have valid: "validMetricDataID ''myRef''" "\<not> validMetricDataID ''A1''"
    by (simp_all add: validMetricDataID_def is_lower_def is_word_def)
  have uuid: "is_uuid_text ''123e4567-e89b-42d3-a456-426614174000''"
    by code_simp
  from identifier_resolution [OF run1] valid(1)
  have "Id \<lparr>RefId = ''myRef'', Region = ''us-east-1'', Id = ''querymyRef'',
      Namespace = ''AWS/EC2'', MetricName = ''CPUUtilization'', Statistic = ''Average'',
      Expression = [], SqlExpression = [], ReturnData = True,
      Dimensions = fmap_of_list [(''InstanceId'', [''i-0123''])], Period = 300, Alias = [], Label = [],
      MatchExact = True, UsedExpression = [], TimezoneUTCOffset = [], MetricQueryType = 0,
      MetricEditorMode = 0, AccountId = None\<rparr> = ''querymyRef''"
    by simp
  moreover from identifier_resolution [OF run2] valid(2) uuid
  have "Id \<lparr>RefId = ''A1'', Region = ''us-east-1'', Id = ''query123e4567e89b42d3a456426614174000'',
      Namespace = ''AWS/EC2'', MetricName = ''CPUUtilization'', Statistic = ''Average'',
      Expression = [], SqlExpression = [], ReturnData = True,
      Dimensions = fmap_of_list [(''InstanceId'', [''i-0123''])], Period = 300, Alias = [], Label = [],
      MatchExact = True, UsedExpression = [], TimezoneUTCOffset = [], MetricQueryType = 0,
      MetricEditorMode = 0, AccountId = None\<rparr> = ''query123e4567e89b42d3a456426614174000''"
    by simp
  ultimately show ?thesis
    using run1 run2 valid uuid by simp
qed

text \<open>
  Claim C5, as amended. When the decoded \<^verbatim>\<open>queryType\<close> is anything but \<^verbatim>\<open>timeSeriesQuery\<close>,
  normalization produces no query and returns the error \<^verbatim>\<open>its not a time series query\<close>:
  an ordinary error value, not wrapped in a \<^verbatim>\<open>QueryError\<close> and without the reference id.
\<close>

theorem non_time_series_query_rejected:
  assumes "mdq_QueryType m \<noteq> timeSeriesQuery"
  shows "ParseMetricDataQueries ParseDuration now newUUID (Inr m) refId startTime endTime
           region dynamicLabels crossAccount =
         Inl (Returned (ErrorString ''its not a time series query''))"
  using assms by (rule ParseMetricDataQueries_rejects)

theorem non_time_series_query_rejected_witness:
  "mdq_QueryType \<lparr>mdq_Dimensions = [(''InstanceId'', JString ''i-0123'')], mdq_Expression = [],
      mdq_Label = None, mdq_Id = [], mdq_MatchExact = None, mdq_MetricEditorMode = None,
      mdq_MetricName = ''CPUUtilization'', mdq_MetricQueryType = 0,
      mdq_Namespace = ''AWS/EC2'', mdq_Period = ''300'', mdq_Region = ''default'',
      mdq_SqlExpression = [], mdq_Statistic = Some ''Average'', mdq_Statistics = None,
      mdq_TimezoneUTCOffset = [], mdq_QueryType = ''logAction'', mdq_Hide = None,
      mdq_Alias = [], mdq_AccountId = None\<rparr> \<noteq> timeSeriesQuery \<and>
   ParseMetricDataQueries (\<lambda>s. Inl (ErrorString ''time: invalid duration'')) 0 ''123e4567-e89b-42d3-a456-426614174000''
     (Inr \<lparr>mdq_Dimensions = [(''InstanceId'', JString ''i-0123'')], mdq_Expression = [],
      mdq_Label = None, mdq_Id = [], mdq_MatchExact = None, mdq_MetricEditorMode = None,
      mdq_MetricName = ''CPUUtilization'', mdq_MetricQueryType = 0,
      mdq_Namespace = ''AWS/EC2'', mdq_Period = ''300'', mdq_Region = ''default'',
      mdq_SqlExpression = [], mdq_Statistic = Some ''Average'', mdq_Statistics = None,
      mdq_TimezoneUTCOffset = [], mdq_QueryType = ''logAction'', mdq_Hide = None,
      mdq_Alias = [], mdq_AccountId = None\<rparr>) ''A'' 0 0 ''us-east-1'' True False =
   Inl (Returned (ErrorString ''its not a time series query''))"
proof -
  have "mdq_QueryType \<lparr>mdq_Dimensions = [(''InstanceId'', JString ''i-0123'')], mdq_Expression = [],
      mdq_Label = None, mdq_Id = [], mdq_MatchExact = None, mdq_MetricEditorMode = None,
      mdq_MetricName = ''CPUUtilization'', mdq_MetricQueryType = 0,
      mdq_Namespace = ''AWS/EC2'', mdq_Period = ''300'', mdq_Region = ''default'',
      mdq_SqlExpression = [], mdq_Statistic = Some ''Average'', mdq_Statistics = None,
      mdq_TimezoneUTCOffset = [], mdq_QueryType = ''logAction'', mdq_Hide = None,
      mdq_Alias = [], mdq_AccountId = None\<rparr> \<noteq> timeSeriesQuery"
    by (simp add: timeSeriesQuery_def)
  from this non_time_series_query_rejected [OF this] show ?thesis
    by blast
qed

text \<open>
  The claim as stated fails: a query without a \<^verbatim>\<open>queryType\<close> is answered with a \<^verbatim>\<open>nil\<close>
  query and an error value that is not \<^verbatim>\<open>nil\<close>.
\<close>

theorem non_time_series_query_counterexample:
  "ParseMetricDataQueries (\<lambda>s. Inl (ErrorString ''time: invalid duration'')) 0 ''123e4567-e89b-42d3-a456-426614174000''
     (Inr \<lparr>mdq_Dimensions = [(''InstanceId'', JString ''i-0123'')], mdq_Expression = [],
      mdq_Label = None, mdq_Id = [], mdq_MatchExact = None, mdq_MetricEditorMode = None,
      mdq_MetricName = ''CPUUtilization'', mdq_MetricQueryType = 0,
      mdq_Namespace = ''AWS/EC2'', mdq_Period = ''300'', mdq_Region = ''default'',
      mdq_SqlExpression = [], mdq_Statistic = Some ''Average'', mdq_Statistics = None,
      mdq_TimezoneUTCOffset = [], mdq_QueryType = [], mdq_Hide = None,
      mdq_Alias = [], mdq_AccountId = None\<rparr>) ''A'' 0 0 ''us-east-1'' True False =
   Inl (Returned (ErrorString ''its not a time series query''))"
  by code_simp

text \<open>
  Claim C7. A normalized query has \<^verbatim>\<open>ReturnData\<close> true unless \<^verbatim>\<open>hide\<close> is explicitly true:
  this holds of every query that \<^verbatim>\<open>ParseMetricDataQueries\<close> returns, and of every query that
  \<^verbatim>\<open>validateAndSetDefaults\<close> returns for an input with a \<^verbatim>\<open>queryType\<close>. For an input whose
  \<^verbatim>\<open>queryType\<close> is absent, \<^verbatim>\<open>validateAndSetDefaults\<close> sets \<^verbatim>\<open>ReturnData\<close> to true whatever
  \<^verbatim>\<open>hide\<close> says. (\<^verbatim>\<open>ParseMetricDataQueries\<close> normalizes no such input: it has rejected it
  before.)
\<close>

theorem ReturnData_defaulting:
  "(validateAndSetDefaults ParseDuration now newUUID q refId m startTime endTime
      defaultRegionValue crossAccount = Inr q' \<longrightarrow>
      (ReturnData q' \<longleftrightarrow> mdq_QueryType m = [] \<or> mdq_Hide m \<noteq> Some True) \<and>
      (mdq_QueryType m = [] \<longrightarrow> ReturnData q')) \<and>
   (ParseMetricDataQueries ParseDuration now newUUID (Inr m) refId startTime endTime
      defaultRegionValue dynamicLabels crossAccount = Inr q'' \<longrightarrow>
      mdq_QueryType m \<noteq> [] \<and> (ReturnData q'' \<longleftrightarrow> mdq_Hide m \<noteq> Some True))"
proof (intro conjI impI)
  assume v: "validateAndSetDefaults ParseDuration now newUUID q refId m startTime endTime
      defaultRegionValue crossAccount = Inr q'"
  from validateAndSetDefaults_fields(2) [OF v]
  show "ReturnData q' \<longleftrightarrow> mdq_QueryType m = [] \<or> mdq_Hide m \<noteq> Some True" .
  then show "ReturnData q'" if "mdq_QueryType m = []"
    using that by simp
next
  assume p: "ParseMetricDataQueries ParseDuration now newUUID (Inr m) refId startTime endTime
      defaultRegionValue dynamicLabels crossAccount = Inr q''"
  from ParseMetricDataQueries_Inr(1) [OF p]
  show "mdq_QueryType m \<noteq> []" by (simp add: timeSeriesQuery_def)
  from ParseMetricDataQueries_Inr(3) [OF p]
  show "ReturnData q'' \<longleftrightarrow> mdq_Hide m \<noteq> Some True" .
qed

theorem ReturnData_defaulting_witness:
  "validateAndSetDefaults (\<lambda>s. Inl (ErrorString ''time: invalid duration'')) 0 ''123e4567-e89b-42d3-a456-426614174000''
     \<lparr>RefId = ''a'', Region = ''default'', Id = [],
      Namespace = ''AWS/EC2'', MetricName = ''CPUUtilization'', Statistic = [],
      Expression = [], SqlExpression = [], ReturnData = False,
      Dimensions = fmempty, Period = 0, Alias = [], Label = [],
      MatchExact = False, UsedExpression = [], TimezoneUTCOffset = [], MetricQueryType = 0,
      MetricEditorMode = 0, AccountId = None\<rparr> ''a''
     \<lparr>mdq_Dimensions = [(''InstanceId'', JString ''i-0123'')], mdq_Expression = [],
      mdq_Label = None, mdq_Id = [], mdq_MatchExact = None, mdq_MetricEditorMode = None,
      mdq_MetricName = ''CPUUtilization'', mdq_MetricQueryType = 0,
      mdq_Namespace = ''AWS/EC2'', mdq_Period = ''300'', mdq_Region = ''default'',
      mdq_SqlExpression = [], mdq_Statistic = Some ''Average'', mdq_Statistics = None,
      mdq_TimezoneUTCOffset = [], mdq_QueryType = [], mdq_Hide = Some True,
      mdq_Alias = [], mdq_AccountId = None\<rparr> 0 0 ''us-east-1'' False =
   Inr \<lparr>RefId = ''a'', Region = ''us-east-1'', Id = ''querya'',
      Namespace = ''AWS/EC2'', MetricName = ''CPUUtilization'', Statistic = [],
      Expression = [], SqlExpression = [], ReturnData = True,
      Dimensions = fmap_of_list [(''InstanceId'', [''i-0123''])], Period = 300, Alias = [], Label = [],
      MatchExact = True, UsedExpression = [], TimezoneUTCOffset = [], MetricQueryType = 0,
      MetricEditorMode = 0, AccountId = None\<rparr> \<and>
   mdq_QueryType \<lparr>mdq_Dimensions = [(''InstanceId'', JString ''i-0123'')], mdq_Expression = [],
      mdq_Label = None, mdq_Id = [], mdq_MatchExact = None, mdq_MetricEditorMode = None,
      mdq_MetricName = ''CPUUtilization'', mdq_MetricQueryType = 0,
      mdq_Namespace = ''AWS/EC2'', mdq_Period = ''300'', mdq_Region = ''default'',
      mdq_SqlExpression = [], mdq_Statistic = Some ''Average'', mdq_Statistics = None,
      mdq_TimezoneUTCOffset = [], mdq_QueryType = [], mdq_Hide = Some True,
      mdq_Alias = [], mdq_AccountId = None\<rparr> = [] \<and>
   mdq_Hide \<lparr>mdq_Dimensions = [(''InstanceId'', JString ''i-0123'')], mdq_Expression = [],
      mdq_Label = None, mdq_Id = [], mdq_MatchExact = None, mdq_MetricEditorMode = None,
      mdq_MetricName = ''CPUUtilization'', mdq_MetricQueryType = 0,
      mdq_Namespace = ''AWS/EC2'', mdq_Period = ''300'', mdq_Region = ''default'',
      mdq_SqlExpression = [], mdq_Statistic = Some ''Average'', mdq_Statistics = None,
      mdq_TimezoneUTCOffset = [], mdq_QueryType = [], mdq_Hide = Some True,
      mdq_Alias = [], mdq_AccountId = None\<rparr> = Some True \<and>
   ReturnData \<lparr>RefId = ''a'', Region = ''us-east-1'', Id = ''querya'',
      Namespace = ''AWS/EC2'', MetricName = ''CPUUtilization'', Statistic = [],
      Expression = [], SqlExpression = [], ReturnData = True,
      Dimensions = fmap_of_list [(''InstanceId'', [''i-0123''])], Period = 300, Alias = [], Label = [],
      MatchExact = True, UsedExpression = [], TimezoneUTCOffset = [], MetricQueryType = 0,
      MetricEditorMode = 0, AccountId = None\<rparr> \<and>
   ParseMetricDataQueries (\<lambda>s. Inl (ErrorString ''time: invalid duration'')) 0 ''123e4567-e89b-42d3-a456-426614174000''
     (Inr \<lparr>mdq_Dimensions = [(''InstanceId'', JString ''i-0123'')], mdq_Expression = [],
      mdq_Label = None, mdq_Id = [], mdq_MatchExact = None, mdq_MetricEditorMode = None,
      mdq_MetricName = ''CPUUtilization'', mdq_MetricQueryType = 0,
      mdq_Namespace = ''AWS/EC2'', mdq_Period = ''300'', mdq_Region = ''default'',
      mdq_SqlExpression = [], mdq_Statistic = Some ''Average'', mdq_Statistics = None,
      mdq_TimezoneUTCOffset = [], mdq_QueryType = ''timeSeriesQuery'', mdq_Hide = Some True,
      mdq_Alias = [], mdq_AccountId = None\<rparr>) ''a'' 0 0 ''us-east-1'' True False =
   Inr \<lparr>RefId = ''a'', Region = ''us-east-1'', Id = ''querya'',
      Namespace = ''AWS/EC2'', MetricName = ''CPUUtilization'', Statistic = ''Average'',
      Expression = [], SqlExpression = [], ReturnData = False,
      Dimensions = fmap_of_list [(''InstanceId'', [''i-0123''])], Period = 300, Alias = [], Label = [],
      MatchExact = True, UsedExpression = [], TimezoneUTCOffset = [], MetricQueryType = 0,
      MetricEditorMode = 0, AccountId = None\<rparr> \<and>
   mdq_Hide \<lparr>mdq_Dimensions = [(''InstanceId'', JString ''i-0123'')], mdq_Expression = [],
      mdq_Label = None, mdq_Id = [], mdq_MatchExact = None, mdq_MetricEditorMode = None,
      mdq_MetricName = ''CPUUtilization'', mdq_MetricQueryType = 0,
      mdq_Namespace = ''AWS/EC2'', mdq_Period = ''300'', mdq_Region = ''default'',
      mdq_SqlExpression = [], mdq_Statistic = Some ''Average'', mdq_Statistics = None,
      mdq_TimezoneUTCOffset = [], mdq_QueryType = ''timeSeriesQuery'', mdq_Hide = Some True,
      mdq_Alias = [], mdq_AccountId = None\<rparr> = Some True \<and>
   \<not> ReturnData \<lparr>RefId = ''a'', Region = ''us-east-1'', Id = ''querya'',
      Namespace = ''AWS/EC2'', MetricName = ''CPUUtilization'', Statistic = ''Average'',
      Expression = [], SqlExpression = [], ReturnData = False,
      Dimensions = fmap_of_list [(''InstanceId'', [''i-0123''])], Period = 300, Alias = [], Label = [],
      MatchExact = True, UsedExpression = [], TimezoneUTCOffset = [], MetricQueryType = 0,
      MetricEditorMode = 0, AccountId = None\<rparr>"
proof -
  have run: "validateAndSetDefaults (\<lambda>s. Inl (ErrorString ''time: invalid duration'')) 0 ''123e4567-e89b-42d3-a456-426614174000''
     \<lparr>RefId = ''a'', Region = ''default'', Id = [],
      Namespace = ''AWS/EC2'', MetricName = ''CPUUtilization'', Statistic = [],
      Expression = [], SqlExpression = [], ReturnData = False,
      Dimensions = fmempty, Period = 0, Alias = [], Label = [],
      MatchExact = False, UsedExpression = [], TimezoneUTCOffset = [], MetricQueryType = 0,
      MetricEditorMode = 0, AccountId = None\<rparr> ''a''
     \<lparr>mdq_Dimensions = [(''InstanceId'', JString ''i-0123'')], mdq_Expression = [],
      mdq_Label = None, mdq_Id = [], mdq_MatchExact = None, mdq_MetricEditorMode = None,
      mdq_MetricName = ''CPUUtilization'', mdq_MetricQueryType = 0,
      mdq_Namespace = ''AWS/EC2'', mdq_Period = ''300'', mdq_Region = ''default'',
      mdq_SqlExpression = [], mdq_Statistic = Some ''Average'', mdq_Statistics = None,
      mdq_TimezoneUTCOffset = [], mdq_QueryType = [], mdq_Hide = Some True,
      mdq_Alias = [], mdq_AccountId = None\<rparr> 0 0 ''us-east-1'' False =
   Inr \<lparr>RefId = ''a'', Region = ''us-east-1'', Id = ''querya'',
      Namespace = ''AWS/EC2'', MetricName = ''CPUUtilization'', Statistic = [],
      Expression = [], SqlExpression = [], ReturnData = True,
      Dimensions = fmap_of_list [(''InstanceId'', [''i-0123''])], Period = 300, Alias = [], Label = [],
      MatchExact = True, UsedExpression = [], TimezoneUTCOffset = [], MetricQueryType = 0,
      MetricEditorMode = 0, AccountId = None\<rparr>"
    by code_simp
  have run': "ParseMetricDataQueries (\<lambda>s. Inl (ErrorString ''time: invalid duration'')) 0 ''123e4567-e89b-42d3-a456-426614174000''
     (Inr \<lparr>mdq_Dimensions = [(''InstanceId'', JString ''i-0123'')], mdq_Expression = [],
      mdq_Label = None, mdq_Id = [], mdq_MatchExact = None, mdq_MetricEditorMode = None,
      mdq_MetricName = ''CPUUtilization'', mdq_MetricQueryType = 0,
      mdq_Namespace = ''AWS/EC2'', mdq_Period = ''300'', mdq_Region = ''default'',
      mdq_SqlExpression = [], mdq_Statistic = Some ''Average'', mdq_Statistics = None,
      mdq_TimezoneUTCOffset = [], mdq_QueryType = ''timeSeriesQuery'', mdq_Hide = Some True,
      mdq_Alias = [], mdq_AccountId = None\<rparr>) ''a'' 0 0 ''us-east-1'' True False =
   Inr \<lparr>RefId = ''a'', Region = ''us-east-1'', Id = ''querya'',
      Namespace = ''AWS/EC2'', MetricName = ''CPUUtilization'', Statistic = ''Average'',
      Expression = [], SqlExpression = [], ReturnData = False,
      Dimensions = fmap_of_list [(''InstanceId'', [''i-0123''])], Period = 300, Alias = [], Label = [],
      MatchExact = True, UsedExpression = [], TimezoneUTCOffset = [], MetricQueryType = 0,
      MetricEditorMode = 0, AccountId = None\<rparr>"
    by code_simp
  from ReturnData_defaulting [of "(\<lambda>s. Inl (ErrorString ''time: invalid duration''))" 0
     "''123e4567-e89b-42d3-a456-426614174000''"
     "\<lparr>RefId = ''a'', Region = ''default'', Id = [],
      Namespace = ''AWS/EC2'', MetricName = ''CPUUtilization'', Statistic = [],
      Expression = [], SqlExpression = [], ReturnData = False,
      Dimensions = fmempty, Period = 0, Alias = [], Label = [],
      MatchExact = False, UsedExpression = [], TimezoneUTCOffset = [], MetricQueryType = 0,
      MetricEditorMode = 0, AccountId = None\<rparr>" "''a''"
     "\<lparr>mdq_Dimensions = [(''InstanceId'', JString ''i-0123'')], mdq_Expression = [],
      mdq_Label = None, mdq_Id = [], mdq_MatchExact = None, mdq_MetricEditorMode = None,
      mdq_MetricName = ''CPUUtilization'', mdq_MetricQueryType = 0,
      mdq_Namespace = ''AWS/EC2'', mdq_Period = ''300'', mdq_Region = ''default'',
      mdq_SqlExpression = [], mdq_Statistic = Some ''Average'', mdq_Statistics = None,
      mdq_TimezoneUTCOffset = [], mdq_QueryType = [], mdq_Hide = Some True,
      mdq_Alias = [], mdq_AccountId = None\<rparr>" 0 0 "''us-east-1''" False
     "\<lparr>RefId = ''a'', Region = ''us-east-1'', Id = ''querya'',
      Namespace = ''AWS/EC2'', MetricName = ''CPUUtilization'', Statistic = [],
      Expression = [], SqlExpression = [], ReturnData = True,
      Dimensions = fmap_of_list [(''InstanceId'', [''i-0123''])], Period = 300, Alias = [], Label = [],
      MatchExact = True, UsedExpression = [], TimezoneUTCOffset = [], MetricQueryType = 0,
      MetricEditorMode = 0, AccountId = None\<rparr>"] run
  have 1: "ReturnData \<lparr>RefId = ''a'', Region = ''us-east-1'', Id = ''querya'',
      Namespace = ''AWS/EC2'', MetricName = ''CPUUtilization'', Statistic = [],
      Expression = [], SqlExpression = [], ReturnData = True,
      Dimensions = fmap_of_list [(''InstanceId'', [''i-0123''])], Period = 300, Alias = [], Label = [],
      MatchExact = True, UsedExpression = [], TimezoneUTCOffset = [], MetricQueryType = 0,
      MetricEditorMode = 0, AccountId = None\<rparr>"
    by simp
  from ReturnData_defaulting [where m = "\<lparr>mdq_Dimensions = [(''InstanceId'', JString ''i-0123'')], mdq_Expression = [],
      mdq_Label = None, mdq_Id = [], mdq_MatchExact = None, mdq_MetricEditorMode = None,
      mdq_MetricName = ''CPUUtilization'', mdq_MetricQueryType = 0,
      mdq_Namespace = ''AWS/EC2'', mdq_Period = ''300'', mdq_Region = ''default'',
      mdq_SqlExpression = [], mdq_Statistic = Some ''Average'', mdq_Statistics = None,
      mdq_TimezoneUTCOffset = [], mdq_QueryType = ''timeSeriesQuery'', mdq_Hide = Some True,
      mdq_Alias = [], mdq_AccountId = None\<rparr>" and q'' = "\<lparr>RefId = ''a'', Region = ''us-east-1'', Id = ''querya'',
      Namespace = ''AWS/EC2'', MetricName = ''CPUUtilization'', Statistic = ''Average'',
      Expression = [], SqlExpression = [], ReturnData = False,
      Dimensions = fmap_of_list [(''InstanceId'', [''i-0123''])], Period = 300, Alias = [], Label = [],
      MatchExact = True, UsedExpression = [], TimezoneUTCOffset = [], MetricQueryType = 0,
      MetricEditorMode = 0, AccountId = None\<rparr>"] run'
  have 2: "\<not> ReturnData \<lparr>RefId = ''a'', Region = ''us-east-1'', Id = ''querya'',
      Namespace = ''AWS/EC2'', MetricName = ''CPUUtilization'', Statistic = ''Average'',
      Expression = [], SqlExpression = [], ReturnData = False,
      Dimensions = fmap_of_list [(''InstanceId'', [''i-0123''])], Period = 300, Alias = [], Label = [],
      MatchExact = True, UsedExpression = [], TimezoneUTCOffset = [], MetricQueryType = 0,
      MetricEditorMode = 0, AccountId = None\<rparr>"
    by simp
  from run run' 1 2 show ?thesis by simp
qed

text \<open>
  Claim C10 fails on the code. A query with \<^verbatim>\<open>"statistics": []\<close> and no \<^verbatim>\<open>statistic\<close>
  passes the presence check of \<^verbatim>\<open>validateAndSetDefaults\<close> (the slice is empty, not \<^verbatim>\<open>nil\<close>),
  and \<^verbatim>\<open>getStatistic\<close> then indexes the empty slice.
\<close>

theorem getStatistic_empty_statistics_panics:
  "validateAndSetDefaults (\<lambda>s. Inl (ErrorString ''time: invalid duration'')) 0 ''123e4567-e89b-42d3-a456-426614174000''
     \<lparr>RefId = ''a'', Region = ''default'', Id = [],
      Namespace = ''AWS/EC2'', MetricName = ''CPUUtilization'', Statistic = [],
      Expression = [], SqlExpression = [], ReturnData = False,
      Dimensions = fmempty, Period = 0, Alias = [], Label = [],
      MatchExact = False, UsedExpression = [], TimezoneUTCOffset = [], MetricQueryType = 0,
      MetricEditorMode = 0, AccountId = None\<rparr> ''a''
     \<lparr>mdq_Dimensions = [(''InstanceId'', JString ''i-0123'')], mdq_Expression = [],
      mdq_Label = None, mdq_Id = [], mdq_MatchExact = None, mdq_MetricEditorMode = None,
      mdq_MetricName = ''CPUUtilization'', mdq_MetricQueryType = 0,
      mdq_Namespace = ''AWS/EC2'', mdq_Period = ''300'', mdq_Region = ''default'',
      mdq_SqlExpression = [], mdq_Statistic = None, mdq_Statistics = Some [],
      mdq_TimezoneUTCOffset = [], mdq_QueryType = ''timeSeriesQuery'', mdq_Hide = None,
      mdq_Alias = [], mdq_AccountId = None\<rparr> 0 0 ''us-east-1'' False =
   Inr \<lparr>RefId = ''a'', Region = ''us-east-1'', Id = ''querya'',
      Namespace = ''AWS/EC2'', MetricName = ''CPUUtilization'', Statistic = [],
      Expression = [], SqlExpression = [], ReturnData = True,
      Dimensions = fmap_of_list [(''InstanceId'', [''i-0123''])], Period = 300, Alias = [], Label = [],
      MatchExact = True, UsedExpression = [], TimezoneUTCOffset = [], MetricQueryType = 0,
      MetricEditorMode = 0, AccountId = None\<rparr> \<and>
   getStatistic \<lparr>mdq_Dimensions = [(''InstanceId'', JString ''i-0123'')], mdq_Expression = [],
      mdq_Label = None, mdq_Id = [], mdq_MatchExact = None, mdq_MetricEditorMode = None,
      mdq_MetricName = ''CPUUtilization'', mdq_MetricQueryType = 0,
      mdq_Namespace = ''AWS/EC2'', mdq_Period = ''300'', mdq_Region = ''default'',
      mdq_SqlExpression = [], mdq_Statistic = None, mdq_Statistics = Some [],
      mdq_TimezoneUTCOffset = [], mdq_QueryType = ''timeSeriesQuery'', mdq_Hide = None,
      mdq_Alias = [], mdq_AccountId = None\<rparr> = Inl (Panic ''index out of range [0] with length 0'') \<and>
   ParseMetricDataQueries (\<lambda>s. Inl (ErrorString ''time: invalid duration'')) 0 ''123e4567-e89b-42d3-a456-426614174000''
     (Inr \<lparr>mdq_Dimensions = [(''InstanceId'', JString ''i-0123'')], mdq_Expression = [],
      mdq_Label = None, mdq_Id = [], mdq_MatchExact = None, mdq_MetricEditorMode = None,
      mdq_MetricName = ''CPUUtilization'', mdq_MetricQueryType = 0,
      mdq_Namespace = ''AWS/EC2'', mdq_Period = ''300'', mdq_Region = ''default'',
      mdq_SqlExpression = [], mdq_Statistic = None, mdq_Statistics = Some [],
      mdq_TimezoneUTCOffset = [], mdq_QueryType = ''timeSeriesQuery'', mdq_Hide = None,
      mdq_Alias = [], mdq_AccountId = None\<rparr>) ''A'' 0 0 ''us-east-1'' True False =
   Inl (Panic ''index out of range [0] with length 0'')"
  by code_simp

section \<open>Verified properties: dimension normalization\<close>

lemma index_update: "index (fmupd k v m) k = v"
  by (simp add: index_def)

lemma append_values_strings:
  assumes "list_all string_value vs"
  shows "append_values k vs m =
           Inr (if vs = [] then m else fmupd k (index m k @ strings_of vs) m)"
  using assms
proof (induction vs arbitrary: m)
  case Nil
  then show ?case by simp
next
  case (Cons v vs)
  then obtain s where v: "v = JString s"
    by (cases v) (simp_all add: string_value_def)
  from Cons.prems have "list_all string_value vs" by simp
  from Cons.IH [OF this] show ?case
    by (simp add: v index_update strings_of_def)
qed

lemma parse_loop_ok:
  assumes "distinct (map fst raw)"
    and "list_all (\<lambda>(k, v). string_value v \<or> string_list_value v) raw"
    and "fst ` set raw \<inter> fmdom' m = {}"
  shows "\<exists>m'. parse_loop raw m = Inr m' \<and>
           (\<forall>k. fmlookup m' k =
              (case map_of raw k of None \<Rightarrow> fmlookup m k | Some v \<Rightarrow> normal_form v))"
  using assms
proof (induction raw arbitrary: m)
  case Nil
  then show ?case by simp
next
  case (Cons kv raw)
  obtain k v where kv: "kv = (k, v)" by (cases kv)
  from Cons.prems kv have fresh: "k \<notin> fst ` set raw" "k \<notin> fmdom' m"
    and d: "distinct (map fst raw)"
    and shapes: "list_all (\<lambda>(k, v). string_value v \<or> string_list_value v) raw"
    and disj: "fst ` set raw \<inter> fmdom' m = {}"
    and v_ok: "string_value v \<or> string_list_value v"
    by auto
  have none_m: "fmlookup m k = None"
    using fresh(2) by (rule fmdom'_notD)
  have none_raw: "map_of raw k = None"
    using fresh(1) by (simp add: map_of_eq_None_iff)
  define m1 where "m1 = (case normal_form v of None \<Rightarrow> m | Some xs \<Rightarrow> fmupd k xs m)"
  have step: "parse_loop (kv # raw) m = parse_loop raw m1"
  proof (cases v)
    case (JString s)
    then show ?thesis by (simp add: kv m1_def normal_form_def)
  next
    case (JArray vs)
    with v_ok have "list_all string_value vs"
      by (simp add: string_value_def string_list_value_def)
    from append_values_strings [OF this, of k m] none_m show ?thesis
      by (simp add: kv JArray m1_def normal_form_def index_def)
  qed (use v_ok in \<open>simp_all add: string_value_def string_list_value_def\<close>)
  have m1_map: "fmlookup m1 k' =
      (case normal_form v of None \<Rightarrow> fmlookup m k'
       | Some xs \<Rightarrow> if k = k' then Some xs else fmlookup m k')" for k'
    by (simp add: m1_def split: option.splits)
  have m1_keys: "fmdom' m1 \<subseteq> insert k (fmdom' m)"
    by (auto simp: m1_def split: option.splits)
  have "fst ` set raw \<inter> fmdom' m1 = {}"
    using m1_keys disj fresh(1) by auto
  from Cons.IH [OF d shapes this] obtain m' where
    m': "parse_loop raw m1 = Inr m'"
    "\<And>k'. fmlookup m' k' =
        (case map_of raw k' of None \<Rightarrow> fmlookup m1 k' | Some v \<Rightarrow> normal_form v)"
    by blast
  have "fmlookup m' k' =
      (case map_of (kv # raw) k' of None \<Rightarrow> fmlookup m k' | Some v \<Rightarrow> normal_form v)"
    for k'
    using m'(2) [of k'] none_raw none_m
    by (cases "k' = k") (auto simp: kv m1_map split: option.splits)
  with m'(1) step show ?case by auto
qed

lemma fold_fmupd_lookup:
  "fmlookup (fold (\<lambda>k acc. fmupd k (f k) acc) ks acc) k =
     (if k \<in> set ks then Some (f k) else fmlookup acc k)"
  by (induction ks arbitrary: acc) auto

text \<open>As a map, the result of \<^verbatim>\<open>sortDimensions\<close> is its argument.\<close>

lemma sortDimensions_id: "sortDimensions m = m"
proof (rule fmap_ext)
  fix k
  have keys: "k \<in> fst ` set (entries m) \<longleftrightarrow> fmlookup m k \<noteq> None"
    by (auto simp: entries_set image_iff)
  show "fmlookup (sortDimensions m) k = fmlookup m k"
    by (cases "fmlookup m k") (simp_all add: sortDimensions_def fold_fmupd_lookup keys index_def)
qed

lemma parse_loop_error:
  assumes "list_all (\<lambda>(k, v). string_value v \<or> string_list_value v \<or> other_shape v) raw"
    and "list_ex (\<lambda>(k, v). other_shape v) raw"
  shows "parse_loop raw m = Inl (Returned (ErrorString ''unknown type as dimension value''))"
  using assms
proof (induction raw arbitrary: m)
  case Nil
  then show ?case by simp
next
  case (Cons kv raw)
  obtain k v where kv: "kv = (k, v)" by (cases kv)
  show ?case
  proof (cases v)
    case (JString s)
    with Cons show ?thesis by (simp add: kv other_shape_def)
  next
    case (JArray vs)
    with Cons.prems kv have "list_all string_value vs"
      by (simp add: string_value_def string_list_value_def other_shape_def)
    from append_values_strings [OF this] Cons JArray show ?thesis
      by (simp add: kv other_shape_def)
  qed (simp_all add: kv)
qed

text \<open>
  Claim C4, as amended. For a raw dimension map (its keys are distinct), visited in any
  order: when every value is a string or a list of strings, normalization succeeds, and
  in the resulting map each key of a string has the one-element list, each key of a list
  that is not empty has its strings in order, and a key of the empty list has no entry, as
  has a key that the raw map does not hold. When no list holds an element that is not a
  string and some value is neither a string nor a list, the result is the error
  \<^verbatim>\<open>unknown type as dimension value\<close>, whose text does not name the key.
\<close>

theorem parseDimensions_normalization:
  assumes "distinct (map fst raw)"
  shows "(list_all (\<lambda>(k, v). string_value v \<or> string_list_value v) raw \<longrightarrow>
           (\<exists>dims. parseDimensions raw = Inr dims \<and>
                   (\<forall>k. fmlookup dims k =
                          (case map_of raw k of
                             None \<Rightarrow> None
                           | Some (JString s) \<Rightarrow> Some [s]
                           | Some (JArray vs) \<Rightarrow> if vs = [] then None else Some (strings_of vs)
                           | Some other \<Rightarrow> None)))) \<and>
         (list_all (\<lambda>(k, v). string_value v \<or> string_list_value v \<or> other_shape v) raw \<and>
          list_ex (\<lambda>(k, v). other_shape v) raw \<longrightarrow>
            parseDimensions raw = Inl (Returned (ErrorString ''unknown type as dimension value'')))"
proof (intro conjI impI)
  assume "list_all (\<lambda>(k, v). string_value v \<or> string_list_value v) raw"
  from parse_loop_ok [OF assms this, of fmempty] obtain m' where
    m': "parse_loop raw fmempty = Inr m'"
    and maps: "\<forall>k. fmlookup m' k =
      (case map_of raw k of None \<Rightarrow> fmlookup fmempty k | Some v \<Rightarrow> normal_form v)"
    by auto
  have "fmlookup m' k =
      (case map_of raw k of
         None \<Rightarrow> None
       | Some (JString s) \<Rightarrow> Some [s]
       | Some (JArray vs) \<Rightarrow> if vs = [] then None else Some (strings_of vs)
       | Some other \<Rightarrow> None)" for k
    using maps [rule_format, of k]
    by (simp add: normal_form_def split: option.splits iface.splits)
  with m'
  show "\<exists>dims. parseDimensions raw = Inr dims \<and>
                   (\<forall>k. fmlookup dims k =
                          (case map_of raw k of
                             None \<Rightarrow> None
                           | Some (JString s) \<Rightarrow> Some [s]
                           | Some (JArray vs) \<Rightarrow> if vs = [] then None else Some (strings_of vs)
                           | Some other \<Rightarrow> None))"
    by (simp add: parseDimensions_def sortDimensions_id)
next
  assume "list_all (\<lambda>(k, v). string_value v \<or> string_list_value v \<or> other_shape v) raw \<and>
          list_ex (\<lambda>(k, v). other_shape v) raw"
  then show "parseDimensions raw = Inl (Returned (ErrorString ''unknown type as dimension value''))"
    by (simp add: parseDimensions_def parse_loop_error)
qed

theorem parseDimensions_normalization_witness:
  "distinct (map fst [(''InstanceId'', JArray [JString ''i-2'', JString ''i-1'']),
                      (''AutoScalingGroupName'', JString ''web''),
                      (''Unused'', JArray [])]) \<and>
   parseDimensions [(''InstanceId'', JArray [JString ''i-2'', JString ''i-1'']),
                    (''AutoScalingGroupName'', JString ''web''),
                    (''Unused'', JArray [])] =
     Inr (fmap_of_list [(''AutoScalingGroupName'', [''web'']),
                        (''InstanceId'', [''i-2'', ''i-1''])]) \<and>
   fmlookup (fmap_of_list [(''AutoScalingGroupName'', [''web'']),
                           (''InstanceId'', [''i-2'', ''i-1''])]) ''InstanceId'' =
     Some [''i-2'', ''i-1''] \<and>
   distinct (map fst [(''InstanceId'', JString ''i-1''), (''Flag'', JBool True)]) \<and>
   parseDimensions [(''InstanceId'', JString ''i-1''), (''Flag'', JBool True)] =
     Inl (Returned (ErrorString ''unknown type as dimension value''))"
proof -
  let ?ok = "[(''InstanceId'', JArray [JString ''i-2'', JString ''i-1'']),
              (''AutoScalingGroupName'', JString ''web''),
              (''Unused'', JArray [])]"
  let ?bad = "[(''InstanceId'', JString ''i-1''), (''Flag'', JBool True)]"
  let ?dims = "fmap_of_list [(''AutoScalingGroupName'', [''web'']),
                             (''InstanceId'', [''i-2'', ''i-1''])]"
  have d1: "distinct (map fst ?ok)" and d2: "distinct (map fst ?bad)"
    by simp_all
  have s1: "list_all (\<lambda>(k, v). string_value v \<or> string_list_value v) ?ok"
    by (simp add: string_value_def string_list_value_def)
  have s2: "list_all (\<lambda>(k, v). string_value v \<or> string_list_value v \<or> other_shape v) ?bad \<and>
            list_ex (\<lambda>(k, v). other_shape v) ?bad"
    by (simp add: string_value_def string_list_value_def other_shape_def)
  have run: "parseDimensions ?ok = Inr ?dims"
    by code_simp
  from parseDimensions_normalization [OF d1] s1 run
  have "\<forall>k. fmlookup ?dims k =
          (case map_of ?ok k of
             None \<Rightarrow> None
           | Some (JString s) \<Rightarrow> Some [s]
           | Some (JArray vs) \<Rightarrow> if vs = [] then None else Some (strings_of vs)
           | Some other \<Rightarrow> None)"
    by simp
  then have "fmlookup ?dims ''InstanceId'' = Some [''i-2'', ''i-1'']"
    by (simp add: strings_of_def)
  moreover from parseDimensions_normalization [OF d2] s2
  have "parseDimensions ?bad = Inl (Returned (ErrorString ''unknown type as dimension value''))"
    by blast
  ultimately show ?thesis
    using d1 d2 run by simp
qed

text \<open>
  The claim as stated fails: the error for a value of another shape does not name the
  key; an empty list is not kept, its key has no entry in the result; and a list with an
  element that is not a string does not produce that error but panics in the unchecked
  type assertion.
\<close>

theorem parseDimensions_counterexample:
  "parseDimensions [(''InstanceId'', JNumber 1)] =
     Inl (Returned (ErrorString ''unknown type as dimension value'')) \<and>
   \<not> sublist ''InstanceId'' ''unknown type as dimension value'' \<and>
   parseDimensions [(''InstanceId'', JArray [])] = Inr fmempty \<and>
   fmlookup fmempty ''InstanceId'' \<noteq> Some ([] :: string list) \<and>
   parseDimensions [(''InstanceId'', JArray [JString ''i-1'', JNumber 1])] =
     Inl (Panic ''interface conversion: interface {} is float64, not string'')"
  by code_simp

section \<open>Verified properties: the framing pipeline\<close>

lemma set_custom_error_Some:
  "Meta f = Some m \<Longrightarrow>
   set_custom_error (Some f) query text =
     Inr (f\<lparr>Meta := Some (m\<lparr>Custom := Some \<lparr>meta_Query = query, meta_Error = text\<rparr>\<rparr>)\<rparr>)"
  by (simp add: set_custom_error_def)

text \<open>
  Claim C8. With a dummy frame that is not \<^verbatim>\<open>nil\<close>: when the delimited parse fails, when
  the computed columns fail, and when the row filter fails, the pipeline returns an error
  that is not \<^verbatim>\<open>nil\<close> and with it a frame whose metadata holds the query and the text of
  the stage's error. For the last two stages the frame is the one the stage handed back,
  which has to be a frame with metadata.
\<close>

theorem partial_failure_framing:
  assumes "GetDummyFrame E query = Some f0"
  shows "(CsvStringToFrame E (csv_text responseString query) (csv_options E query)
            = (newFrame, Some e) \<longrightarrow>
          snd (GetCSVBackendResponse E responseString query) =
            Inr (Some (f0\<lparr>Meta := Some \<lparr>Custom = Some \<lparr>meta_Query = query, meta_Error = Error e\<rparr>,
                                         ExecutedQueryString = []\<rparr>\<rparr>),
                 Some e)) \<and>
         (CsvStringToFrame E (csv_text responseString query) (csv_options E query)
            = (newFrame, None) \<and>
          GetFrameWithComputedColumns E (Some (parsed_frame f0 newFrame query))
            (ComputedColumns query) = (Some f2, Some e2) \<and>
          Meta f2 = Some m2 \<longrightarrow>
          snd (GetCSVBackendResponse E responseString query) =
            Inr (Some (f2\<lparr>Meta := Some (m2\<lparr>Custom :=
                         Some \<lparr>meta_Query = query, meta_Error = Error e2\<rparr>\<rparr>)\<rparr>),
                 Some e2)) \<and>
         (CsvStringToFrame E (csv_text responseString query) (csv_options E query)
            = (newFrame, None) \<and>
          GetFrameWithComputedColumns E (Some (parsed_frame f0 newFrame query))
            (ComputedColumns query) = (frame2, None) \<and>
          ApplyFilter E frame2 (FilterExpression query) = (Some f3, Some e3) \<and>
          Meta f3 = Some m3 \<longrightarrow>
          snd (GetCSVBackendResponse E responseString query) =
            Inr (Some (f3\<lparr>Meta := Some (m3\<lparr>Custom :=
                         Some \<lparr>meta_Query = query, meta_Error = Error e3\<rparr>\<rparr>)\<rparr>),
                 Some (WrapError ''error applying filter. '' e3)))"
proof (intro conjI impI)
  assume "CsvStringToFrame E (csv_text responseString query) (csv_options E query)
            = (newFrame, Some e)"
  with assms show "snd (GetCSVBackendResponse E responseString query) =
            Inr (Some (f0\<lparr>Meta := Some \<lparr>Custom = Some \<lparr>meta_Query = query, meta_Error = Error e\<rparr>,
                                         ExecutedQueryString = []\<rparr>\<rparr>),
                 Some e)"
    by (simp add: GetCSVBackendResponse_def set_custom_error_def with_query_meta_def)
next
  assume "CsvStringToFrame E (csv_text responseString query) (csv_options E query)
            = (newFrame, None) \<and>
          GetFrameWithComputedColumns E (Some (parsed_frame f0 newFrame query))
            (ComputedColumns query) = (Some f2, Some e2) \<and>
          Meta f2 = Some m2"
  with assms show "snd (GetCSVBackendResponse E responseString query) =
            Inr (Some (f2\<lparr>Meta := Some (m2\<lparr>Custom :=
                         Some \<lparr>meta_Query = query, meta_Error = Error e2\<rparr>\<rparr>)\<rparr>),
                 Some e2)"
    by (simp add: GetCSVBackendResponse_def after_parse_def set_custom_error_Some)
next
  assume "CsvStringToFrame E (csv_text responseString query) (csv_options E query)
            = (newFrame, None) \<and>
          GetFrameWithComputedColumns E (Some (parsed_frame f0 newFrame query))
            (ComputedColumns query) = (frame2, None) \<and>
          ApplyFilter E frame2 (FilterExpression query) = (Some f3, Some e3) \<and>
          Meta f3 = Some m3"
  with assms show "snd (GetCSVBackendResponse E responseString query) =
            Inr (Some (f3\<lparr>Meta := Some (m3\<lparr>Custom :=
                         Some \<lparr>meta_Query = query, meta_Error = Error e3\<rparr>\<rparr>)\<rparr>),
                 Some (WrapError ''error applying filter. '' e3))"
    by (simp add: GetCSVBackendResponse_def after_parse_def after_filter_def
        set_custom_error_Some)
qed

theorem partial_failure_framing_witness:
  "snd (GetCSVBackendResponse example_collaborators [] (example_query [] [] [] ''table'')) =
     Inr (Some \<lparr>Name = ''A'', Fields = [], Meta = Some \<lparr>Custom = Some \<lparr>meta_Query = (example_query [] [] [] ''table''), meta_Error = ''empty csv''\<rparr>, ExecutedQueryString = []\<rparr>\<rparr>, Some (ErrorString ''empty csv'')) \<and>
   snd (GetCSVBackendResponse example_collaborators ''a,b'' (example_query [\<lparr>col_Selector = [], col_Text = ''c'', col_Type = ''number'', col_TimeStampFormat = []\<rparr>] [] [] ''table'')) =
     Inr (Some \<lparr>Name = ''A'', Fields = [97, 44, 98], Meta = Some \<lparr>Custom = Some \<lparr>meta_Query = (example_query [\<lparr>col_Selector = [], col_Text = ''c'', col_Type = ''number'', col_TimeStampFormat = []\<rparr>] [] [] ''table''), meta_Error = ''empty selector''\<rparr>, ExecutedQueryString = []\<rparr>\<rparr>, Some (ErrorString ''empty selector'')) \<and>
   snd (GetCSVBackendResponse example_collaborators ''a,b'' (example_query [] ''> 1'' [] ''table'')) =
     Inr (Some \<lparr>Name = ''A'', Fields = [97, 44, 98], Meta = Some \<lparr>Custom = Some \<lparr>meta_Query = (example_query [] ''> 1'' [] ''table''), meta_Error = ''unexpected operator''\<rparr>, ExecutedQueryString = []\<rparr>\<rparr>,
          Some (WrapError ''error applying filter. '' (ErrorString ''unexpected operator'')))"
proof -
  let ?f0 = "\<lparr>Name = ''A'', Fields = [], Meta = None\<rparr>"
  let ?nf = "Some \<lparr>Name = ''A'', Fields = [97, 44, 98], Meta = None\<rparr>"
  have dummy: "GetDummyFrame example_collaborators (example_query c f s t) = Some ?f0" for c f s t
    by (simp add: example_collaborators_def example_query_def)
  have parse_fails: "CsvStringToFrame example_collaborators (csv_text [] (example_query [] [] [] ''table'')) (csv_options example_collaborators (example_query [] [] [] ''table'')) =
      (None, Some (ErrorString ''empty csv''))"
    by (simp add: example_collaborators_def example_query_def csv_text_def csv_options_def)
  have parse_ok: "CsvStringToFrame example_collaborators (csv_text ''a,b'' (example_query c f s ''table''))
        (csv_options example_collaborators (example_query c f s ''table'')) = (?nf, None)" for c f s
    by (simp add: example_collaborators_def example_query_def csv_text_def csv_options_def
        )
  have parsed: "parsed_frame ?f0 ?nf q = \<lparr>Name = ''A'', Fields = [97, 44, 98], Meta = Some \<lparr>Custom = Some \<lparr>meta_Query = q, meta_Error = []\<rparr>, ExecutedQueryString = []\<rparr>\<rparr>" for q
    by (simp add: parsed_frame_def with_query_meta_def)
  have computed_fails: "GetFrameWithComputedColumns example_collaborators (Some (parsed_frame ?f0 ?nf (example_query [\<lparr>col_Selector = [], col_Text = ''c'', col_Type = ''number'', col_TimeStampFormat = []\<rparr>] [] [] ''table'')))
        (ComputedColumns (example_query [\<lparr>col_Selector = [], col_Text = ''c'', col_Type = ''number'', col_TimeStampFormat = []\<rparr>] [] [] ''table'')) =
      (Some \<lparr>Name = ''A'', Fields = [97, 44, 98], Meta = Some \<lparr>Custom = Some \<lparr>meta_Query = (example_query [\<lparr>col_Selector = [], col_Text = ''c'', col_Type = ''number'', col_TimeStampFormat = []\<rparr>] [] [] ''table''), meta_Error = []\<rparr>, ExecutedQueryString = []\<rparr>\<rparr>, Some (ErrorString ''empty selector''))"
    by (simp add: parsed example_collaborators_def example_query_def)
  have computed_ok: "GetFrameWithComputedColumns example_collaborators (Some (parsed_frame ?f0 ?nf (example_query [] ''> 1'' [] ''table'')))
        (ComputedColumns (example_query [] ''> 1'' [] ''table'')) = (Some \<lparr>Name = ''A'', Fields = [97, 44, 98], Meta = Some \<lparr>Custom = Some \<lparr>meta_Query = (example_query [] ''> 1'' [] ''table''), meta_Error = []\<rparr>, ExecutedQueryString = []\<rparr>\<rparr>, None)"
    by (simp add: parsed example_collaborators_def example_query_def)
  have filter_fails: "ApplyFilter example_collaborators (Some \<lparr>Name = ''A'', Fields = [97, 44, 98], Meta = Some \<lparr>Custom = Some \<lparr>meta_Query = (example_query [] ''> 1'' [] ''table''), meta_Error = []\<rparr>, ExecutedQueryString = []\<rparr>\<rparr>) (FilterExpression (example_query [] ''> 1'' [] ''table'')) =
      (Some \<lparr>Name = ''A'', Fields = [97, 44, 98], Meta = Some \<lparr>Custom = Some \<lparr>meta_Query = (example_query [] ''> 1'' [] ''table''), meta_Error = []\<rparr>, ExecutedQueryString = []\<rparr>\<rparr>, Some (ErrorString ''unexpected operator''))"
    by (simp add: example_collaborators_def example_query_def)
  from partial_failure_framing [OF dummy [of "[]" "[]" "[]" "''table''"],
      where responseString = "[]" and newFrame = None
      and e = "ErrorString ''empty csv''"] parse_fails
  have 1: "snd (GetCSVBackendResponse example_collaborators [] (example_query [] [] [] ''table'')) =
     Inr (Some \<lparr>Name = ''A'', Fields = [], Meta = Some \<lparr>Custom = Some \<lparr>meta_Query = (example_query [] [] [] ''table''), meta_Error = ''empty csv''\<rparr>, ExecutedQueryString = []\<rparr>\<rparr>, Some (ErrorString ''empty csv''))"
    by simp
  from partial_failure_framing [OF dummy [of "[\<lparr>col_Selector = [], col_Text = ''c'', col_Type = ''number'', col_TimeStampFormat = []\<rparr>]" "[]" "[]" "''table''"],
      where responseString = "''a,b''"
      and newFrame = ?nf and ?e2.0 = "ErrorString ''empty selector''"
      and ?f2.0 = "\<lparr>Name = ''A'', Fields = [97, 44, 98], Meta = Some \<lparr>Custom = Some \<lparr>meta_Query = (example_query [\<lparr>col_Selector = [], col_Text = ''c'', col_Type = ''number'', col_TimeStampFormat = []\<rparr>] [] [] ''table''), meta_Error = []\<rparr>, ExecutedQueryString = []\<rparr>\<rparr>" and ?m2.0 = "\<lparr>Custom = Some \<lparr>meta_Query = (example_query [\<lparr>col_Selector = [], col_Text = ''c'', col_Type = ''number'', col_TimeStampFormat = []\<rparr>] [] [] ''table''), meta_Error = []\<rparr>, ExecutedQueryString = []\<rparr>"] parse_ok computed_fails
  have 2: "snd (GetCSVBackendResponse example_collaborators ''a,b'' (example_query [\<lparr>col_Selector = [], col_Text = ''c'', col_Type = ''number'', col_TimeStampFormat = []\<rparr>] [] [] ''table'')) =
     Inr (Some \<lparr>Name = ''A'', Fields = [97, 44, 98], Meta = Some \<lparr>Custom = Some \<lparr>meta_Query = (example_query [\<lparr>col_Selector = [], col_Text = ''c'', col_Type = ''number'', col_TimeStampFormat = []\<rparr>] [] [] ''table''), meta_Error = ''empty selector''\<rparr>, ExecutedQueryString = []\<rparr>\<rparr>, Some (ErrorString ''empty selector''))"
    by simp
  from partial_failure_framing [OF dummy [of "[]" "''> 1''" "[]" "''table''"],
      where responseString = "''a,b''"
      and newFrame = ?nf and ?frame2.0 = "Some \<lparr>Name = ''A'', Fields = [97, 44, 98], Meta = Some \<lparr>Custom = Some \<lparr>meta_Query = (example_query [] ''> 1'' [] ''table''), meta_Error = []\<rparr>, ExecutedQueryString = []\<rparr>\<rparr>"
      and ?e3.0 = "ErrorString ''unexpected operator''"
      and ?f3.0 = "\<lparr>Name = ''A'', Fields = [97, 44, 98], Meta = Some \<lparr>Custom = Some \<lparr>meta_Query = (example_query [] ''> 1'' [] ''table''), meta_Error = []\<rparr>, ExecutedQueryString = []\<rparr>\<rparr>" and ?m3.0 = "\<lparr>Custom = Some \<lparr>meta_Query = (example_query [] ''> 1'' [] ''table''), meta_Error = []\<rparr>, ExecutedQueryString = []\<rparr>"] parse_ok computed_ok filter_fails
  have 3: "snd (GetCSVBackendResponse example_collaborators ''a,b'' (example_query [] ''> 1'' [] ''table'')) =
     Inr (Some \<lparr>Name = ''A'', Fields = [97, 44, 98], Meta = Some \<lparr>Custom = Some \<lparr>meta_Query = (example_query [] ''> 1'' [] ''table''), meta_Error = ''unexpected operator''\<rparr>, ExecutedQueryString = []\<rparr>\<rparr>,
          Some (WrapError ''error applying filter. '' (ErrorString ''unexpected operator'')))"
    by simp
  from 1 2 3 show ?thesis by (intro conjI)
qed

text \<open>
  Claim C9. After the three stages have succeeded with a frame: a summarize expression
  that is not blank makes the pipeline return what the summarizer returns, and the reshape
  is not called; the reshape is called only when the summarize expression is blank, the
  format is \<^verbatim>\<open>timeseries\<close> and the frame is long; when it succeeds its frame is returned,
  and when it fails, or the format or the shape is another, the frame of the filter is
  returned unchanged with a \<^verbatim>\<open>nil\<close> error.
\<close>

theorem summarize_priority_reshape_absorbed:
  assumes "GetDummyFrame E query = Some f0"
    and "CsvStringToFrame E (csv_text responseString query) (csv_options E query)
           = (newFrame, None)"
    and "GetFrameWithComputedColumns E (Some (parsed_frame f0 newFrame query))
           (ComputedColumns query) = (frame2, None)"
    and "ApplyFilter E frame2 (FilterExpression query) = (Some f3, None)"
  shows "(TrimSpace E (SummarizeExpression query) \<noteq> [] \<longrightarrow>
            snd (GetCSVBackendResponse E responseString query) =
              Inr (GetSummaryFrame E (Some f3) (SummarizeExpression query) (SummarizeBy query)) \<and>
            CallLongToWide \<notin> set (fst (GetCSVBackendResponse E responseString query))) \<and>
         (CallLongToWide \<in> set (fst (GetCSVBackendResponse E responseString query)) \<longleftrightarrow>
            TrimSpace E (SummarizeExpression query) = [] \<and> Format query = ''timeseries'' \<and>
            TimeSeriesSchemaType E f3 = TimeSeriesTypeLong) \<and>
         (TrimSpace E (SummarizeExpression query) = [] \<and> Format query = ''timeseries'' \<and>
          TimeSeriesSchemaType E f3 = TimeSeriesTypeLong \<and>
          LongToWide E (Some f3) = (wFrame, None) \<longrightarrow>
            snd (GetCSVBackendResponse E responseString query) = Inr (wFrame, None)) \<and>
         (TrimSpace E (SummarizeExpression query) = [] \<and>
          (Format query \<noteq> ''timeseries'' \<or> TimeSeriesSchemaType E f3 \<noteq> TimeSeriesTypeLong \<or>
           LongToWide E (Some f3) = (wFrame, Some err)) \<longrightarrow>
            snd (GetCSVBackendResponse E responseString query) = Inr (Some f3, None))"
proof -
  have run: "GetCSVBackendResponse E responseString query =
      (case summarize_or_reshape E (Some f3) query of
         (events, result) \<Rightarrow>
           (CallGetDummyFrame # CallCsvStringToFrame # CallGetFrameWithComputedColumns #
            CallApplyFilter # events, result))"
    using assms
    by (simp add: GetCSVBackendResponse_def after_parse_def after_filter_def
        split: prod.splits)
  show ?thesis
    unfolding run
    by (cases "LongToWide E (Some f3)"; cases "snd (LongToWide E (Some f3))")
       (auto simp: summarize_or_reshape_def split: prod.splits option.splits)
qed

theorem summarize_priority_reshape_absorbed_witness:
  "TrimSpace example_collaborators (SummarizeExpression (example_query [] [] '' sum(a) '' ''timeseries'')) \<noteq> [] \<and>
   GetCSVBackendResponse example_collaborators ''a,b'' (example_query [] [] '' sum(a) '' ''timeseries'') =
     ([CallGetDummyFrame, CallCsvStringToFrame, CallGetFrameWithComputedColumns,
       CallApplyFilter, CallGetSummaryFrame],
      Inr (Some \<lparr>Name = ''A'', Fields = [97], Meta = Some \<lparr>Custom = Some \<lparr>meta_Query = (example_query [] [] '' sum(a) '' ''timeseries''), meta_Error = []\<rparr>, ExecutedQueryString = []\<rparr>\<rparr>, None)) \<and>
   TrimSpace example_collaborators (SummarizeExpression (example_query [] [] ''  '' ''timeseries'')) = [] \<and>
   snd (GetCSVBackendResponse example_collaborators ''a,b'' (example_query [] [] ''  '' ''timeseries'')) = Inr (Some \<lparr>Name = ''A'', Fields = [98, 44, 97], Meta = Some \<lparr>Custom = Some \<lparr>meta_Query = (example_query [] [] ''  '' ''timeseries''), meta_Error = []\<rparr>, ExecutedQueryString = []\<rparr>\<rparr>, None) \<and>
   LongToWide example_collaborators (Some \<lparr>Name = ''A'', Fields = [97, 44, 98, 44, 99, 44, 100], Meta = Some \<lparr>Custom = Some \<lparr>meta_Query = (example_query [] [] ''  '' ''timeseries''), meta_Error = []\<rparr>, ExecutedQueryString = []\<rparr>\<rparr>) = (None, Some (ErrorString ''too many series'')) \<and>
   snd (GetCSVBackendResponse example_collaborators ''a,b,c,d'' (example_query [] [] ''  '' ''timeseries'')) = Inr (Some \<lparr>Name = ''A'', Fields = [97, 44, 98, 44, 99, 44, 100], Meta = Some \<lparr>Custom = Some \<lparr>meta_Query = (example_query [] [] ''  '' ''timeseries''), meta_Error = []\<rparr>, ExecutedQueryString = []\<rparr>\<rparr>, None)"
proof -
  let ?f0 = "\<lparr>Name = ''A'', Fields = [], Meta = None\<rparr>"
  let ?nf = "Some \<lparr>Name = ''A'', Fields = [97, 44, 98], Meta = None\<rparr>"
  let ?nf7 = "Some \<lparr>Name = ''A'', Fields = [97, 44, 98, 44, 99, 44, 100], Meta = None\<rparr>"
  have dummy: "GetDummyFrame example_collaborators (example_query c f s t) = Some ?f0" for c f s t
    by (simp add: example_collaborators_def example_query_def)
  have parse: "CsvStringToFrame example_collaborators (csv_text ''a,b'' (example_query [] [] s ''timeseries''))
        (csv_options example_collaborators (example_query [] [] s ''timeseries'')) = (?nf, None)"
    "CsvStringToFrame example_collaborators (csv_text ''a,b,c,d'' (example_query [] [] s ''timeseries''))
        (csv_options example_collaborators (example_query [] [] s ''timeseries'')) = (?nf7, None)" for s
    by (simp_all add: example_collaborators_def example_query_def csv_text_def csv_options_def
        )
  have parsed: "parsed_frame ?f0 ?nf q = \<lparr>Name = ''A'', Fields = [97, 44, 98], Meta = Some \<lparr>Custom = Some \<lparr>meta_Query = q, meta_Error = []\<rparr>, ExecutedQueryString = []\<rparr>\<rparr>"
    "parsed_frame ?f0 ?nf7 q = \<lparr>Name = ''A'', Fields = [97, 44, 98, 44, 99, 44, 100], Meta = Some \<lparr>Custom = Some \<lparr>meta_Query = q, meta_Error = []\<rparr>, ExecutedQueryString = []\<rparr>\<rparr>" for q
    by (simp_all add: parsed_frame_def with_query_meta_def)
  have computed: "GetFrameWithComputedColumns example_collaborators (Some f) (ComputedColumns (example_query [] [] s t))
      = (Some f, None)" for f s t
    by (simp add: example_collaborators_def example_query_def)
  have filtered: "ApplyFilter example_collaborators (Some f) (FilterExpression (example_query [] [] s t))
      = (Some f, None)" for f s t
    by (simp add: example_collaborators_def example_query_def)
  have blank: "TrimSpace example_collaborators (SummarizeExpression (example_query [] [] '' sum(a) '' ''timeseries'')) \<noteq> []"
    "TrimSpace example_collaborators (SummarizeExpression (example_query [] [] ''  '' ''timeseries'')) = []"
    by (simp_all add: example_collaborators_def example_query_def)
  have summary: "GetSummaryFrame example_collaborators (Some \<lparr>Name = ''A'', Fields = [97, 44, 98], Meta = Some \<lparr>Custom = Some \<lparr>meta_Query = (example_query [] [] '' sum(a) '' ''timeseries''), meta_Error = []\<rparr>, ExecutedQueryString = []\<rparr>\<rparr>) (SummarizeExpression (example_query [] [] '' sum(a) '' ''timeseries'')) (SummarizeBy (example_query [] [] '' sum(a) '' ''timeseries'')) =
      (Some \<lparr>Name = ''A'', Fields = [97], Meta = Some \<lparr>Custom = Some \<lparr>meta_Query = (example_query [] [] '' sum(a) '' ''timeseries''), meta_Error = []\<rparr>, ExecutedQueryString = []\<rparr>\<rparr>, None)"
    by (simp add: example_collaborators_def)
  have long: "TimeSeriesSchemaType example_collaborators \<lparr>Name = ''A'', Fields = [97, 44, 98], Meta = Some \<lparr>Custom = Some \<lparr>meta_Query = (example_query [] [] ''  '' ''timeseries''), meta_Error = []\<rparr>, ExecutedQueryString = []\<rparr>\<rparr> = TimeSeriesTypeLong"
    "TimeSeriesSchemaType example_collaborators \<lparr>Name = ''A'', Fields = [97, 44, 98, 44, 99, 44, 100], Meta = Some \<lparr>Custom = Some \<lparr>meta_Query = (example_query [] [] ''  '' ''timeseries''), meta_Error = []\<rparr>, ExecutedQueryString = []\<rparr>\<rparr> = TimeSeriesTypeLong"
    "Format (example_query [] [] ''  '' ''timeseries'') = ''timeseries''"
    by (simp_all add: example_collaborators_def example_query_def)
  have wide: "LongToWide example_collaborators (Some \<lparr>Name = ''A'', Fields = [97, 44, 98], Meta = Some \<lparr>Custom = Some \<lparr>meta_Query = (example_query [] [] ''  '' ''timeseries''), meta_Error = []\<rparr>, ExecutedQueryString = []\<rparr>\<rparr>) = (Some \<lparr>Name = ''A'', Fields = [98, 44, 97], Meta = Some \<lparr>Custom = Some \<lparr>meta_Query = (example_query [] [] ''  '' ''timeseries''), meta_Error = []\<rparr>, ExecutedQueryString = []\<rparr>\<rparr>, None)"
    "LongToWide example_collaborators (Some \<lparr>Name = ''A'', Fields = [97, 44, 98, 44, 99, 44, 100], Meta = Some \<lparr>Custom = Some \<lparr>meta_Query = (example_query [] [] ''  '' ''timeseries''), meta_Error = []\<rparr>, ExecutedQueryString = []\<rparr>\<rparr>) = (None, Some (ErrorString ''too many series''))"
    by (simp_all add: example_collaborators_def)
  note run4 = summarize_priority_reshape_absorbed [OF
      dummy [of "[]" "[]" "'' sum(a) ''" "''timeseries''"] parse(1) [of "'' sum(a) ''"]
      computed filtered, unfolded parsed]
  note run5 = summarize_priority_reshape_absorbed [OF
      dummy [of "[]" "[]" "''  ''" "''timeseries''"] parse(1) [of "''  ''"]
      computed filtered, unfolded parsed, where wFrame = "Some \<lparr>Name = ''A'', Fields = [98, 44, 97], Meta = Some \<lparr>Custom = Some \<lparr>meta_Query = (example_query [] [] ''  '' ''timeseries''), meta_Error = []\<rparr>, ExecutedQueryString = []\<rparr>\<rparr>"]
  note run7 = summarize_priority_reshape_absorbed [OF
      dummy [of "[]" "[]" "''  ''" "''timeseries''"] parse(2) [of "''  ''"]
      computed filtered, unfolded parsed, where wFrame = None
      and err = "ErrorString ''too many series''"]
  have 4: "GetCSVBackendResponse example_collaborators ''a,b'' (example_query [] [] '' sum(a) '' ''timeseries'') =
     ([CallGetDummyFrame, CallCsvStringToFrame, CallGetFrameWithComputedColumns,
       CallApplyFilter, CallGetSummaryFrame],
      Inr (Some \<lparr>Name = ''A'', Fields = [97], Meta = Some \<lparr>Custom = Some \<lparr>meta_Query = (example_query [] [] '' sum(a) '' ''timeseries''), meta_Error = []\<rparr>, ExecutedQueryString = []\<rparr>\<rparr>, None))"
    using run4 blank(1) summary
    by (simp add: GetCSVBackendResponse_def after_parse_def after_filter_def
        summarize_or_reshape_def dummy parse parsed computed filtered)
  have 5: "snd (GetCSVBackendResponse example_collaborators ''a,b'' (example_query [] [] ''  '' ''timeseries'')) = Inr (Some \<lparr>Name = ''A'', Fields = [98, 44, 97], Meta = Some \<lparr>Custom = Some \<lparr>meta_Query = (example_query [] [] ''  '' ''timeseries''), meta_Error = []\<rparr>, ExecutedQueryString = []\<rparr>\<rparr>, None)"
    using run5 blank(2) long wide by simp
  have 7: "snd (GetCSVBackendResponse example_collaborators ''a,b,c,d'' (example_query [] [] ''  '' ''timeseries'')) = Inr (Some \<lparr>Name = ''A'', Fields = [97, 44, 98, 44, 99, 44, 100], Meta = Some \<lparr>Custom = Some \<lparr>meta_Query = (example_query [] [] ''  '' ''timeseries''), meta_Error = []\<rparr>, ExecutedQueryString = []\<rparr>\<rparr>, None)"
    using run7 blank(2) long wide by simp
  from 4 5 7 blank wide(2) show ?thesis by (intro conjI)
qed

section \<open>Verified properties: label migration\<close>

lemma token_aliasPatterns:
  "token n = (case aliasPatterns n of Some t \<Rightarrow> t | None \<Rightarrow> ''${PROP('Dim.'' @ n @ ''')}'')"
  by (simp add: token_def aliasPatterns_def)

lemma closing_blank:
  assumes "list_all isSpace w"
  shows "closing (w @ ''}}'' @ s) = Some (length w + 2)"
proof -
  have "\<not> isSpace CHR ''}''" by (simp add: isSpace_def)
  with assms have "takeWhile isSpace (w @ ''}}'' @ s) = w"
    and "dropWhile isSpace (w @ ''}}'' @ s) = ''}}'' @ s"
    by (simp_all add: list_all_iff takeWhile_append2 dropWhile_append2)
  then show ?thesis by (simp add: closing_def)
qed

lemma closing_in_name:
  assumes "u \<noteq> []" "\<not> isSpace (last u)" "CHR ''}'' \<notin> set u"
  shows "closing (u @ s) = None"
proof -
  have ex: "\<exists>x \<in> set u. \<not> isSpace x"
    using assms(1,2) last_in_set by blast
  then have d: "dropWhile isSpace (u @ s) = dropWhile isSpace u @ s"
    by (auto simp: dropWhile_append1)
  from ex have ne: "dropWhile isSpace u \<noteq> []"
    by (simp add: dropWhile_eq_Nil_conv)
  then obtain c r where cr: "dropWhile isSpace u = c # r"
    by (cases "dropWhile isSpace u") auto
  then have "c \<in> set u"
    by (metis list.set_intros(1) set_dropWhileD)
  with assms(3) have "c \<noteq> CHR ''}''" by auto
  then show ?thesis by (simp add: closing_def d cr)
qed

lemma lazy_group_name:
  assumes "CHR ''}'' \<notin> set u" "CHR 0x0A \<notin> set u" "u = [] \<or> \<not> isSpace (last u)"
    and "list_all isSpace w"
  shows "lazy_group k (u @ w @ ''}}'' @ s) = Some (k + length u, length w + 2)"
  using assms(1-3)
proof (induction u arbitrary: k)
  case Nil
  obtain c cs where "w @ ''}}'' @ s = c # cs"
    by (cases "w @ ''}}'' @ s") auto
  with closing_blank [OF assms(4), of s] show ?case by simp
next
  case (Cons c u)
  have "closing ((c # u) @ w @ ''}}'' @ s) = None"
    using Cons.prems by (intro closing_in_name) auto
  moreover have "c \<noteq> CHR 0x0A" using Cons.prems by auto
  moreover have "u = [] \<or> \<not> isSpace (last u)" using Cons.prems by auto
  ultimately show ?case using Cons by simp
qed

lemma match_here_braces:
  assumes "plain p"
  shows "match_here (braces p @ s) = Some (length (braces p), name p)"
proof -
  from assms obtain c u where n: "name p = c # u"
    by (cases "name p") (auto simp: plain_def)
  from assms n have c: "\<not> isSpace c" "c \<noteq> CHR 0x0A"
    and u: "CHR ''}'' \<notin> set u" "CHR 0x0A \<notin> set u" "u = [] \<or> \<not> isSpace (last u)"
    and w1: "list_all isSpace (blanks1 p)" and w2: "list_all isSpace (blanks2 p)"
    by (auto simp: plain_def split: if_splits)
  let ?t = "name p @ blanks2 p @ ''}}'' @ s"
  have g: "group_at ?t = Some (length (name p), length (blanks2 p) + 2)"
    using lazy_group_name [OF u w2, of 1 s] c by (simp add: group_at_def n)
  have tw: "takeWhile isSpace (blanks1 p @ ?t) = blanks1 p"
    using w1 c by (simp add: n list_all_iff takeWhile_append2)
  have lead: "leading (length (blanks1 p)) (blanks1 p @ ?t) =
      Some (length (blanks1 p), length (name p), length (blanks2 p) + 2)"
    using g by (cases "length (blanks1 p)") auto
  have "drop 2 (braces p @ s) = blanks1 p @ ?t" "prefix ''{{'' (braces p @ s)"
    by (simp_all add: braces_def)
  then show ?thesis
    using tw lead by (simp add: match_here_def braces_def)
qed

lemma match_here_no_opening:
  "\<not> prefix ''{{'' s \<Longrightarrow> match_here s = None"
  by (simp add: match_here_def)

lemma no_opening_prefix:
  assumes "no_opening (c # u)"
  shows "\<not> prefix ''{{'' (c # u @ s)"
proof (cases u)
  case Nil
  with assms show ?thesis by auto
next
  case (Cons d u')
  with assms show ?thesis by auto
qed

lemma no_opening_tail: "no_opening (c # u) \<Longrightarrow> no_opening u"
  by (cases u) auto

lemma FindAll_no_opening:
  "no_opening u \<Longrightarrow> FindAllStringSubmatch (u @ s) = FindAllStringSubmatch s"
proof (induction u)
  case Nil
  then show ?case by simp
next
  case (Cons c u)
  from no_opening_prefix [OF Cons.prems] have "match_here (c # u @ s) = None"
    by (rule match_here_no_opening)
  with Cons.IH [OF no_opening_tail [OF Cons.prems]] show ?case by simp
qed

lemma rewrite_no_opening:
  "no_opening u \<Longrightarrow> rewrite_placeholders (u @ s) = u @ rewrite_placeholders s"
proof (induction u)
  case Nil
  then show ?case by simp
next
  case (Cons c u)
  from no_opening_prefix [OF Cons.prems] have "match_here (c # u @ s) = None"
    by (rule match_here_no_opening)
  with Cons.IH [OF no_opening_tail [OF Cons.prems]] show ?case by simp
qed

lemma replace_no_opening:
  assumes "prefix ''{{'' old"
  shows "no_opening u \<Longrightarrow> replace_from old new (u @ s) = u @ replace_from old new s"
proof (induction u)
  case Nil
  then show ?case by simp
next
  case (Cons c u)
  have "\<not> prefix old (c # u @ s)"
    using no_opening_prefix [OF Cons.prems, of s] assms prefix_order.trans by blast
  with Cons.IH [OF no_opening_tail [OF Cons.prems]] show ?case by simp
qed

lemma FindAll_braces:
  assumes "plain p"
  shows "FindAllStringSubmatch (braces p @ s) = (braces p, name p) # FindAllStringSubmatch s"
proof -
  obtain c r where cr: "braces p @ s = c # r"
    by (simp add: braces_def)
  from match_here_braces [OF assms, of s]
  have "FindAllStringSubmatch (c # r) =
      (take (length (braces p)) (c # r), name p) #
      FindAllStringSubmatch (drop (length (braces p)) (c # r))"
    unfolding cr by simp
  then show ?thesis
    unfolding cr [symmetric] by simp
qed

lemma rewrite_braces:
  assumes "plain p"
  shows "rewrite_placeholders (braces p @ s) = token (name p) @ rewrite_placeholders s"
proof -
  obtain c r where cr: "braces p @ s = c # r"
    by (simp add: braces_def)
  from match_here_braces [OF assms, of s]
  have "rewrite_placeholders (c # r) =
      token (name p) @ rewrite_placeholders (drop (length (braces p)) (c # r))"
    unfolding cr by simp
  then show ?thesis
    unfolding cr [symmetric] by simp
qed

lemma FindAll_render:
  assumes "\<forall>p \<in> set ps. plain p" "no_opening rest"
  shows "FindAllStringSubmatch (render ps rest) = map (\<lambda>p. (braces p, name p)) ps"
  using assms(1)
proof (induction ps)
  case Nil
  from FindAll_no_opening [OF assms(2), of "[]"] show ?case by (simp add: render_def)
next
  case (Cons p ps)
  then have p: "plain p" and "no_opening (before p)"
    by (simp_all add: plain_def)
  with Cons show ?case
    by (simp add: render_def FindAll_no_opening FindAll_braces)
qed

lemma rewrite_render:
  assumes "\<forall>p \<in> set ps. plain p" "no_opening rest"
  shows "rewrite_placeholders (render ps rest) = migrated ps rest"
  using assms(1)
proof (induction ps)
  case Nil
  from rewrite_no_opening [OF assms(2), of "[]"] show ?case
    by (simp add: render_def migrated_def)
next
  case (Cons p ps)
  then have p: "plain p" and "no_opening (before p)"
    by (simp_all add: plain_def)
  with Cons show ?case
    by (simp add: render_def migrated_def rewrite_no_opening rewrite_braces)
qed

lemma no_opening_append: "no_opening a \<Longrightarrow> no_opening b \<Longrightarrow> no_opening (a @ b)"
proof (induction a rule: no_opening.induct)
  case (2 c)
  then show ?case by (cases b) auto
qed auto

lemma no_opening_no_brace: "CHR ''{'' \<notin> set u \<Longrightarrow> no_opening u"
  by (induction u rule: no_opening.induct) auto

lemma no_opening_token:
  assumes "CHR ''{'' \<notin> set n"
  shows "no_opening (token n)"
proof -
  have a: "no_opening ''${PROP('Dim.''" by simp
  have b: "no_opening (n @ ''')}'')"
    using assms by (intro no_opening_no_brace) simp
  from no_opening_append [OF a b] show ?thesis by (simp add: token_def)
qed

lemma braces_tail:
  assumes "plain p"
  obtains u where "braces p = CHR ''{'' # u" "no_opening u"
proof
  let ?x = "blanks1 p @ name p @ blanks2 p @ ''}}''"
  show "braces p = CHR ''{'' # CHR ''{'' # ?x" by (simp add: braces_def)
  have "\<not> isSpace CHR ''{''" by (simp add: isSpace_def)
  with assms have "CHR ''{'' \<notin> set ?x"
    by (auto simp: plain_def list_all_iff)
  then have x: "no_opening ?x" by (rule no_opening_no_brace)
  obtain d r where dr: "?x = d # r" by (cases ?x) auto
  with \<open>CHR ''{'' \<notin> set ?x\<close> have "d \<noteq> CHR ''{''" by auto
  with x show "no_opening (CHR ''{'' # ?x)" unfolding dr by simp
qed

lemma braces_unique:
  assumes "plain p" "plain p0" "prefix (braces p0) (braces p @ s)"
  shows "braces p0 = braces p \<and> name p0 = name p"
proof -
  from assms(3) obtain t where t: "braces p @ s = braces p0 @ t"
    by (auto simp: prefix_def)
  from match_here_braces [OF assms(1), of s] match_here_braces [OF assms(2), of t]
  have len: "length (braces p0) = length (braces p)" and n: "name p0 = name p"
    unfolding t by simp_all
  from t len have "braces p0 = braces p" by (simp add: append_eq_append_conv)
  with n show ?thesis by simp
qed

lemma replace_braces_same:
  "replace_from (braces p0) new (braces p0 @ s) = new @ replace_from (braces p0) new s"
proof -
  obtain c r where cr: "braces p0 @ s = c # r" by (simp add: braces_def)
  have "braces p0 \<noteq> []" by (simp add: braces_def)
  moreover have "prefix (braces p0) (c # r)" unfolding cr [symmetric] by simp
  ultimately have "replace_from (braces p0) new (c # r) =
      new @ replace_from (braces p0) new (drop (length (braces p0)) (c # r))"
    by simp
  then show ?thesis unfolding cr [symmetric] by simp
qed

lemma replace_braces_other:
  assumes "plain p" "plain p0" "braces p \<noteq> braces p0"
  shows "replace_from (braces p0) new (braces p @ s) = braces p @ replace_from (braces p0) new s"
proof -
  from braces_tail [OF assms(1)] obtain u where u: "braces p = CHR ''{'' # u" "no_opening u"
    by blast
  have open0: "prefix ''{{'' (braces p0)" by (simp add: braces_def)
  from braces_unique [OF assms(1,2)] assms(3) have "\<not> prefix (braces p0) (braces p @ s)"
    by auto
  then have "replace_from (braces p0) new (braces p @ s) =
      CHR ''{'' # replace_from (braces p0) new (u @ s)"
    unfolding u by simp
  also have "replace_from (braces p0) new (u @ s) = u @ replace_from (braces p0) new s"
    using open0 u(2) by (rule replace_no_opening)
  finally show ?thesis unfolding u by simp
qed

lemma replace_progress:
  assumes "plain p0" "\<forall>p \<in> set ps. plain p" "no_opening rest"
  shows "replace_from (braces p0) (token (name p0)) (progress replaced ps rest) =
         progress (braces p0 # replaced) ps rest"
  using assms(2)
proof (induction ps)
  case Nil
  have "prefix ''{{'' (braces p0)" by (simp add: braces_def)
  from replace_no_opening [OF this assms(3), of "token (name p0)" "[]"]
  show ?case by (simp add: progress_def)
next
  case (Cons p ps)
  then have p: "plain p" and b: "no_opening (before p)"
    and IH: "replace_from (braces p0) (token (name p0)) (progress replaced ps rest) =
         progress (braces p0 # replaced) ps rest"
    by (simp_all add: plain_def)
  have open0: "prefix ''{{'' (braces p0)" by (simp add: braces_def)
  let ?R = "replace_from (braces p0) (token (name p0))"
  have skip: "?R (before p @ s) = before p @ ?R s" for s
    using open0 b by (rule replace_no_opening)
  show ?case
  proof (cases "braces p \<in> set replaced")
    case True
    from p have "no_opening (token (name p))"
      by (intro no_opening_token) (simp add: plain_def)
    with open0 have "?R (token (name p) @ s) = token (name p) @ ?R s" for s
      by (rule replace_no_opening)
    with True IH skip show ?thesis by (simp add: progress_def)
  next
    case False
    show ?thesis
    proof (cases "braces p = braces p0")
      case True
      with braces_unique [OF p assms(1), of "[]"] have "name p0 = name p" by simp
      with True False IH skip replace_braces_same [of p0] show ?thesis
        by (simp add: progress_def)
    next
      case other: False
      from replace_braces_other [OF p assms(1) other] False other IH skip show ?thesis
        by (simp add: progress_def)
    qed
  qed
qed

lemma replace_matches_progress:
  assumes "\<forall>p \<in> set ps. plain p" "no_opening rest"
  shows "\<forall>p \<in> set qs. plain p \<Longrightarrow>
         replace_matches (map (\<lambda>p. (braces p, name p)) qs) (progress replaced ps rest) =
         progress (rev (map braces qs) @ replaced) ps rest"
proof (induction qs arbitrary: replaced)
  case Nil
  then show ?case by simp
next
  case (Cons q qs)
  then have q: "plain q" and qs: "\<forall>p \<in> set qs. plain p" by simp_all
  have "braces q \<noteq> []" by (simp add: braces_def)
  then have step: "(case aliasPatterns (name q) of
            Some dynamicLabel \<Rightarrow> ReplaceAll (progress replaced ps rest) (braces q) dynamicLabel
          | None \<Rightarrow> ReplaceAll (progress replaced ps rest) (braces q)
                      (''${PROP('Dim.'' @ name q @ ''')}'')) =
        replace_from (braces q) (token (name q)) (progress replaced ps rest)"
    by (simp add: ReplaceAll_def token_aliasPatterns split: option.splits)
  show ?case
    using Cons.IH [OF qs, of "braces q # replaced"]
    by (simp add: step replace_progress [OF q assms])
qed

lemma progress_start: "progress [] ps rest = render ps rest"
  by (simp add: progress_def render_def)

lemma progress_end:
  assumes "braces ` set ps \<subseteq> set replaced"
  shows "progress replaced ps rest = migrated ps rest"
  using assms by (induction ps) (simp_all add: progress_def migrated_def)

lemma replace_matches_render:
  assumes "\<forall>p \<in> set ps. plain p" "no_opening rest"
  shows "replace_matches (FindAllStringSubmatch (render ps rest)) (render ps rest) = migrated ps rest"
proof -
  have "replace_matches (map (\<lambda>p. (braces p, name p)) ps) (progress [] ps rest) =
      progress (rev (map braces ps) @ []) ps rest"
    using assms assms(1) by (rule replace_matches_progress)
  also have "\<dots> = migrated ps rest"
    by (rule progress_end) auto
  finally show ?thesis
    by (simp add: FindAll_render [OF assms] progress_start)
qed

text \<open>
  Claim C6, as amended. An explicit label is returned as it is; without one, an empty
  alias gives the empty label, and so does any alias when dynamic labels are disabled.
  Otherwise, for an alias made of plain placeholders and of text without an opening, every
  placeholder is replaced by its token (the fixed table for \<^verbatim>\<open>metric\<close>, \<^verbatim>\<open>namespace\<close>,
  \<^verbatim>\<open>period\<close>, \<^verbatim>\<open>region\<close>, \<^verbatim>\<open>stat\<close> and \<^verbatim>\<open>label\<close>, a dimension lookup for any other name)
  and the text outside the placeholders is kept: the loop of \<^verbatim>\<open>getLabel\<close> gives what the
  one-pass rewrite of the specification gives.
\<close>

theorem getLabel_migration:
  "(mdq_Label q = Some label \<longrightarrow> getLabel q enabled = label) \<and>
   (mdq_Label q = None \<and> mdq_Alias q = [] \<longrightarrow> getLabel q enabled = []) \<and>
   (mdq_Label q = None \<and> \<not> enabled \<longrightarrow> getLabel q enabled = []) \<and>
   (mdq_Label q = None \<and> enabled \<and> mdq_Alias q = render ps rest \<and>
    (\<forall>p \<in> set ps. plain p) \<and> no_opening rest \<longrightarrow>
      getLabel q enabled = migrated ps rest \<and>
      getLabel q enabled = migrate_spec (mdq_Label q) (mdq_Alias q) enabled)"
proof (intro conjI impI)
  assume "mdq_Label q = Some label"
  then show "getLabel q enabled = label" by (simp add: getLabel_def)
next
  assume "mdq_Label q = None \<and> mdq_Alias q = []"
  then show "getLabel q enabled = []" by (simp add: getLabel_def)
next
  assume "mdq_Label q = None \<and> \<not> enabled"
  then show "getLabel q enabled = []" by (simp add: getLabel_def)
next
  assume a: "mdq_Label q = None \<and> enabled \<and> mdq_Alias q = render ps rest \<and>
    (\<forall>p \<in> set ps. plain p) \<and> no_opening rest"
  then have plain: "\<forall>p \<in> set ps. plain p" and rest: "no_opening rest" by simp_all
  have empty: "migrated ps rest = []" if "render ps rest = []"
    using that by (cases ps) (simp_all add: render_def migrated_def braces_def)
  from a replace_matches_render [OF plain rest] empty
  show code: "getLabel q enabled = migrated ps rest"
    by (auto simp: getLabel_def)
  from a rewrite_render [OF plain rest] empty
  have "migrate_spec (mdq_Label q) (mdq_Alias q) enabled = migrated ps rest"
    by (auto simp: migrate_spec_def)
  with code show "getLabel q enabled = migrate_spec (mdq_Label q) (mdq_Alias q) enabled"
    by simp
qed

theorem getLabel_migration_witness:
  "render [\<lparr>before = [], blanks1 = '' '', name = ''metric'', blanks2 = '' ''\<rparr>,
           \<lparr>before = '' - '', blanks1 = [], name = ''InstanceId'', blanks2 = []\<rparr>,
           \<lparr>before = '' '', blanks1 = ''  '', name = ''my dim'', blanks2 = ''  ''\<rparr>] '' (avg)''
     = ''{{ metric }} - {{InstanceId}} {{  my dim  }} (avg)'' \<and>
   getLabel \<lparr>mdq_Dimensions = [], mdq_Expression = [], mdq_Label = None, mdq_Id = [],
      mdq_MatchExact = None, mdq_MetricEditorMode = None, mdq_MetricName = ''CPUUtilization'',
      mdq_MetricQueryType = 0, mdq_Namespace = ''AWS/EC2'', mdq_Period = ''300'',
      mdq_Region = ''default'', mdq_SqlExpression = [], mdq_Statistic = Some ''Average'',
      mdq_Statistics = None, mdq_TimezoneUTCOffset = [], mdq_QueryType = ''timeSeriesQuery'',
      mdq_Hide = None, mdq_Alias = ''{{ metric }} - {{InstanceId}} {{  my dim  }} (avg)'',
      mdq_AccountId = None\<rparr> True =
     ''${PROP('MetricName')} - ${PROP('Dim.InstanceId')} ${PROP('Dim.my dim')} (avg)''"
proof -
  let ?ps = "[\<lparr>before = [], blanks1 = '' '', name = ''metric'', blanks2 = '' ''\<rparr>,
           \<lparr>before = '' - '', blanks1 = [], name = ''InstanceId'', blanks2 = []\<rparr>,
           \<lparr>before = '' '', blanks1 = ''  '', name = ''my dim'', blanks2 = ''  ''\<rparr>]"
  let ?q = "\<lparr>mdq_Dimensions = [], mdq_Expression = [], mdq_Label = None, mdq_Id = [],
      mdq_MatchExact = None, mdq_MetricEditorMode = None, mdq_MetricName = ''CPUUtilization'',
      mdq_MetricQueryType = 0, mdq_Namespace = ''AWS/EC2'', mdq_Period = ''300'',
      mdq_Region = ''default'', mdq_SqlExpression = [], mdq_Statistic = Some ''Average'',
      mdq_Statistics = None, mdq_TimezoneUTCOffset = [], mdq_QueryType = ''timeSeriesQuery'',
      mdq_Hide = None, mdq_Alias = ''{{ metric }} - {{InstanceId}} {{  my dim  }} (avg)'',
      mdq_AccountId = None\<rparr>"
  have rendered: "mdq_Alias ?q = render ?ps '' (avg)''"
    by (simp add: render_def braces_def)
  have plain: "\<forall>p \<in> set ?ps. plain p"
    by (simp add: plain_def isSpace_def)
  have rest: "no_opening '' (avg)''"
    by simp
  have result: "migrated ?ps '' (avg)'' =
      ''${PROP('MetricName')} - ${PROP('Dim.InstanceId')} ${PROP('Dim.my dim')} (avg)''"
    by (simp add: migrated_def token_def)
  from getLabel_migration [of ?q _ True ?ps "'' (avg)''"] rendered plain rest
  have "getLabel ?q True = migrated ?ps '' (avg)''"
    by simp
  with result rendered show ?thesis by simp
qed

text \<open>
  The claim as stated fails on an alias whose placeholder names hold braces: the token
  written for the first placeholder, with the text after it, holds the text of the
  second, and the second round of \<^verbatim>\<open>strings.ReplaceAll\<close> rewrites it there.
\<close>

theorem getLabel_migration_counterexample:
  "getLabel \<lparr>mdq_Dimensions = [], mdq_Expression = [], mdq_Label = None, mdq_Id = [],
      mdq_MatchExact = None, mdq_MetricEditorMode = None, mdq_MetricName = ''CPUUtilization'',
      mdq_MetricQueryType = 0, mdq_Namespace = ''AWS/EC2'', mdq_Period = ''300'',
      mdq_Region = ''default'', mdq_SqlExpression = [], mdq_Statistic = Some ''Average'',
      mdq_Statistics = None, mdq_TimezoneUTCOffset = [], mdq_QueryType = ''timeSeriesQuery'',
      mdq_Hide = None, mdq_Alias = ''{{{{b}}}}{{b')}}'',
      mdq_AccountId = None\<rparr> True =
     ''${PROP('Dim.${PROP('Dim.b')')}}${PROP('Dim.b')')}'' \<and>
   migrate_spec None ''{{{{b}}}}{{b')}}'' True = ''${PROP('Dim.{{b')}}}${PROP('Dim.b')')}''"
  by code_simp

end
